theory Spec2Isabelle
  imports Main "HOL-Library.Word"
begin

section \<open>User documents and the document store\<close>

text \<open>
  The controller and the middleware work on documents of the \<open>User\<close> model. A field that
  JavaScript leaves \<open>undefined\<close> is \<open>None\<close>. Time stamps are the milliseconds of
  \<open>Date.now()\<close>.
\<close>

record user =
  uid :: nat
  name :: "string option"
  email :: "string option"
  password :: "string option"
  isEmailVerified :: bool
  emailVerificationOTP :: "string option"
  emailVerificationExpire :: "int option"
  resetPasswordToken :: "string option"
  resetPasswordExpire :: "int option"
  googleId :: "string option"

type_synonym store = "user list"

text \<open>
  What the handlers take from their surroundings: the methods and hooks of the model, the
  libraries \<open>jsonwebtoken\<close> and \<open>crypto\<close>, and the process environment. A verification
  that throws is \<open>None\<close>; a decoded payload carries an optional \<open>id\<close>.
\<close>

record env =
  hashPassword :: "string \<Rightarrow> string"
  matchPassword :: "user \<Rightarrow> string \<Rightarrow> bool"
  getSignedJwtToken :: "user \<Rightarrow> string"
  jwt_verify :: "string \<Rightarrow> nat option option"
  sha256_hex :: "string \<Rightarrow> string"
  validate :: "user \<Rightarrow> bool"
  FRONTEND_URL :: "string option"

text \<open>
  Modelled from the spec: the \<open>User\<close> model (\<open>models/User\<close>) and the document store behind
  it are not among the sources. The store is the list of documents in insertion order;
  \<open>findOne\<close> returns the first document that satisfies the filter, \<open>findById\<close> the first one
  with the identifier, \<open>save\<close> writes a document back under its identifier, and \<open>create\<close>
  runs the schema's validators, hashes the password in the pre-save hook and appends the
  document under a fresh identifier. A failing validation throws, which is \<open>None\<close>.
\<close>

definition findOne :: "(user \<Rightarrow> bool) \<Rightarrow> store \<Rightarrow> user option" where
  "findOne flt db = find flt db"

definition findById :: "store \<Rightarrow> nat option \<Rightarrow> user option" where
  "findById db i = (case i of None \<Rightarrow> None | Some k \<Rightarrow> find (\<lambda>u. uid u = k) db)"

definition save :: "user \<Rightarrow> store \<Rightarrow> store" where
  "save u db = map (\<lambda>v. if uid v = uid u then u else v) db"

definition new_id :: "store \<Rightarrow> nat" where
  "new_id db = Suc (fold max (map uid db) 0)"

definition create ::
  "env \<Rightarrow> string option \<Rightarrow> string option \<Rightarrow> string option \<Rightarrow> string option \<Rightarrow> bool
     \<Rightarrow> store \<Rightarrow> (store \<times> user) option" where
  "create e nm em pw gid verified db =
     (let d = \<lparr>uid = new_id db, name = nm, email = em, password = pw,
                isEmailVerified = verified,
                emailVerificationOTP = None, emailVerificationExpire = None,
                resetPasswordToken = None, resetPasswordExpire = None,
                googleId = gid\<rparr>
      in if validate e d
         then (let d' = d\<lparr>password := map_option (hashPassword e) pw\<rparr>
               in Some (db @ [d'], d'))
         else None)"

section \<open>JavaScript values\<close>

text \<open>\<open>!x\<close> on an optional string: \<open>undefined\<close> and the empty string are falsy.\<close>

definition falsy :: "string option \<Rightarrow> bool" where
  "falsy x = (case x of None \<Rightarrow> True | Some s \<Rightarrow> s = [])"

text \<open>\<open>Number.prototype.toString()\<close> on a non-negative integer: its decimal digits.\<close>

definition digit_char :: "nat \<Rightarrow> char" where
  "digit_char d = ''0123456789'' ! (d mod 10)"

function toString :: "nat \<Rightarrow> string" where
  "toString n = (if n < 10 then [digit_char n] else toString (n div 10) @ [digit_char (n mod 10)])"
  by pat_completeness auto
termination
  by (relation "measure (\<lambda>n. n)") auto

declare toString.simps [simp del]

text \<open>
  JavaScript numbers are IEEE 754 doubles. The non-negative finite ones are modelled by a
  significand and a binary exponent: \<open>Double m e\<close> is the number \<open>m * 2 ^ e\<close>. Every
  operation computes the exact result and rounds it to 53 significant bits, to nearest with
  ties to even, and never below the exponent \<open>- 1074\<close> of the subnormal numbers. Overflow
  to \<open>Infinity\<close> is left out: the numbers below stay under \<open>2 ^ 20\<close>.
\<close>

datatype double = Double (significand: nat) (exponent: int)

fun bit_length :: "nat \<Rightarrow> nat" where
  "bit_length n = (if n = 0 then 0 else Suc (bit_length (n div 2)))"

declare bit_length.simps [simp del]

text \<open>\<open>m / 2 ^ s\<close> rounded to the nearest integer, a tie to the even one.\<close>

definition round_half_even :: "nat \<Rightarrow> nat \<Rightarrow> nat" where
  "round_half_even m s =
     (let q = m div 2 ^ s; r = m mod 2 ^ s
      in if 2 * r < 2 ^ s then q
         else if 2 ^ s < 2 * r then q + 1
         else if even q then q else q + 1)"

definition round53 :: "nat \<Rightarrow> int \<Rightarrow> double" where
  "round53 m e =
     (let s = nat (max (int (bit_length m) - 53) (- 1074 - e))
      in Double (round_half_even m s) (e + int s))"

definition fmul :: "double \<Rightarrow> double \<Rightarrow> double" where
  "fmul x y = round53 (significand x * significand y) (exponent x + exponent y)"

definition fadd :: "double \<Rightarrow> double \<Rightarrow> double" where
  "fadd x y =
     (let e = min (exponent x) (exponent y)
      in round53 (significand x * 2 ^ nat (exponent x - e) +
                  significand y * 2 ^ nat (exponent y - e)) e)"

definition Math_floor :: "double \<Rightarrow> nat" where
  "Math_floor x =
     (if 0 \<le> exponent x then significand x * 2 ^ nat (exponent x)
      else significand x div 2 ^ nat (- exponent x))"

text \<open>
  What \<open>Math.random()\<close> can return: a double from 0 up to, but not including, 1. These are
  the numbers \<open>m * 2 ^ e\<close> with \<open>m\<close> below \<open>2 ^ 53\<close> and \<open>e\<close> from \<open>- 1074\<close> to \<open>- 53\<close>.
\<close>

definition Math_random_range :: "double \<Rightarrow> bool" where
  "Math_random_range x \<longleftrightarrow>
     significand x < 2 ^ 53 \<and> - 1074 \<le> exponent x \<and> exponent x \<le> - 53"

text \<open>
  \<open>Math.floor(100000 + Math.random() * 900000).toString()\<close>, with what \<open>Math.random()\<close>
  returned as the argument.
\<close>

definition gen_otp :: "double \<Rightarrow> string" where
  "gen_otp rnd =
     toString (Math_floor (fadd (Double 100000 0) (fmul rnd (Double 900000 0))))"

text \<open>The number that a string of decimal digits denotes.\<close>

definition digit_value :: "char \<Rightarrow> nat" where
  "digit_value c = of_char c - 48"

definition decimal_value :: "string \<Rightarrow> nat" where
  "decimal_value s = foldl (\<lambda>a c. 10 * a + digit_value c) 0 s"

text \<open>\<open>Buffer.toString('hex')\<close> on the bytes that \<open>crypto.randomBytes\<close> returned.\<close>

definition hex_char :: "nat \<Rightarrow> char" where
  "hex_char d = ''0123456789abcdef'' ! (d mod 16)"

definition toString_hex :: "8 word list \<Rightarrow> string" where
  "toString_hex bs = concat (map (\<lambda>b. [hex_char (unat b div 16), hex_char (unat b mod 16)]) bs)"

text \<open>\<open>String.prototype.split(' ')\<close> and \<open>startsWith\<close>.\<close>

fun split_on :: "char \<Rightarrow> string \<Rightarrow> string list" where
  "split_on c [] = [[]]"
| "split_on c (x # xs) =
     (if x = c then [] # split_on c xs
      else (case split_on c xs of [] \<Rightarrow> [[x]] | w # ws \<Rightarrow> (x # w) # ws))"

definition startsWith :: "string \<Rightarrow> string \<Rightarrow> bool" where
  "startsWith s p = (take (length p) s = p)"

text \<open>\<open>xs[1]\<close>: \<open>undefined\<close> when the array has fewer than two elements.\<close>

definition second :: "'a list \<Rightarrow> 'a option" where
  "second xs = (case xs of _ # y # _ \<Rightarrow> Some y | _ \<Rightarrow> None)"

section \<open>Responses\<close>

datatype user_view = UserView nat "string option" "string option"

datatype mail =
    VerificationOTP "string option" string "string option"
  | PasswordReset "string option" string "string option"

text \<open>
  The JSON bodies the handlers send: \<open>{success: false, error}\<close>,
  \<open>{success: true, token, user, verificationNeeded}\<close>, \<open>{success: true, data}\<close> and
  \<open>{success: true, message, token, user}\<close>.
\<close>

datatype body =
    ErrorBody string
  | TokenBody string user_view bool
  | DataBody string
  | MessageBody string string user_view

fun success :: "body \<Rightarrow> bool" where
  "success (ErrorBody _) = False"
| "success (TokenBody _ _ _) = True"
| "success (DataBody _) = True"
| "success (MessageBody _ _ _) = True"

text \<open>A handler either responds with a status and a body or passes an error to \<open>next\<close>.\<close>

datatype outcome = Respond nat body | NextErr

text \<open>What a handler does to the outside, in the order it does it.\<close>

datatype event = Created user | Saved user | Mailed mail bool

record result =
  store_of :: store
  trace :: "event list"
  outcome :: outcome

definition sendTokenResponse :: "env \<Rightarrow> user \<Rightarrow> nat \<Rightarrow> bool \<Rightarrow> outcome" where
  "sendTokenResponse e u statusCode verificationNeeded =
     Respond statusCode
       (TokenBody (getSignedJwtToken e u) (UserView (uid u) (name u) (email u)) verificationNeeded)"

section \<open>The authentication controller\<close>

text \<open>
  Each handler takes the store, the fields of the request, and what it reads from outside
  while it runs: the clock \<open>now\<close>, the random draw, and whether the outbound email goes
  through (\<open>send_ok\<close>; the email utilities re-throw every failure to their caller).
\<close>

definition register ::
  "env \<Rightarrow> store \<Rightarrow> string option \<Rightarrow> string option \<Rightarrow> string option \<Rightarrow> int \<Rightarrow> double \<Rightarrow> bool
     \<Rightarrow> result" where
  "register e db b_name b_email b_password now rnd send_ok =
     (case findOne (\<lambda>u. email u = b_email) db of
        Some existingUser \<Rightarrow>
          \<lparr>store_of = db, trace = [],
           outcome = Respond 400 (ErrorBody ''Email already registered'')\<rparr>
      | None \<Rightarrow>
          (case create e b_name b_email b_password None False db of
             None \<Rightarrow> \<lparr>store_of = db, trace = [], outcome = NextErr\<rparr>
           | Some (db0, user0) \<Rightarrow>
               (let otp = gen_otp rnd;
                    user1 = user0\<lparr>emailVerificationOTP := Some otp,
                                  emailVerificationExpire := Some (now + 10 * 60 * 1000)\<rparr>;
                    db1 = save user1 db0;
                    m = VerificationOTP (email user1) otp (name user1)
                in if send_ok
                   then \<lparr>store_of = db1,
                         trace = [Created user0, Saved user1, Mailed m True],
                         outcome = sendTokenResponse e user1 201 True\<rparr>
                   else (let user2 = user1\<lparr>emailVerificationOTP := None,
                                             emailVerificationExpire := None\<rparr>
                         in \<lparr>store_of = save user2 db1,
                             trace = [Created user0, Saved user1, Mailed m False, Saved user2],
                             outcome = Respond 500 (ErrorBody
                               ''Registration initiated but verification email could not be sent. Please try again or contact support.'')\<rparr>))))"

definition login ::
  "env \<Rightarrow> store \<Rightarrow> string option \<Rightarrow> string option \<Rightarrow> int \<Rightarrow> double \<Rightarrow> bool \<Rightarrow> result" where
  "login e db b_email b_password now rnd send_ok =
     (if falsy b_email \<or> falsy b_password
      then \<lparr>store_of = db, trace = [],
            outcome = Respond 400 (ErrorBody ''Please provide an email and password'')\<rparr>
      else
        (case findOne (\<lambda>u. email u = b_email) db of
           None \<Rightarrow> \<lparr>store_of = db, trace = [],
                     outcome = Respond 401 (ErrorBody ''Invalid credentials'')\<rparr>
         | Some user0 \<Rightarrow>
             if \<not> matchPassword e user0 (case b_password of Some p \<Rightarrow> p | None \<Rightarrow> [])
             then \<lparr>store_of = db, trace = [],
                   outcome = Respond 401 (ErrorBody ''Invalid credentials'')\<rparr>
             else if \<not> isEmailVerified user0
             then (let otp = gen_otp rnd;
                       user1 = user0\<lparr>emailVerificationOTP := Some otp,
                                     emailVerificationExpire := Some (now + 10 * 60 * 1000)\<rparr>;
                       m = VerificationOTP (email user1) otp (name user1)
                   in \<lparr>store_of = save user1 db,
                       trace = [Saved user1, Mailed m send_ok],
                       outcome = sendTokenResponse e user1 200 True\<rparr>)
             else \<lparr>store_of = db, trace = [],
                   outcome = sendTokenResponse e user0 200 False\<rparr>))"

definition frontendUrl :: "env \<Rightarrow> string" where
  "frontendUrl e = (if falsy (FRONTEND_URL e) then ''http://localhost:5173''
                    else (case FRONTEND_URL e of Some s \<Rightarrow> s | None \<Rightarrow> []))"

definition forgotPassword ::
  "env \<Rightarrow> store \<Rightarrow> string option \<Rightarrow> int \<Rightarrow> 8 word list \<Rightarrow> bool \<Rightarrow> result" where
  "forgotPassword e db b_email now rb send_ok =
     (case findOne (\<lambda>u. email u = b_email) db of
        None \<Rightarrow> \<lparr>store_of = db, trace = [],
                  outcome = Respond 404 (ErrorBody ''There is no user with that email'')\<rparr>
      | Some user0 \<Rightarrow>
          (let resetToken = toString_hex rb;
               user1 = user0\<lparr>resetPasswordToken := Some (sha256_hex e resetToken),
                             resetPasswordExpire := Some (now + 30 * 60 * 1000)\<rparr>;
               db1 = save user1 db;
               resetUrl = frontendUrl e @ ''/reset-password/'' @ resetToken;
               m = PasswordReset (email user1) resetUrl (name user1)
           in if send_ok
              then \<lparr>store_of = db1, trace = [Saved user1, Mailed m True],
                    outcome = Respond 200 (DataBody ''Email sent'')\<rparr>
              else (let user2 = user1\<lparr>resetPasswordToken := None,
                                        resetPasswordExpire := None\<rparr>
                    in \<lparr>store_of = save user2 db1,
                        trace = [Saved user1, Mailed m False, Saved user2],
                        outcome = Respond 500 (ErrorBody ''Email could not be sent'')\<rparr>)))"

text \<open>The filter \<open>{resetPasswordToken, resetPasswordExpire: {$gt: Date.now()}}\<close>.\<close>

definition reset_filter :: "string \<Rightarrow> int \<Rightarrow> user \<Rightarrow> bool" where
  "reset_filter tok now u =
     (resetPasswordToken u = Some tok \<and>
      (case resetPasswordExpire u of None \<Rightarrow> False | Some t \<Rightarrow> now < t))"

definition resetPassword ::
  "env \<Rightarrow> store \<Rightarrow> string \<Rightarrow> string option \<Rightarrow> int \<Rightarrow> result" where
  "resetPassword e db resettoken b_password now =
     (let tok = sha256_hex e resettoken
      in case findOne (reset_filter tok now) db of
           None \<Rightarrow> \<lparr>store_of = db, trace = [],
                     outcome = Respond 400 (ErrorBody ''Invalid token'')\<rparr>
         | Some user0 \<Rightarrow>
             (let user1 = user0\<lparr>password := b_password,
                                resetPasswordToken := None,
                                resetPasswordExpire := None\<rparr>
              in if validate e user1
                 then (let user2 = user1\<lparr>password := map_option (hashPassword e) b_password\<rparr>
                       in \<lparr>store_of = save user2 db, trace = [Saved user2],
                           outcome = sendTokenResponse e user2 200 False\<rparr>)
                 else \<lparr>store_of = db, trace = [], outcome = NextErr\<rparr>))"

definition googleAuth ::
  "env \<Rightarrow> store \<Rightarrow> string option \<Rightarrow> string option \<Rightarrow> string option \<Rightarrow> 8 word list
     \<Rightarrow> result" where
  "googleAuth e db b_email b_name b_googleId rb =
     (if falsy b_email \<or> falsy b_name \<or> falsy b_googleId
      then \<lparr>store_of = db, trace = [],
            outcome = Respond 400 (ErrorBody ''Please provide email, name, and googleId'')\<rparr>
      else
        (case findOne (\<lambda>u. email u = b_email) db of
           Some user0 \<Rightarrow>
             if falsy (googleId user0)
             then (let user1 = user0\<lparr>googleId := b_googleId\<rparr>
                   in \<lparr>store_of = save user1 db, trace = [Saved user1],
                       outcome = sendTokenResponse e user1 200 False\<rparr>)
             else \<lparr>store_of = db, trace = [],
                   outcome = sendTokenResponse e user0 200 False\<rparr>
         | None \<Rightarrow>
             (let randomPassword = toString_hex rb
              in case create e b_name b_email (Some randomPassword) b_googleId True db of
                   None \<Rightarrow> \<lparr>store_of = db, trace = [], outcome = NextErr\<rparr>
                 | Some (db0, user0) \<Rightarrow>
                     \<lparr>store_of = db0, trace = [Created user0],
                      outcome = sendTokenResponse e user0 200 False\<rparr>)))"

text \<open>
  The filter \<open>{email, emailVerificationOTP: otp, emailVerificationExpire: {$gt: Date.now()}}\<close>.
\<close>

definition otp_filter :: "string option \<Rightarrow> string option \<Rightarrow> int \<Rightarrow> user \<Rightarrow> bool" where
  "otp_filter b_email b_otp now u =
     (email u = b_email \<and> emailVerificationOTP u = b_otp \<and>
      (case emailVerificationExpire u of None \<Rightarrow> False | Some t \<Rightarrow> now < t))"

definition verifyEmail ::
  "env \<Rightarrow> store \<Rightarrow> string option \<Rightarrow> string option \<Rightarrow> int \<Rightarrow> result" where
  "verifyEmail e db b_email b_otp now =
     (if falsy b_email \<or> falsy b_otp
      then \<lparr>store_of = db, trace = [],
            outcome = Respond 400 (ErrorBody ''Please provide email and OTP'')\<rparr>
      else
        (case findOne (otp_filter b_email b_otp now) db of
           None \<Rightarrow> \<lparr>store_of = db, trace = [],
                     outcome = Respond 400 (ErrorBody ''Invalid or expired OTP'')\<rparr>
         | Some user0 \<Rightarrow>
             (let user1 = user0\<lparr>isEmailVerified := True,
                                emailVerificationOTP := None,
                                emailVerificationExpire := None\<rparr>
              in \<lparr>store_of = save user1 db, trace = [Saved user1],
                  outcome = Respond 200
                    (MessageBody ''Account created successfully! Email verified.''
                       (getSignedJwtToken e user1)
                       (UserView (uid user1) (name user1) (email user1)))\<rparr>)))"

definition sendVerificationOTP ::
  "env \<Rightarrow> store \<Rightarrow> string option \<Rightarrow> int \<Rightarrow> double \<Rightarrow> bool \<Rightarrow> result" where
  "sendVerificationOTP e db b_email now rnd send_ok =
     (if falsy b_email
      then \<lparr>store_of = db, trace = [],
            outcome = Respond 400 (ErrorBody ''Please provide an email'')\<rparr>
      else
        (case findOne (\<lambda>u. email u = b_email) db of
           None \<Rightarrow> \<lparr>store_of = db, trace = [],
                     outcome = Respond 404 (ErrorBody ''User not found'')\<rparr>
         | Some user0 \<Rightarrow>
             (let otp = gen_otp rnd;
                  user1 = user0\<lparr>emailVerificationOTP := Some otp,
                                emailVerificationExpire := Some (now + 10 * 60 * 1000)\<rparr>;
                  db1 = save user1 db;
                  m = VerificationOTP (email user1) otp (name user1)
              in if send_ok
                 then \<lparr>store_of = db1, trace = [Saved user1, Mailed m True],
                       outcome = Respond 200 (DataBody ''Verification email sent'')\<rparr>
                 else (let user2 = user1\<lparr>emailVerificationOTP := None,
                                           emailVerificationExpire := None\<rparr>
                       in \<lparr>store_of = save user2 db1,
                           trace = [Saved user1, Mailed m False, Saved user2],
                           outcome = Respond 500 (ErrorBody
                             ''Email could not be sent. Please check server logs.'')\<rparr>))))"

section \<open>The authentication middleware\<close>

text \<open>
  \<open>req.user\<close> is \<open>undefined\<close> until a middleware assigns it; \<open>findById\<close> assigns \<open>null\<close>
  when no document has the identifier.
\<close>

datatype req_user = Unset | Null | Found user

record request =
  authorization :: "string option"
  req_user :: req_user

datatype mw_outcome = MwRespond nat body | Next request

definition bearer :: "request \<Rightarrow> bool" where
  "bearer req = (case authorization req of None \<Rightarrow> False
                 | Some a \<Rightarrow> a \<noteq> [] \<and> startsWith a ''Bearer'')"

definition header_token :: "request \<Rightarrow> string option" where
  "header_token req = (case authorization req of None \<Rightarrow> None
                       | Some a \<Rightarrow> second (split_on CHR '' '' a))"

text \<open>\<open>jwt.verify\<close> throws when it is given no token or an empty one.\<close>

definition verify :: "env \<Rightarrow> string option \<Rightarrow> nat option option" where
  "verify e tok = (if falsy tok then None
                   else (case tok of Some t \<Rightarrow> jwt_verify e t | None \<Rightarrow> None))"

definition lookup_user :: "store \<Rightarrow> nat option \<Rightarrow> req_user" where
  "lookup_user db i = (case findById db i of None \<Rightarrow> Null | Some u \<Rightarrow> Found u)"

definition protect :: "env \<Rightarrow> store \<Rightarrow> request \<Rightarrow> mw_outcome" where
  "protect e db req =
     (let token = (if bearer req then header_token req else None)
      in if falsy token
         then MwRespond 401 (ErrorBody ''Not authorized to access this route'')
         else (case verify e token of
                 None \<Rightarrow> MwRespond 401 (ErrorBody ''Not authorized to access this route'')
               | Some decoded \<Rightarrow>
                   (let req' = req\<lparr>req_user := lookup_user db decoded\<rparr>
                    in case req_user req' of
                         Found u \<Rightarrow> Next req'
                       | _ \<Rightarrow> MwRespond 401 (ErrorBody ''User not found''))))"

definition optionalAuth :: "env \<Rightarrow> store \<Rightarrow> request \<Rightarrow> mw_outcome" where
  "optionalAuth e db req =
     (if bearer req
      then (case verify e (header_token req) of
              None \<Rightarrow> Next req
            | Some decoded \<Rightarrow> Next (req\<lparr>req_user := lookup_user db decoded\<rparr>))
      else Next req)"

section \<open>States of the store\<close>

text \<open>
  The pending fields of a document come in pairs: a one-time password with its expiry, a
  reset token with its expiry.
\<close>

definition paired :: "user \<Rightarrow> bool" where
  "paired u =
     ((emailVerificationOTP u = None \<longleftrightarrow> emailVerificationExpire u = None) \<and>
      (resetPasswordToken u = None \<longleftrightarrow> resetPasswordExpire u = None))"

text \<open>No two documents of a store share an identifier or an email.\<close>

definition unique_users :: "store \<Rightarrow> bool" where
  "unique_users db \<longleftrightarrow> distinct (map uid db) \<and> distinct (map email db)"

text \<open>
  The stores that the controller can produce from the empty one. \<open>getMe\<close> only reads and
  is left out.
\<close>

inductive reachable :: "env \<Rightarrow> store \<Rightarrow> bool" for e :: env where
  initial: "reachable e []"
| by_register:
    "reachable e db \<Longrightarrow>
     reachable e (store_of (register e db b_name b_email b_password now rnd send_ok))"
| by_login:
    "reachable e db \<Longrightarrow> reachable e (store_of (login e db b_email b_password now rnd send_ok))"
| by_forgotPassword:
    "reachable e db \<Longrightarrow> reachable e (store_of (forgotPassword e db b_email now rb send_ok))"
| by_resetPassword:
    "reachable e db \<Longrightarrow> reachable e (store_of (resetPassword e db resettoken b_password now))"
| by_googleAuth:
    "reachable e db \<Longrightarrow> reachable e (store_of (googleAuth e db b_email b_name b_googleId rb))"
| by_verifyEmail:
    "reachable e db \<Longrightarrow> reachable e (store_of (verifyEmail e db b_email b_otp now))"
| by_sendVerificationOTP:
    "reachable e db \<Longrightarrow>
     reachable e (store_of (sendVerificationOTP e db b_email now rnd send_ok))"

section \<open>A sample environment\<close>

text \<open>
  Stand-ins for the libraries and one document, for running the handlers on concrete
  requests.
\<close>

definition sample_env :: env where
  "sample_env =
     \<lparr>hashPassword = (\<lambda>s. ''hash:'' @ s),
      matchPassword = (\<lambda>u p. password u = Some (''hash:'' @ p)),
      getSignedJwtToken = (\<lambda>u. ''jwt.'' @ toString (uid u)),
      jwt_verify = (\<lambda>t. if t = ''jwt.1'' then Some (Some 1)
                         else if t = ''jwt.7'' then Some (Some 7)
                         else if t = ''jwt.anon'' then Some None else None),
      sha256_hex = (\<lambda>s. ''sha:'' @ s),
      validate = (\<lambda>u. \<not> falsy (email u) \<and> \<not> falsy (password u)),
      FRONTEND_URL = None\<rparr>"

text \<open>The doubles 0 and 0.5.\<close>

definition zero_draw :: double where
  "zero_draw = Double 0 (- 53)"

definition half_draw :: double where
  "half_draw = Double 4503599627370496 (- 53)"

definition alice :: user where
  "alice = \<lparr>uid = 1, name = Some ''Alice'', email = Some ''a@x.io'',
            password = Some ''hash:pw'', isEmailVerified = False,
            emailVerificationOTP = None, emailVerificationExpire = None,
            resetPasswordToken = None, resetPasswordExpire = None, googleId = None\<rparr>"

section \<open>Facts about the store\<close>

lemma find_Some_D: "find P xs = Some x \<Longrightarrow> x \<in> set xs \<and> P x"
  by (induction xs) (auto split: if_splits)

lemma find_ex: "\<exists>x\<in>set xs. P x \<Longrightarrow> \<exists>y. find P xs = Some y"
  by (induction xs) auto

lemma save_save: "uid u2 = uid u1 \<Longrightarrow> save u2 (save u1 db) = save u2 db"
  by (induction db) (auto simp: save_def)

lemma fold_max_ge: "a \<le> fold max xs (a::nat)"
proof (induction xs arbitrary: a)
  case Nil show ?case by simp
next
  case (Cons x xs)
  have "a \<le> max x a" by simp
  also have "\<dots> \<le> fold max xs (max x a)" by (rule Cons.IH)
  finally show ?case by simp
qed

lemma fold_max_mem: "x \<in> set xs \<Longrightarrow> x \<le> fold max xs (a::nat)"
proof (induction xs arbitrary: a)
  case Nil then show ?case by simp
next
  case (Cons y ys)
  show ?case
  proof (cases "x = y")
    case True
    have "x \<le> max y a" using True by simp
    also have "\<dots> \<le> fold max ys (max y a)" by (rule fold_max_ge)
    finally show ?thesis by simp
  next
    case False
    with Cons.prems have "x \<in> set ys" by simp
    then show ?thesis using Cons.IH by simp
  qed
qed

lemma new_id_fresh: "v \<in> set db \<Longrightarrow> uid v \<noteq> new_id db"
proof -
  assume "v \<in> set db"
  then have "uid v \<in> set (map uid db)" by simp
  then have "uid v \<le> fold max (map uid db) 0" by (rule fold_max_mem)
  then show ?thesis by (simp add: new_id_def)
qed

lemma save_fresh: "\<forall>v\<in>set db. uid v \<noteq> uid u \<Longrightarrow> save u db = db"
  by (induction db) (auto simp: save_def)

lemma save_append_new:
  "\<forall>v\<in>set db. uid v \<noteq> uid d \<Longrightarrow> uid u = uid d \<Longrightarrow> save u (db @ [d]) = db @ [u]"
  using save_fresh [of db u] by (simp add: save_def)

lemma create_Some:
  "create e nm em pw gid vf db = Some (db0, user0) \<Longrightarrow>
     db0 = db @ [user0] \<and> uid user0 = new_id db \<and> name user0 = nm \<and> email user0 = em \<and>
     isEmailVerified user0 = vf \<and> googleId user0 = gid \<and>
     emailVerificationOTP user0 = None \<and> emailVerificationExpire user0 = None \<and>
     resetPasswordToken user0 = None \<and> resetPasswordExpire user0 = None"
  by (auto simp: create_def Let_def split: if_splits)

lemma register_fail:
  assumes "findOne (\<lambda>u. email u = b_email) db = None"
    and "create e b_name b_email b_password None False db = Some (db0, user0)"
  shows "outcome (register e db b_name b_email b_password now rnd False) = Respond 500 (ErrorBody
           ''Registration initiated but verification email could not be sent. Please try again or contact support.'')
       \<and> trace (register e db b_name b_email b_password now rnd False) =
           [Created user0,
            Saved (user0\<lparr>emailVerificationOTP := Some (gen_otp rnd),
                         emailVerificationExpire := Some (now + 600000)\<rparr>),
            Mailed (VerificationOTP b_email (gen_otp rnd) b_name) False,
            Saved user0]
       \<and> store_of (register e db b_name b_email b_password now rnd False) = db @ [user0]"
proof -
  note c = create_Some [OF assms(2)]
  have fresh: "\<forall>v\<in>set db. uid v \<noteq> uid user0" using c new_id_fresh by simp
  have clr: "user0\<lparr>emailVerificationOTP := None, emailVerificationExpire := None\<rparr> = user0"
    using c by simp
  show ?thesis
    using assms c clr fresh
    by (simp add: register_def Let_def save_save save_append_new)
qed

section \<open>One-time passwords\<close>

lemma digit_char_mem: "digit_char d \<in> set ''0123456789''"
proof -
  have "d mod 10 < length ''0123456789''" by simp
  then show ?thesis unfolding digit_char_def by (rule nth_mem)
qed

lemma toString_digits: "c \<in> set (toString n) \<Longrightarrow> c \<in> set ''0123456789''"
proof (induction n rule: toString.induct)
  case (1 n)
  show ?case
  proof (cases "n < 10")
    case True
    with "1.prems" have "c = digit_char n" by (simp add: toString.simps [of n])
    then show ?thesis using digit_char_mem by blast
  next
    case False
    with "1.prems" have "c \<in> set (toString (n div 10)) \<or> c = digit_char (n mod 10)"
      by (auto simp: toString.simps [of n])
    then show ?thesis using "1.IH" [OF False] digit_char_mem by blast
  qed
qed

lemma toString_length: "10 ^ k \<le> n \<Longrightarrow> n < 10 ^ Suc k \<Longrightarrow> length (toString n) = Suc k"
proof (induction k arbitrary: n)
  case 0
  then show ?case by (simp add: toString.simps [of n])
next
  case (Suc k)
  define x :: nat where "x = 10 ^ k"
  have pos: "1 \<le> x" by (simp add: x_def)
  from Suc.prems have b: "10 * x \<le> n" "n < 10 * (10 * x)" by (simp_all add: x_def)
  from b pos have ge: "10 \<le> n" by arith
  from b have "x \<le> n div 10" "n div 10 < 10 * x" by arith+
  then have "10 ^ k \<le> n div 10" "n div 10 < 10 ^ Suc k" by (simp_all add: x_def)
  then have "length (toString (n div 10)) = Suc k" by (rule Suc.IH)
  with ge show ?case by (simp add: toString.simps [of n])
qed

lemma bit_length_upper: "n < 2 ^ bit_length n"
proof (induction n rule: bit_length.induct)
  case (1 n)
  show ?case
  proof (cases "n = 0")
    case True
    then show ?thesis by (simp add: bit_length.simps [of n])
  next
    case False
    with "1.IH" have "n div 2 < 2 ^ bit_length (n div 2)" by simp
    then have "n < 2 * 2 ^ bit_length (n div 2)" by arith
    with False show ?thesis by (simp add: bit_length.simps [of n])
  qed
qed

lemma bit_length_lower: "n \<noteq> 0 \<Longrightarrow> 2 ^ (bit_length n - 1) \<le> n"
proof (induction n rule: bit_length.induct)
  case (1 n)
  show ?case
  proof (cases "n div 2 = 0")
    case True
    with "1.prems" have "n = 1" by arith
    then show ?thesis by (simp add: bit_length.simps [of "Suc 0"] bit_length.simps [of 0])
  next
    case False
    with "1.IH" "1.prems" have ih: "2 ^ (bit_length (n div 2) - 1) \<le> n div 2" by simp
    from False have "bit_length (n div 2) \<noteq> 0" by (simp add: bit_length.simps [of "n div 2"])
    then obtain k where k: "bit_length (n div 2) = Suc k" by (cases "bit_length (n div 2)") simp_all
    from ih k have "2 ^ k \<le> n div 2" by simp
    then have "2 * 2 ^ k \<le> n" by arith
    with "1.prems" k show ?thesis by (simp add: bit_length.simps [of n])
  qed
qed

lemma bit_length_le: "n < 2 ^ k \<Longrightarrow> bit_length n \<le> k"
proof (cases "n = 0")
  case True
  then show ?thesis by (simp add: bit_length.simps [of 0])
next
  case False
  assume "n < 2 ^ k"
  with bit_length_lower [OF False] have "(2::nat) ^ (bit_length n - 1) < 2 ^ k"
    by (rule le_less_trans)
  then have "bit_length n - 1 < k" by (rule power_less_imp_less_exp [rotated]) simp
  then show ?thesis by arith
qed

lemma rhe_lower: "g * 2 ^ s \<le> m \<Longrightarrow> g \<le> round_half_even m s"
proof -
  assume "g * 2 ^ s \<le> m"
  then have "g \<le> m div 2 ^ s" by (simp add: less_eq_div_iff_mult_less_eq)
  then show ?thesis by (simp add: round_half_even_def Let_def)
qed

lemma rhe_below_mid:
  assumes "2 * m < (2 * g + 1) * 2 ^ s"
  shows "round_half_even m s \<le> g"
proof -
  define q where "q = m div 2 ^ s"
  define r where "r = m mod 2 ^ s"
  define x :: nat where "x = 2 ^ s"
  have m: "m = q * x + r" unfolding q_def r_def x_def by (rule div_mult_mod_eq [symmetric])
  have r: "r < x" by (simp add: r_def x_def)
  have rd: "round_half_even m s =
      (if 2 * r < x then q else if x < 2 * r then q + 1 else if even q then q else q + 1)"
    by (simp add: round_half_even_def Let_def q_def r_def x_def)
  from assms have a: "2 * (q * x + r) < (2 * g + 1) * x" by (simp add: m x_def)
  have "q \<le> g"
  proof (rule ccontr)
    assume "\<not> q \<le> g"
    then have "g + 1 \<le> q" by simp
    then have "(g + 1) * x \<le> q * x" by (rule mult_le_mono1)
    with a show False by (simp add: algebra_simps)
  qed
  show ?thesis
  proof (cases "q = g")
    case True
    with a have "2 * r < x" by (simp add: algebra_simps)
    then show ?thesis using True by (simp add: rd)
  next
    case False
    with \<open>q \<le> g\<close> have "q + 1 \<le> g" by simp
    then show ?thesis by (simp add: rd)
  qed
qed

lemma rhe_upper: "m \<le> g * 2 ^ s \<Longrightarrow> round_half_even m s \<le> g"
proof -
  assume a: "m \<le> g * 2 ^ s"
  define x :: nat where "x = 2 ^ s"
  have "0 < x" by (simp add: x_def)
  moreover from a have "m \<le> g * x" by (simp add: x_def)
  ultimately have "2 * m < (2 * g + 1) * x" by (simp add: algebra_simps)
  then show ?thesis unfolding x_def by (rule rhe_below_mid)
qed

lemma round53_shift:
  assumes "- 1074 \<le> e"
  shows "round53 N e =
           Double (round_half_even N (bit_length N - 53)) (e + int (bit_length N - 53))"
proof -
  have "nat (max (int (bit_length N) - 53) (- 1074 - e)) = bit_length N - 53"
    using assms by (simp add: max_def; arith)
  then show ?thesis by (simp add: round53_def Let_def)
qed

lemma fmul_nat_right: "fmul (Double m e) (Double c 0) = round53 (m * c) e"
  by (simp add: fmul_def)

lemma fadd_nat_left:
  "e \<le> 0 \<Longrightarrow> fadd (Double c 0) (Double m e) = round53 (c * 2 ^ nat (- e) + m) e"
  by (simp add: fadd_def Let_def min_def)

lemma fmul_run:
  assumes m: "m < 2 ^ 53" and e: "e = - int (53 + k0)" and lo: "- 1074 \<le> e"
  defines "s \<equiv> bit_length (m * 900000) - 53"
  shows "s \<le> 20"
    and "fmul (Double m e) (Double 900000 0) =
           Double (round_half_even (m * 900000) s) (- int (33 + (20 - s + k0)))"
    and "round_half_even (m * 900000) s \<le> 7730941132799999 * 2 ^ (20 - s + k0)"
    and "- 1074 \<le> - int (33 + (20 - s + k0))"
proof -
  define P where "P = m * 900000"
  define j where "j = 20 - s + k0"
  have s: "s = bit_length P - 53" by (simp add: s_def P_def)
  from m have "P < 2 ^ 53 * 900000" by (simp add: P_def)
  also have "\<dots> < 2 ^ 73" by simp
  finally have "P < 2 ^ 73" .
  then have L: "bit_length P \<le> 73" by (rule bit_length_le)
  then show s20: "s \<le> 20" by (simp add: s)
  have ex: "e + int s = - int (33 + j)" using s20 by (simp add: e j_def)
  show "fmul (Double m e) (Double 900000 0) =
           Double (round_half_even (m * 900000) s) (- int (33 + (20 - s + k0)))"
    unfolding fmul_nat_right round53_shift [OF lo] P_def [symmetric] s [symmetric] ex j_def ..
  have "bit_length P \<le> 53 + s" by (simp add: s)
  then have "(2::nat) ^ bit_length P \<le> 2 ^ (53 + s)" by (rule power_increasing) simp
  with bit_length_upper [of P] have "P < 2 ^ (53 + s)" by (rule less_le_trans)
  then have "P \<le> 2 ^ 53 * 2 ^ s" by (simp only: power_add less_imp_le)
  then have top: "round_half_even P s \<le> 2 ^ 53" by (rule rhe_upper)
  have "round_half_even P s \<le> 7730941132799999 * 2 ^ j"
  proof (cases "j = 0")
    case True
    then have s': "s = 20" using s20 by (simp add: j_def)
    from m have "m \<le> 9007199254740991" by simp
    then have "2 * P < (2 * 7730941132799999 + 1) * 2 ^ 20" by (simp add: P_def)
    then have "round_half_even P 20 \<le> 7730941132799999" by (rule rhe_below_mid)
    with True s' show ?thesis by simp
  next
    case False
    then have "(2::nat) ^ 1 \<le> 2 ^ j" by (intro power_increasing) simp_all
    then have "(2::nat) \<le> 2 ^ j" by simp
    then have "7730941132799999 * (2::nat) \<le> 7730941132799999 * 2 ^ j" by (rule mult_le_mono2)
    moreover from top have "round_half_even P s \<le> 7730941132799999 * 2" by simp
    ultimately show ?thesis by (rule order_trans [rotated])
  qed
  then show "round_half_even (m * 900000) s \<le> 7730941132799999 * 2 ^ (20 - s + k0)"
    by (simp add: P_def j_def)
  show "- 1074 \<le> - int (33 + (20 - s + k0))" using lo ex by (simp add: j_def)
qed

lemma fadd_run:
  assumes b: "M' \<le> 7730941132799999 * 2 ^ j" and lo: "- 1074 \<le> - int (33 + j)"
  defines "s \<equiv> bit_length (100000 * 2 ^ (33 + j) + M') - 53"
  shows "s \<le> j"
    and "fadd (Double 100000 0) (Double M' (- int (33 + j))) =
           Double (round_half_even (100000 * 2 ^ (33 + j) + M') s) (- int (33 + (j - s)))"
    and "858993459200000 * 2 ^ (j - s) \<le> round_half_even (100000 * 2 ^ (33 + j) + M') s"
    and "round_half_even (100000 * 2 ^ (33 + j) + M') s \<le> 8589934591999999 * 2 ^ (j - s)"
proof -
  define e where "e = - int (33 + j)"
  define x :: nat where "x = 2 ^ j"
  define N where "N = 100000 * 2 ^ (33 + j) + M'"
  define i where "i = j - s"
  have s: "s = bit_length N - 53" by (simp add: s_def N_def)
  have ne: "nat (- e) = 33 + j" by (simp add: e_def)
  have e0: "e \<le> 0" by (simp add: e_def)
  have lo': "- 1074 \<le> e" using lo by (simp add: e_def)
  have N: "N = 858993459200000 * x + M'" by (simp add: N_def x_def power_add)
  from b have up: "N \<le> 8589934591999999 * x" by (simp add: N x_def)
  have low: "858993459200000 * x \<le> N" by (simp add: N)
  have "0 < x" by (simp add: x_def)
  with up have "N < 9007199254740992 * x" by simp
  also have "\<dots> = 2 ^ (53 + j)" by (simp add: x_def power_add)
  finally have "bit_length N \<le> 53 + j" by (rule bit_length_le)
  then show sj: "s \<le> j" by (simp add: s)
  have ex: "e + int s = - int (33 + i)" using sj by (simp add: i_def e_def)
  have "fadd (Double 100000 0) (Double M' e) = Double (round_half_even N s) (- int (33 + i))"
    unfolding fadd_nat_left [OF e0] round53_shift [OF lo'] ne N_def [symmetric] s [symmetric] ex ..
  then show "fadd (Double 100000 0) (Double M' (- int (33 + j))) =
           Double (round_half_even (100000 * 2 ^ (33 + j) + M') s) (- int (33 + (j - s)))"
    by (simp only: e_def N_def i_def)
  have x: "x = 2 ^ i * 2 ^ s" using sj by (simp add: x_def i_def power_add [symmetric])
  from low have "(858993459200000 * 2 ^ i) * 2 ^ s \<le> N" by (simp add: x mult.assoc)
  then have "858993459200000 * 2 ^ i \<le> round_half_even N s" by (rule rhe_lower)
  then show "858993459200000 * 2 ^ (j - s) \<le> round_half_even (100000 * 2 ^ (33 + j) + M') s"
    by (simp only: N_def i_def)
  from up have "N \<le> (8589934591999999 * 2 ^ i) * 2 ^ s" by (simp add: x mult.assoc)
  then have "round_half_even N s \<le> 8589934591999999 * 2 ^ i" by (rule rhe_upper)
  then show "round_half_even (100000 * 2 ^ (33 + j) + M') s \<le> 8589934591999999 * 2 ^ (j - s)"
    by (simp only: N_def i_def)
qed

lemma floor_step:
  assumes l: "858993459200000 * 2 ^ i \<le> N'" and u: "N' \<le> 8589934591999999 * 2 ^ i"
  shows "100000 \<le> Math_floor (Double N' (- int (33 + i))) \<and>
         Math_floor (Double N' (- int (33 + i))) \<le> 999999"
proof -
  define e where "e = - int (33 + i)"
  define d :: nat where "d = 2 ^ (33 + i)"
  have ne: "nat (- e) = 33 + i" and e0: "\<not> 0 \<le> e" by (simp_all add: e_def)
  have d: "d = 8589934592 * 2 ^ i" by (simp add: d_def power_add)
  have dpos: "0 < d" by (simp add: d_def)
  have fl: "Math_floor (Double N' e) = N' div d"
    using e0 by (simp add: Math_floor_def ne d_def)
  from l have "100000 * d \<le> N'" by (simp add: d)
  then have a: "100000 \<le> N' div d" using dpos by (simp add: less_eq_div_iff_mult_less_eq)
  define y :: nat where "y = 2 ^ i"
  have "0 < y" by (simp add: y_def)
  moreover from u have "N' \<le> 8589934591999999 * y" by (simp add: y_def)
  ultimately have "N' < 8589934592000000 * y" by arith
  then have "N' < 1000000 * d" by (simp add: d y_def)
  then have "N' div d < 1000000" using dpos by (simp add: div_less_iff_less_mult)
  with a have "100000 \<le> Math_floor (Double N' e) \<and> Math_floor (Double N' e) \<le> 999999"
    by (simp add: fl)
  then show ?thesis unfolding e_def .
qed

lemma floor_run: "Math_floor (Double N' (- int (33 + i))) = N' div 2 ^ (33 + i)"
proof -
  define e where "e = - int (33 + i)"
  have ne: "nat (- e) = 33 + i" and e0: "\<not> 0 \<le> e" by (simp_all add: e_def)
  have "Math_floor (Double N' e) = N' div 2 ^ (33 + i)"
    using e0 by (simp add: Math_floor_def ne)
  then show ?thesis by (simp only: e_def)
qed

lemma otp_number_range:
  assumes "Math_random_range rnd"
  shows "100000 \<le> Math_floor (fadd (Double 100000 0) (fmul rnd (Double 900000 0))) \<and>
         Math_floor (fadd (Double 100000 0) (fmul rnd (Double 900000 0))) \<le> 999999"
proof -
  obtain m e where rnd: "rnd = Double m e" by (cases rnd)
  from assms rnd have m: "m < 2 ^ 53" and lo: "- 1074 \<le> e" and hi: "e \<le> - 53"
    by (simp_all add: Math_random_range_def)
  define k0 where "k0 = nat (- 53 - e)"
  have e: "e = - int (53 + k0)" using hi by (simp add: k0_def)
  note fm = fmul_run [OF m e lo]
  note fa = fadd_run [OF fm(3) fm(4)]
  show ?thesis unfolding rnd fm(2) fa(2) by (rule floor_step [OF fa(3) fa(4)])
qed

lemma rhe_error:
  "2 * (round_half_even m s * 2 ^ s) \<le> 2 * m + 2 ^ s \<and>
   2 * m \<le> 2 * (round_half_even m s * 2 ^ s) + 2 ^ s"
proof -
  define q where "q = m div 2 ^ s"
  define r where "r = m mod 2 ^ s"
  define x :: nat where "x = 2 ^ s"
  have m: "m = q * x + r" unfolding q_def r_def x_def by (rule div_mult_mod_eq [symmetric])
  define R where "R = round_half_even m s"
  have rd: "R = (if 2 * r < x then q else if x < 2 * r then q + 1 else if even q then q else q + 1)"
    by (simp add: R_def round_half_even_def Let_def q_def r_def x_def)
  have r: "r < x" by (simp add: r_def x_def)
  have "2 * (R * x) \<le> 2 * (q * x + r) + x \<and> 2 * (q * x + r) \<le> 2 * (R * x) + x"
    using r by (auto simp: rd algebra_simps)
  then have "2 * (R * x) \<le> 2 * m + x \<and> 2 * m \<le> 2 * (R * x) + x"
    by (simp only: m [symmetric])
  then show ?thesis by (simp only: R_def x_def)
qed

lemma close_arith:
  fixes a b c n N' M' P K E :: nat
  assumes K: "K = c * b * a" and a1: "1 \<le> a" and b1: "1 \<le> b" and E: "a * b \<le> E"
    and r1: "2 * (M' * a) \<le> 2 * P + a" and r1': "2 * P \<le> 2 * (M' * a) + a"
    and r2: "2 * (N' * b) \<le> 2 * (100000 * (c * b) + M') + b"
    and r2': "2 * (100000 * (c * b) + M') \<le> 2 * (N' * b) + b"
    and f1: "n * c \<le> N'" and f2: "N' + 1 \<le> (n + 1) * c"
  shows "n * K \<le> 100000 * K + P + E \<and> 100000 * K + P \<le> (n + 1) * K"
proof -
  define X where "X = N' * (b * a)"
  define Y where "Y = M' * a"
  define Z where "Z = a * b"
  from b1 have aZ: "a \<le> Z" by (simp add: Z_def)
  from f1 have "n * c * (b * a) \<le> N' * (b * a)" by (rule mult_le_mono1)
  then have u1: "n * K \<le> X" by (simp add: K X_def mult.assoc)
  from f2 have "(N' + 1) * (b * a) \<le> (n + 1) * c * (b * a)" by (rule mult_le_mono1)
  then have l1: "X + Z \<le> (n + 1) * K" by (simp add: K X_def Z_def algebra_simps)
  from r2 have "2 * (N' * b) * a \<le> (2 * (100000 * (c * b) + M') + b) * a" by (rule mult_le_mono1)
  then have u2: "2 * X \<le> 2 * (100000 * K) + 2 * Y + Z"
    by (simp add: K X_def Y_def Z_def algebra_simps)
  from r2' have "2 * (100000 * (c * b) + M') * a \<le> (2 * (N' * b) + b) * a" by (rule mult_le_mono1)
  then have l2: "2 * (100000 * K) + 2 * Y \<le> 2 * X + Z"
    by (simp add: K X_def Y_def Z_def algebra_simps)
  from r1 have u3: "2 * Y \<le> 2 * P + a" by (simp add: Y_def)
  from r1' have l3: "2 * P \<le> 2 * Y + a" by (simp add: Y_def)
  from E have ZE: "Z \<le> E" by (simp add: Z_def)
  from u1 u2 u3 aZ ZE have "n * K \<le> 100000 * K + P + E" by linarith
  moreover from l1 l2 l3 aZ have "100000 * K + P \<le> (n + 1) * K" by linarith
  ultimately show ?thesis ..
qed

lemma otp_number_close:
  assumes "Math_random_range (Double m e)"
  shows "Math_floor (fadd (Double 100000 0) (fmul (Double m e) (Double 900000 0))) * 2 ^ nat (- e)
           \<le> 100000 * 2 ^ nat (- e) + 900000 * m + 2 ^ nat (- e - 33) \<and>
         100000 * 2 ^ nat (- e) + 900000 * m
           \<le> (Math_floor (fadd (Double 100000 0) (fmul (Double m e) (Double 900000 0))) + 1)
               * 2 ^ nat (- e)"
proof -
  from assms have m: "m < 2 ^ 53" and lo: "- 1074 \<le> e" and hi: "e \<le> - 53"
    by (simp_all add: Math_random_range_def)
  define k0 where "k0 = nat (- 53 - e)"
  have e: "e = - int (53 + k0)" using hi by (simp add: k0_def)
  define P where "P = m * 900000"
  define s where "s = bit_length P - 53"
  define j where "j = 20 - s + k0"
  define M' where "M' = round_half_even P s"
  note fm = fmul_run [OF m e lo, folded P_def, folded s_def, folded j_def, folded M'_def]
  define N where "N = 100000 * 2 ^ (33 + j) + M'"
  define s2 where "s2 = bit_length N - 53"
  define i where "i = j - s2"
  define N' where "N' = round_half_even N s2"
  note fa = fadd_run [OF fm(3) fm(4), folded N_def, folded s2_def, folded i_def, folded N'_def]
  define n where "n = N' div 2 ^ (33 + i)"
  have run: "Math_floor (fadd (Double 100000 0) (fmul (Double m e) (Double 900000 0))) = n"
    unfolding fm(2) fa(2) floor_run n_def ..
  define a :: nat where "a = 2 ^ s"
  define b :: nat where "b = 2 ^ s2"
  define c :: nat where "c = 2 ^ (33 + i)"
  have sj: "s + j = 20 + k0" using fm(1) by (simp add: j_def)
  have is2: "i + s2 = j" using fa(1) by (simp add: i_def)
  have cb: "c * b = 2 ^ (33 + j)" unfolding c_def b_def power_add [symmetric] using is2
    by (simp add: add.assoc)
  have K: "2 ^ nat (- e) = c * b * a"
  proof -
    have "nat (- e) = 33 + j + s" using sj by (simp add: e)
    then show ?thesis by (simp add: cb a_def power_add)
  qed
  have E: "a * b \<le> 2 ^ nat (- e - 33)"
  proof -
    have "nat (- e - 33) = s + j" using sj by (simp add: e)
    moreover have "s + s2 \<le> s + j" using fa(1) by simp
    then have "(2::nat) ^ (s + s2) \<le> 2 ^ (s + j)" by (rule power_increasing) simp
    ultimately show ?thesis by (simp add: a_def b_def power_add)
  qed
  have a1: "1 \<le> a" and b1: "1 \<le> b" by (simp_all add: a_def b_def)
  from rhe_error [of P s] have r1: "2 * (M' * a) \<le> 2 * P + a" and r1': "2 * P \<le> 2 * (M' * a) + a"
    by (simp_all add: M'_def a_def)
  have Ncb: "N = 100000 * (c * b) + M'" by (simp only: N_def cb)
  note re = rhe_error [of N s2, folded N'_def b_def]
  have r2: "2 * (N' * b) \<le> 2 * (100000 * (c * b) + M') + b"
    using re [THEN conjunct1] by (simp only: Ncb)
  have r2': "2 * (100000 * (c * b) + M') \<le> 2 * (N' * b) + b"
    using re [THEN conjunct2] by (simp only: Ncb)
  have cpos: "0 < c" by (simp add: c_def)
  have f1: "n * c \<le> N'" unfolding n_def c_def by (rule div_times_less_eq_dividend)
  have "N' < (n + 1) * c"
    unfolding n_def c_def using dividend_less_div_times [of "2 ^ (33 + i)" N'] by (simp add: algebra_simps)
  then have f2: "N' + 1 \<le> (n + 1) * c" by simp
  from close_arith [OF K a1 b1 E r1 r1' r2 r2' f1 f2]
  show ?thesis unfolding run by (simp add: P_def mult.commute)
qed

lemma gen_otp_six_digits:
  assumes "Math_random_range rnd"
  shows "length (gen_otp rnd) = 6 \<and> (\<forall>c\<in>set (gen_otp rnd). c \<in> set ''0123456789'')"
proof -
  from otp_number_range [OF assms]
  have "10 ^ 5 \<le> Math_floor (fadd (Double 100000 0) (fmul rnd (Double 900000 0)))"
    and "Math_floor (fadd (Double 100000 0) (fmul rnd (Double 900000 0))) < 10 ^ Suc 5"
    by simp_all
  then have "length (gen_otp rnd) = Suc 5"
    unfolding gen_otp_def by (rule toString_length)
  moreover have "\<forall>c\<in>set (gen_otp rnd). c \<in> set ''0123456789''"
    unfolding gen_otp_def using toString_digits by blast
  ultimately show ?thesis by simp
qed

lemma digit_value_digit_char: "digit_value (digit_char d) = d mod 10"
proof -
  have "d mod 10 < 10" by simp
  then have "d mod 10 = 0 \<or> d mod 10 = 1 \<or> d mod 10 = 2 \<or> d mod 10 = 3 \<or> d mod 10 = 4 \<or>
      d mod 10 = 5 \<or> d mod 10 = 6 \<or> d mod 10 = 7 \<or> d mod 10 = 8 \<or> d mod 10 = 9"
    by arith
  then show ?thesis by (auto simp: digit_value_def digit_char_def)
qed

lemma decimal_value_snoc:
  "decimal_value (s @ [c]) = 10 * decimal_value s + digit_value c"
  by (simp add: decimal_value_def)

lemma decimal_value_toString: "decimal_value (toString n) = n"
proof (induction n rule: toString.induct)
  case (1 n)
  show ?case
  proof (cases "n < 10")
    case True
    then show ?thesis
      by (simp add: toString.simps [of n] decimal_value_def digit_value_digit_char)
  next
    case False
    with "1.IH" have "decimal_value (toString (n div 10)) = n div 10" by simp
    with False show ?thesis
      by (simp add: toString.simps [of n] decimal_value_snoc digit_value_digit_char)
  qed
qed

lemma gen_otp_number:
  assumes "Math_random_range rnd"
  shows "decimal_value (gen_otp rnd) =
           Math_floor (fadd (Double 100000 0) (fmul rnd (Double 900000 0)))"
    and "decimal_value (gen_otp rnd) * 2 ^ nat (- exponent rnd)
           \<le> 100000 * 2 ^ nat (- exponent rnd) + 900000 * significand rnd +
              2 ^ nat (- exponent rnd - 33)"
    and "100000 * 2 ^ nat (- exponent rnd) + 900000 * significand rnd
           \<le> (decimal_value (gen_otp rnd) + 1) * 2 ^ nat (- exponent rnd)"
    and "100000 \<le> decimal_value (gen_otp rnd)"
    and "decimal_value (gen_otp rnd) \<le> 999999"
proof -
  obtain m e where rnd: "rnd = Double m e" by (cases rnd)
  show dv: "decimal_value (gen_otp rnd) =
           Math_floor (fadd (Double 100000 0) (fmul rnd (Double 900000 0)))"
    by (simp add: gen_otp_def decimal_value_toString)
  from assms have r: "Math_random_range (Double m e)" by (simp add: rnd)
  note c = otp_number_close [OF r]
  show "decimal_value (gen_otp rnd) * 2 ^ nat (- exponent rnd)
           \<le> 100000 * 2 ^ nat (- exponent rnd) + 900000 * significand rnd +
              2 ^ nat (- exponent rnd - 33)"
    unfolding dv using c [THEN conjunct1] by (simp only: rnd double.sel)
  show "100000 * 2 ^ nat (- exponent rnd) + 900000 * significand rnd
           \<le> (decimal_value (gen_otp rnd) + 1) * 2 ^ nat (- exponent rnd)"
    unfolding dv using c [THEN conjunct2] by (simp only: rnd double.sel)
  from otp_number_range [OF assms]
  show "100000 \<le> decimal_value (gen_otp rnd)" and "decimal_value (gen_otp rnd) \<le> 999999"
    unfolding dv by simp_all
qed

lemma toString_nonempty: "toString n \<noteq> []"
  by (cases "n < 10") (simp_all add: toString.simps [of n])

lemma gen_otp_truthy: "\<not> falsy (Some (gen_otp rnd))"
  by (simp add: falsy_def gen_otp_def toString_nonempty)

lemma save_mem: "u \<in> set db \<Longrightarrow> uid u' = uid u \<Longrightarrow> u' \<in> set (save u' db)"
  by (induction db) (auto simp: save_def)

lemma save_all_uid:
  "v \<in> set (save u db) \<Longrightarrow> uid v = uid u \<Longrightarrow> v = u"
  by (auto simp: save_def split: if_splits)

lemma findOne_Some_D: "findOne P db = Some u \<Longrightarrow> u \<in> set db \<and> P u"
  unfolding findOne_def by (rule find_Some_D)

lemma findOne_None_iff: "findOne P db = None \<longleftrightarrow> (\<forall>u\<in>set db. \<not> P u)"
  unfolding findOne_def by (induction db) auto

lemma forgotPassword_fail:
  assumes "findOne (\<lambda>u. email u = b_email) db = Some user0"
  shows "forgotPassword e db b_email now rb False =
     \<lparr>store_of = save (user0\<lparr>resetPasswordToken := None, resetPasswordExpire := None\<rparr>) db,
      trace = [Saved (user0\<lparr>resetPasswordToken := Some (sha256_hex e (toString_hex rb)),
                           resetPasswordExpire := Some (now + 30 * 60 * 1000)\<rparr>),
               Mailed (PasswordReset (email user0)
                         (frontendUrl e @ ''/reset-password/'' @ toString_hex rb) (name user0)) False,
               Saved (user0\<lparr>resetPasswordToken := None, resetPasswordExpire := None\<rparr>)],
      outcome = Respond 500 (ErrorBody ''Email could not be sent'')\<rparr>"
  using assms by (simp add: forgotPassword_def Let_def save_save)

lemma forgotPassword_sent:
  assumes "findOne (\<lambda>u. email u = b_email) db = Some user0"
  shows "forgotPassword e db b_email now rb True =
     \<lparr>store_of = save (user0\<lparr>resetPasswordToken := Some (sha256_hex e (toString_hex rb)),
                           resetPasswordExpire := Some (now + 30 * 60 * 1000)\<rparr>) db,
      trace = [Saved (user0\<lparr>resetPasswordToken := Some (sha256_hex e (toString_hex rb)),
                           resetPasswordExpire := Some (now + 30 * 60 * 1000)\<rparr>),
               Mailed (PasswordReset (email user0)
                         (frontendUrl e @ ''/reset-password/'' @ toString_hex rb) (name user0)) True],
      outcome = Respond 200 (DataBody ''Email sent'')\<rparr>"
  using assms by (simp add: forgotPassword_def Let_def)

lemma sendVerificationOTP_fail:
  assumes "findOne (\<lambda>u. email u = b_email) db = Some user0" and "\<not> falsy b_email"
  shows "sendVerificationOTP e db b_email now rnd False =
     \<lparr>store_of = save (user0\<lparr>emailVerificationOTP := None, emailVerificationExpire := None\<rparr>) db,
      trace = [Saved (user0\<lparr>emailVerificationOTP := Some (gen_otp rnd),
                           emailVerificationExpire := Some (now + 10 * 60 * 1000)\<rparr>),
               Mailed (VerificationOTP (email user0) (gen_otp rnd) (name user0)) False,
               Saved (user0\<lparr>emailVerificationOTP := None, emailVerificationExpire := None\<rparr>)],
      outcome = Respond 500 (ErrorBody ''Email could not be sent. Please check server logs.'')\<rparr>"
  using assms by (simp add: sendVerificationOTP_def Let_def save_save)

lemma sendVerificationOTP_sent:
  assumes "findOne (\<lambda>u. email u = b_email) db = Some user0" and "\<not> falsy b_email"
  shows "sendVerificationOTP e db b_email now rnd True =
     \<lparr>store_of = save (user0\<lparr>emailVerificationOTP := Some (gen_otp rnd),
                           emailVerificationExpire := Some (now + 10 * 60 * 1000)\<rparr>) db,
      trace = [Saved (user0\<lparr>emailVerificationOTP := Some (gen_otp rnd),
                           emailVerificationExpire := Some (now + 10 * 60 * 1000)\<rparr>),
               Mailed (VerificationOTP (email user0) (gen_otp rnd) (name user0)) True],
      outcome = Respond 200 (DataBody ''Verification email sent'')\<rparr>"
  using assms by (simp add: sendVerificationOTP_def Let_def)

lemma login_unverified:
  assumes "findOne (\<lambda>u. email u = b_email) db = Some user0"
    and "\<not> falsy b_email" and "b_password = Some pw" and "pw \<noteq> []"
    and "matchPassword e user0 pw" and "\<not> isEmailVerified user0"
  shows "login e db b_email b_password now rnd send_ok =
     \<lparr>store_of = save (user0\<lparr>emailVerificationOTP := Some (gen_otp rnd),
                           emailVerificationExpire := Some (now + 10 * 60 * 1000)\<rparr>) db,
      trace = [Saved (user0\<lparr>emailVerificationOTP := Some (gen_otp rnd),
                           emailVerificationExpire := Some (now + 10 * 60 * 1000)\<rparr>),
               Mailed (VerificationOTP (email user0) (gen_otp rnd) (name user0)) send_ok],
      outcome = sendTokenResponse e (user0\<lparr>emailVerificationOTP := Some (gen_otp rnd),
                           emailVerificationExpire := Some (now + 10 * 60 * 1000)\<rparr>) 200 True\<rparr>"
  using assms by (simp add: login_def Let_def falsy_def)

lemma register_sent:
  assumes "findOne (\<lambda>u. email u = b_email) db = None"
    and "create e b_name b_email b_password None False db = Some (db0, user0)"
  shows "register e db b_name b_email b_password now rnd True =
     \<lparr>store_of = db @ [user0\<lparr>emailVerificationOTP := Some (gen_otp rnd),
                            emailVerificationExpire := Some (now + 10 * 60 * 1000)\<rparr>],
      trace = [Created user0,
               Saved (user0\<lparr>emailVerificationOTP := Some (gen_otp rnd),
                            emailVerificationExpire := Some (now + 10 * 60 * 1000)\<rparr>),
               Mailed (VerificationOTP b_email (gen_otp rnd) b_name) True],
      outcome = sendTokenResponse e (user0\<lparr>emailVerificationOTP := Some (gen_otp rnd),
                            emailVerificationExpire := Some (now + 10 * 60 * 1000)\<rparr>) 201 True\<rparr>"
proof -
  note c = create_Some [OF assms(2)]
  have fresh: "\<forall>v\<in>set db. uid v \<noteq> uid user0" using c new_id_fresh by simp
  show ?thesis
    using assms c fresh by (simp add: register_def Let_def save_append_new)
qed

section \<open>The pairing of the pending fields is preserved\<close>

lemma paired_save: "\<forall>v\<in>set db. paired v \<Longrightarrow> paired u \<Longrightarrow> \<forall>v\<in>set (save u db). paired v"
  by (auto simp: save_def)

lemma paired_create:
  "create e nm em pw gid vf db = Some (db0, user0) \<Longrightarrow> \<forall>v\<in>set db. paired v \<Longrightarrow>
     paired user0 \<and> (\<forall>v\<in>set db0. paired v)"
  by (auto simp: create_def Let_def paired_def split: if_splits)

lemma paired_register:
  assumes "\<forall>v\<in>set db. paired v"
  shows "\<forall>v\<in>set (store_of (register e db b_name b_email b_password now rnd send_ok)). paired v"
proof (cases "findOne (\<lambda>u. email u = b_email) db")
  case (Some u)
  then show ?thesis using assms by (simp add: register_def)
next
  case None
  show ?thesis
  proof (cases "create e b_name b_email b_password None False db")
    case None
    with \<open>findOne (\<lambda>u. email u = b_email) db = None\<close> show ?thesis
      using assms by (simp add: register_def)
  next
    case (Some p)
    obtain db0 user0 where p: "p = (db0, user0)" by (cases p)
    from Some p paired_create [of e b_name b_email b_password None False db db0 user0] assms
    have pu: "paired user0" and pdb: "\<forall>v\<in>set db0. paired v" by simp_all
    have p1: "paired (user0\<lparr>emailVerificationOTP := Some (gen_otp rnd),
                            emailVerificationExpire := Some (now + 10 * 60 * 1000)\<rparr>)"
      using pu by (simp add: paired_def)
    have p2: "paired (user0\<lparr>emailVerificationOTP := None, emailVerificationExpire := None\<rparr>)"
      using pu by (simp add: paired_def)
    note s1 = paired_save [OF pdb p1]
    note s2 = paired_save [OF s1 p2]
    show ?thesis
      using None Some p s1 s2 by (cases send_ok) (simp_all add: register_def Let_def)
  qed
qed

lemma paired_login:
  assumes "\<forall>v\<in>set db. paired v"
  shows "\<forall>v\<in>set (store_of (login e db b_email b_password now rnd send_ok)). paired v"
proof (cases "findOne (\<lambda>u. email u = b_email) db")
  case None
  then show ?thesis using assms by (simp add: login_def)
next
  case (Some user0)
  then have "paired user0" using assms findOne_Some_D by blast
  then have p1: "paired (user0\<lparr>emailVerificationOTP := Some (gen_otp rnd),
                            emailVerificationExpire := Some (now + 10 * 60 * 1000)\<rparr>)"
    by (simp add: paired_def)
  note s1 = paired_save [OF assms p1]
  show ?thesis using Some assms s1 by (simp add: login_def Let_def)
qed

lemma paired_forgotPassword:
  assumes "\<forall>v\<in>set db. paired v"
  shows "\<forall>v\<in>set (store_of (forgotPassword e db b_email now rb send_ok)). paired v"
proof (cases "findOne (\<lambda>u. email u = b_email) db")
  case None
  then show ?thesis using assms by (simp add: forgotPassword_def)
next
  case (Some user0)
  then have pu: "paired user0" using assms findOne_Some_D by blast
  have p1: "paired (user0\<lparr>resetPasswordToken := Some (sha256_hex e (toString_hex rb)),
                           resetPasswordExpire := Some (now + 30 * 60 * 1000)\<rparr>)"
    using pu by (simp add: paired_def)
  have p2: "paired (user0\<lparr>resetPasswordToken := None, resetPasswordExpire := None\<rparr>)"
    using pu by (simp add: paired_def)
  show ?thesis
  proof (cases send_ok)
    case True
    then show ?thesis using forgotPassword_sent [OF Some] paired_save [OF assms p1] by simp
  next
    case False
    then show ?thesis using forgotPassword_fail [OF Some] paired_save [OF assms p2] by simp
  qed
qed

lemma paired_resetPassword:
  assumes "\<forall>v\<in>set db. paired v"
  shows "\<forall>v\<in>set (store_of (resetPassword e db resettoken b_password now)). paired v"
proof (cases "findOne (reset_filter (sha256_hex e resettoken) now) db")
  case None
  then show ?thesis using assms by (simp add: resetPassword_def)
next
  case (Some user0)
  then have pu: "paired user0" using assms findOne_Some_D by blast
  have p1: "paired (user0\<lparr>resetPasswordToken := None, resetPasswordExpire := None,
                           password := map_option (hashPassword e) b_password\<rparr>)"
    using pu by (simp add: paired_def)
  show ?thesis using Some assms paired_save [OF assms p1]
    by (simp add: resetPassword_def Let_def)
qed

lemma paired_googleAuth:
  assumes "\<forall>v\<in>set db. paired v"
  shows "\<forall>v\<in>set (store_of (googleAuth e db b_email b_name b_googleId rb)). paired v"
proof (cases "findOne (\<lambda>u. email u = b_email) db")
  case (Some user0)
  then have pu: "paired user0" using assms findOne_Some_D by blast
  then have p1: "paired (user0\<lparr>googleId := b_googleId\<rparr>)" by (simp add: paired_def)
  show ?thesis using Some assms paired_save [OF assms p1]
    by (simp add: googleAuth_def Let_def)
next
  case None
  show ?thesis
  proof (cases "create e b_name b_email (Some (toString_hex rb)) b_googleId True db")
    case None
    with \<open>findOne (\<lambda>u. email u = b_email) db = None\<close> show ?thesis
      using assms by (simp add: googleAuth_def)
  next
    case (Some p)
    obtain db0 user0 where p: "p = (db0, user0)" by (cases p)
    from Some p paired_create [of e b_name b_email _ b_googleId True db db0 user0] assms
    have pdb: "\<forall>v\<in>set db0. paired v" by simp
    show ?thesis using None Some p pdb assms by (simp add: googleAuth_def Let_def)
  qed
qed

lemma paired_verifyEmail:
  assumes "\<forall>v\<in>set db. paired v"
  shows "\<forall>v\<in>set (store_of (verifyEmail e db b_email b_otp now)). paired v"
proof (cases "findOne (otp_filter b_email b_otp now) db")
  case None
  then show ?thesis using assms by (simp add: verifyEmail_def)
next
  case (Some user0)
  then have pu: "paired user0" using assms findOne_Some_D by blast
  have p1: "paired (user0\<lparr>isEmailVerified := True, emailVerificationOTP := None,
                           emailVerificationExpire := None\<rparr>)"
    using pu by (simp add: paired_def)
  show ?thesis using Some assms paired_save [OF assms p1]
    by (simp add: verifyEmail_def Let_def)
qed

lemma paired_sendVerificationOTP:
  assumes "\<forall>v\<in>set db. paired v"
  shows "\<forall>v\<in>set (store_of (sendVerificationOTP e db b_email now rnd send_ok)). paired v"
proof (cases "findOne (\<lambda>u. email u = b_email) db")
  case None
  then show ?thesis using assms by (simp add: sendVerificationOTP_def)
next
  case (Some user0)
  then have pu: "paired user0" using assms findOne_Some_D by blast
  have p1: "paired (user0\<lparr>emailVerificationOTP := Some (gen_otp rnd),
                            emailVerificationExpire := Some (now + 10 * 60 * 1000)\<rparr>)"
    using pu by (simp add: paired_def)
  have p2: "paired (user0\<lparr>emailVerificationOTP := None, emailVerificationExpire := None\<rparr>)"
    using pu by (simp add: paired_def)
  show ?thesis using Some assms paired_save [OF assms p1] paired_save [OF paired_save [OF assms p1] p2]
    by (simp add: sendVerificationOTP_def Let_def)
qed

lemma reachable_paired: "reachable e db \<Longrightarrow> \<forall>v\<in>set db. paired v"
proof (induction rule: reachable.induct)
  case initial
  show ?case by simp
next
  case (by_register db b_name b_email b_password now rnd send_ok)
  then show ?case by (intro paired_register)
next
  case (by_login db b_email b_password now rnd send_ok)
  then show ?case by (intro paired_login)
next
  case (by_forgotPassword db b_email now rb send_ok)
  then show ?case by (intro paired_forgotPassword)
next
  case (by_resetPassword db resettoken b_password now)
  then show ?case by (intro paired_resetPassword)
next
  case (by_googleAuth db b_email b_name b_googleId rb)
  then show ?case by (intro paired_googleAuth)
next
  case (by_verifyEmail db b_email b_otp now)
  then show ?case by (intro paired_verifyEmail)
next
  case (by_sendVerificationOTP db b_email now rnd send_ok)
  then show ?case by (intro paired_sendVerificationOTP)
qed

section \<open>What the handlers do, case by case\<close>

lemma find_save:
  "u \<in> set db \<Longrightarrow> uid u' = uid u \<Longrightarrow> Q u' \<Longrightarrow> \<forall>v\<in>set db. \<not> Q v \<Longrightarrow>
     find Q (save u' db) = Some u'"
  by (induction db) (auto simp: save_def)

lemma resetPassword_found:
  assumes "findOne (reset_filter (sha256_hex e resettoken) now) db = Some user0"
  shows "resetPassword e db resettoken b_password now =
     (if validate e (user0\<lparr>password := b_password, resetPasswordToken := None,
                          resetPasswordExpire := None\<rparr>)
      then \<lparr>store_of = save (user0\<lparr>resetPasswordToken := None, resetPasswordExpire := None,
                               password := map_option (hashPassword e) b_password\<rparr>) db,
            trace = [Saved (user0\<lparr>resetPasswordToken := None, resetPasswordExpire := None,
                               password := map_option (hashPassword e) b_password\<rparr>)],
            outcome = sendTokenResponse e
                        (user0\<lparr>resetPasswordToken := None, resetPasswordExpire := None,
                               password := map_option (hashPassword e) b_password\<rparr>) 200 False\<rparr>
      else \<lparr>store_of = db, trace = [], outcome = NextErr\<rparr>)"
  using assms by (simp add: resetPassword_def Let_def)

lemma resetPassword_rejects_iff:
  "outcome (resetPassword e db resettoken b_password now) = Respond 400 (ErrorBody ''Invalid token'')
     \<longleftrightarrow> \<not> (\<exists>u\<in>set db. resetPasswordToken u = Some (sha256_hex e resettoken) \<and>
              (\<exists>t. resetPasswordExpire u = Some t \<and> now < t))"
proof (cases "findOne (reset_filter (sha256_hex e resettoken) now) db")
  case None
  then have "\<forall>u\<in>set db. \<not> reset_filter (sha256_hex e resettoken) now u"
    by (simp add: findOne_None_iff)
  then have "\<not> (\<exists>u\<in>set db. resetPasswordToken u = Some (sha256_hex e resettoken) \<and>
              (\<exists>t. resetPasswordExpire u = Some t \<and> now < t))"
    by (auto simp: reset_filter_def)
  moreover from None have "outcome (resetPassword e db resettoken b_password now) =
      Respond 400 (ErrorBody ''Invalid token'')"
    by (simp add: resetPassword_def)
  ultimately show ?thesis by simp
next
  case (Some user0)
  then have "user0 \<in> set db" and "reset_filter (sha256_hex e resettoken) now user0"
    using findOne_Some_D [of "reset_filter (sha256_hex e resettoken) now" db user0] by simp_all
  then have ex: "\<exists>u\<in>set db. resetPasswordToken u = Some (sha256_hex e resettoken) \<and>
              (\<exists>t. resetPasswordExpire u = Some t \<and> now < t)"
    by (auto simp: reset_filter_def split: option.splits)
  have "outcome (resetPassword e db resettoken b_password now) \<noteq>
      Respond 400 (ErrorBody ''Invalid token'')"
    by (simp add: resetPassword_found [OF Some] sendTokenResponse_def)
  with ex show ?thesis by simp
qed

lemma forgot_then_late:
  assumes f: "findOne (\<lambda>u. email u = b_email) db = Some user0"
    and fresh: "\<forall>v\<in>set db. resetPasswordToken v \<noteq> Some (sha256_hex e (toString_hex rb))"
    and late: "now + 30 * 60 * 1000 \<le> now'"
  shows "outcome (resetPassword e (store_of (forgotPassword e db b_email now rb True))
                    (toString_hex rb) b_password now') = Respond 400 (ErrorBody ''Invalid token'')"
proof -
  have "\<not> (\<exists>u\<in>set (store_of (forgotPassword e db b_email now rb True)).
            resetPasswordToken u = Some (sha256_hex e (toString_hex rb)) \<and>
            (\<exists>t. resetPasswordExpire u = Some t \<and> now' < t))"
    using fresh late by (auto simp: forgotPassword_sent [OF f] save_def split: if_splits)
  then show ?thesis by (simp add: resetPassword_rejects_iff)
qed

lemma verifyEmail_found:
  assumes "findOne (otp_filter b_email b_otp now) db = Some user0"
    and "\<not> falsy b_email" and "\<not> falsy b_otp"
  shows "verifyEmail e db b_email b_otp now =
     \<lparr>store_of = save (user0\<lparr>isEmailVerified := True, emailVerificationOTP := None,
                             emailVerificationExpire := None\<rparr>) db,
      trace = [Saved (user0\<lparr>isEmailVerified := True, emailVerificationOTP := None,
                           emailVerificationExpire := None\<rparr>)],
      outcome = Respond 200
        (MessageBody ''Account created successfully! Email verified.''
           (getSignedJwtToken e (user0\<lparr>isEmailVerified := True, emailVerificationOTP := None,
                                       emailVerificationExpire := None\<rparr>))
           (UserView (uid user0) (name user0) (email user0)))\<rparr>"
  using assms by (simp add: verifyEmail_def Let_def)

lemma verifyEmail_success_clears:
  assumes "outcome (verifyEmail e db b_email b_otp now) = Respond 200 b"
  shows "\<exists>u. trace (verifyEmail e db b_email b_otp now) = [Saved u] \<and>
             u \<in> set (store_of (verifyEmail e db b_email b_otp now)) \<and> isEmailVerified u \<and>
             emailVerificationOTP u = None \<and> emailVerificationExpire u = None"
proof (cases "falsy b_email \<or> falsy b_otp")
  case True
  with assms show ?thesis by (simp add: verifyEmail_def)
next
  case False
  show ?thesis
  proof (cases "findOne (otp_filter b_email b_otp now) db")
    case None
    with False assms show ?thesis by (simp add: verifyEmail_def)
  next
    case (Some user0)
    then have mem: "user0 \<in> set db" using findOne_Some_D by blast
    have "user0\<lparr>isEmailVerified := True, emailVerificationOTP := None,
                emailVerificationExpire := None\<rparr>
          \<in> set (save (user0\<lparr>isEmailVerified := True, emailVerificationOTP := None,
                              emailVerificationExpire := None\<rparr>) db)"
      using mem by (intro save_mem [of user0]) simp_all
    then show ?thesis using False by (simp add: verifyEmail_found [OF Some])
  qed
qed

lemma resetPassword_success_clears:
  assumes "outcome (resetPassword e db resettoken b_password now) = Respond 200 b"
  shows "\<exists>u. trace (resetPassword e db resettoken b_password now) = [Saved u] \<and>
             u \<in> set (store_of (resetPassword e db resettoken b_password now)) \<and>
             resetPasswordToken u = None \<and> resetPasswordExpire u = None"
proof (cases "findOne (reset_filter (sha256_hex e resettoken) now) db")
  case None
  with assms show ?thesis by (simp add: resetPassword_def)
next
  case (Some user0)
  then have mem: "user0 \<in> set db" using findOne_Some_D by blast
  have "user0\<lparr>resetPasswordToken := None, resetPasswordExpire := None,
              password := map_option (hashPassword e) b_password\<rparr>
        \<in> set (save (user0\<lparr>resetPasswordToken := None, resetPasswordExpire := None,
                            password := map_option (hashPassword e) b_password\<rparr>) db)"
    using mem by (intro save_mem [of user0]) simp_all
  then show ?thesis using assms
    by (simp add: resetPassword_found [OF Some] split: if_splits)
qed

lemma register_failed_send_clears:
  assumes "Mailed m False \<in> set (trace (register e db b_name b_email b_password now rnd send_ok))"
  shows "\<exists>u. last (trace (register e db b_name b_email b_password now rnd send_ok)) = Saved u \<and>
             u \<in> set (store_of (register e db b_name b_email b_password now rnd send_ok)) \<and>
             emailVerificationOTP u = None \<and> emailVerificationExpire u = None"
proof (cases "findOne (\<lambda>u. email u = b_email) db")
  case (Some u)
  with assms show ?thesis by (simp add: register_def)
next
  case None
  show ?thesis
  proof (cases "create e b_name b_email b_password None False db")
    case None
    with \<open>findOne (\<lambda>u. email u = b_email) db = None\<close> assms show ?thesis
      by (simp add: register_def)
  next
    case (Some p)
    obtain db0 user0 where p: "p = (db0, user0)" by (cases p)
    with Some have c: "create e b_name b_email b_password None False db = Some (db0, user0)"
      by simp
    show ?thesis
    proof (cases send_ok)
      case True
      with assms show ?thesis by (simp add: register_sent [OF None c])
    next
      case False
      then show ?thesis
        using register_fail [OF None c, of now rnd] create_Some [OF c] by simp
    qed
  qed
qed

lemma sendVerificationOTP_failed_send_clears:
  assumes "Mailed m False \<in> set (trace (sendVerificationOTP e db b_email now rnd send_ok))"
  shows "\<exists>u. last (trace (sendVerificationOTP e db b_email now rnd send_ok)) = Saved u \<and>
             u \<in> set (store_of (sendVerificationOTP e db b_email now rnd send_ok)) \<and>
             emailVerificationOTP u = None \<and> emailVerificationExpire u = None"
proof (cases "falsy b_email")
  case True
  with assms show ?thesis by (simp add: sendVerificationOTP_def)
next
  case False
  show ?thesis
  proof (cases "findOne (\<lambda>u. email u = b_email) db")
    case None
    with False assms show ?thesis by (simp add: sendVerificationOTP_def)
  next
    case (Some user0)
    then have mem: "user0 \<in> set db" using findOne_Some_D by blast
    have in_store: "user0\<lparr>emailVerificationOTP := None, emailVerificationExpire := None\<rparr>
          \<in> set (save (user0\<lparr>emailVerificationOTP := None, emailVerificationExpire := None\<rparr>) db)"
      using mem by (intro save_mem [of user0]) simp_all
    show ?thesis
    proof (cases send_ok)
      case True
      with assms show ?thesis by (simp add: sendVerificationOTP_sent [OF Some False])
    next
      case ok: False
      then show ?thesis using in_store by (simp add: sendVerificationOTP_fail [OF Some False])
    qed
  qed
qed

lemma forgotPassword_failed_send_clears:
  assumes "Mailed m False \<in> set (trace (forgotPassword e db b_email now rb send_ok))"
  shows "\<exists>u. last (trace (forgotPassword e db b_email now rb send_ok)) = Saved u \<and>
             u \<in> set (store_of (forgotPassword e db b_email now rb send_ok)) \<and>
             resetPasswordToken u = None \<and> resetPasswordExpire u = None"
proof (cases "findOne (\<lambda>u. email u = b_email) db")
  case None
  with assms show ?thesis by (simp add: forgotPassword_def)
next
  case (Some user0)
  then have mem: "user0 \<in> set db" using findOne_Some_D by blast
  have in_store: "user0\<lparr>resetPasswordToken := None, resetPasswordExpire := None\<rparr>
        \<in> set (save (user0\<lparr>resetPasswordToken := None, resetPasswordExpire := None\<rparr>) db)"
    using mem by (intro save_mem [of user0]) simp_all
  show ?thesis
  proof (cases send_ok)
    case True
    with assms show ?thesis by (simp add: forgotPassword_sent [OF Some])
  next
    case False
    then show ?thesis using in_store by (simp add: forgotPassword_fail [OF Some])
  qed
qed

lemma login_failed_send_keeps:
  assumes "Mailed m False \<in> set (trace (login e db b_email b_password now rnd send_ok))"
  shows "\<exists>u. trace (login e db b_email b_password now rnd send_ok) = [Saved u, Mailed m False] \<and>
             u \<in> set (store_of (login e db b_email b_password now rnd send_ok)) \<and>
             emailVerificationOTP u = Some (gen_otp rnd) \<and>
             emailVerificationExpire u = Some (now + 10 * 60 * 1000)"
proof (cases "falsy b_email \<or> falsy b_password")
  case True
  with assms show ?thesis by (simp add: login_def)
next
  case False
  show ?thesis
  proof (cases "findOne (\<lambda>u. email u = b_email) db")
    case None
    with False assms show ?thesis by (simp add: login_def)
  next
    case (Some user0)
    then have mem: "user0 \<in> set db" using findOne_Some_D by blast
    have in_store: "user0\<lparr>emailVerificationOTP := Some (gen_otp rnd),
                          emailVerificationExpire := Some (now + 10 * 60 * 1000)\<rparr>
          \<in> set (save (user0\<lparr>emailVerificationOTP := Some (gen_otp rnd),
                              emailVerificationExpire := Some (now + 10 * 60 * 1000)\<rparr>) db)"
      using mem by (intro save_mem [of user0]) simp_all
    show ?thesis
      using assms False Some in_store
      by (simp add: login_def Let_def split: if_splits)
  qed
qed

lemma verifyEmail_decides:
  assumes "\<not> falsy b_email" and "\<not> falsy b_otp"
  shows "if \<exists>u\<in>set db. email u = b_email \<and> emailVerificationOTP u = b_otp \<and>
               (\<exists>t. emailVerificationExpire u = Some t \<and> now < t)
         then \<exists>b. outcome (verifyEmail e db b_email b_otp now) = Respond 200 b \<and> success b
         else outcome (verifyEmail e db b_email b_otp now) =
                Respond 400 (ErrorBody ''Invalid or expired OTP'')"
proof (cases "findOne (otp_filter b_email b_otp now) db")
  case None
  then have "\<forall>u\<in>set db. \<not> otp_filter b_email b_otp now u" by (simp add: findOne_None_iff)
  then have "\<not> (\<exists>u\<in>set db. email u = b_email \<and> emailVerificationOTP u = b_otp \<and>
               (\<exists>t. emailVerificationExpire u = Some t \<and> now < t))"
    by (auto simp: otp_filter_def)
  moreover from None assms have "outcome (verifyEmail e db b_email b_otp now) =
      Respond 400 (ErrorBody ''Invalid or expired OTP'')"
    by (simp add: verifyEmail_def)
  ultimately show ?thesis by simp
next
  case (Some user0)
  then have "user0 \<in> set db" and "otp_filter b_email b_otp now user0"
    using findOne_Some_D [of "otp_filter b_email b_otp now" db user0] by simp_all
  then have "\<exists>u\<in>set db. email u = b_email \<and> emailVerificationOTP u = b_otp \<and>
               (\<exists>t. emailVerificationExpire u = Some t \<and> now < t)"
    by (auto simp: otp_filter_def split: option.splits)
  moreover have "\<exists>b. outcome (verifyEmail e db b_email b_otp now) = Respond 200 b \<and> success b"
    by (simp add: verifyEmail_found [OF Some assms])
  ultimately show ?thesis by simp
qed

lemma forgot_then_in_time:
  assumes f: "findOne (\<lambda>u. email u = b_email) db = Some user0"
    and intime: "now' < now + 30 * 60 * 1000"
  shows "outcome (resetPassword e (store_of (forgotPassword e db b_email now rb True))
                    (toString_hex rb) b_password now') \<noteq> Respond 400 (ErrorBody ''Invalid token'')"
proof -
  let ?u1 = "user0\<lparr>resetPasswordToken := Some (sha256_hex e (toString_hex rb)),
                   resetPasswordExpire := Some (now + 30 * 60 * 1000)\<rparr>"
  have mem: "user0 \<in> set db" using findOne_Some_D [OF f] by simp
  have "?u1 \<in> set (save ?u1 db)" using mem by (intro save_mem [of user0]) simp_all
  then have "?u1 \<in> set (store_of (forgotPassword e db b_email now rb True))"
    by (simp add: forgotPassword_sent [OF f])
  moreover have "resetPasswordToken ?u1 = Some (sha256_hex e (toString_hex rb)) \<and>
      (\<exists>t. resetPasswordExpire ?u1 = Some t \<and> now' < t)"
    using intime by simp
  ultimately have "\<exists>u\<in>set (store_of (forgotPassword e db b_email now rb True)).
      resetPasswordToken u = Some (sha256_hex e (toString_hex rb)) \<and>
      (\<exists>t. resetPasswordExpire u = Some t \<and> now' < t)"
    by blast
  then show ?thesis by (simp only: resetPassword_rejects_iff not_not)
qed

section \<open>The users of a reachable store are unique\<close>

lemma map_uid_save: "map uid (save u' db) = map uid db"
  by (induction db) (simp_all add: save_def)

lemma map_email_save:
  assumes "user0 \<in> set db" and "distinct (map uid db)"
    and "uid u' = uid user0" and "email u' = email user0"
  shows "map email (save u' db) = map email db"
proof -
  have inj: "inj_on uid (set db)" using assms(2) by (simp add: distinct_map)
  have "\<forall>v\<in>set db. email (if uid v = uid u' then u' else v) = email v"
  proof
    fix v assume v: "v \<in> set db"
    show "email (if uid v = uid u' then u' else v) = email v"
    proof (cases "uid v = uid u'")
      case True
      with assms(3) have "uid v = uid user0" by simp
      with inj v assms(1) have "v = user0" by (auto dest: inj_onD)
      with True assms(4) show ?thesis by simp
    next
      case False
      then show ?thesis by simp
    qed
  qed
  then show ?thesis by (simp add: save_def)
qed

lemma unique_save:
  assumes "unique_users db" and "findOne P db = Some user0"
    and "uid u' = uid user0" and "email u' = email user0"
  shows "unique_users (save u' db)"
proof -
  have mem: "user0 \<in> set db" using findOne_Some_D [OF assms(2)] by simp
  from assms(1) have d: "distinct (map uid db)" by (simp add: unique_users_def)
  show ?thesis
    using assms(1) by (simp add: unique_users_def map_uid_save map_email_save [OF mem d assms(3,4)])
qed

lemma unique_append:
  assumes "unique_users db" and "\<forall>v\<in>set db. uid v \<noteq> uid u" and "\<forall>v\<in>set db. email v \<noteq> email u"
  shows "unique_users (db @ [u])"
  using assms by (auto simp: unique_users_def)

lemma unique_created:
  assumes "unique_users db" and "findOne (\<lambda>u. email u = em) db = None"
    and "create e nm em pw gid vf db = Some (db0, user0)"
    and "uid u = uid user0" and "email u = email user0"
  shows "unique_users (db @ [u])"
proof -
  note c = create_Some [OF assms(3)]
  have "\<forall>v\<in>set db. uid v \<noteq> uid u" using c new_id_fresh assms(4) by simp
  moreover have "\<forall>v\<in>set db. email v \<noteq> email u"
    using assms(2,5) c by (simp add: findOne_None_iff)
  ultimately show ?thesis using assms(1) by (intro unique_append)
qed

lemma unique_register:
  assumes "unique_users db"
  shows "unique_users (store_of (register e db b_name b_email b_password now rnd send_ok))"
proof (cases "findOne (\<lambda>u. email u = b_email) db")
  case (Some u)
  then show ?thesis using assms by (simp add: register_def)
next
  case None
  show ?thesis
  proof (cases "create e b_name b_email b_password None False db")
    case None
    with \<open>findOne (\<lambda>u. email u = b_email) db = None\<close> show ?thesis
      using assms by (simp add: register_def)
  next
    case (Some p)
    obtain db0 user0 where p: "p = (db0, user0)" by (cases p)
    with Some have c: "create e b_name b_email b_password None False db = Some (db0, user0)"
      by simp
    show ?thesis
    proof (cases send_ok)
      case True
      have "unique_users (db @ [user0\<lparr>emailVerificationOTP := Some (gen_otp rnd),
                                   emailVerificationExpire := Some (now + 10 * 60 * 1000)\<rparr>])"
        by (rule unique_created [OF assms None c]) simp_all
      with True show ?thesis by (simp add: register_sent [OF None c])
    next
      case False
      have "unique_users (db @ [user0])" by (rule unique_created [OF assms None c]) simp_all
      with False show ?thesis using register_fail [OF None c, of now rnd] by simp
    qed
  qed
qed

lemma unique_login:
  assumes "unique_users db"
  shows "unique_users (store_of (login e db b_email b_password now rnd send_ok))"
proof (cases "findOne (\<lambda>u. email u = b_email) db")
  case None
  then show ?thesis using assms by (simp add: login_def)
next
  case (Some user0)
  have "unique_users (save (user0\<lparr>emailVerificationOTP := Some (gen_otp rnd),
                            emailVerificationExpire := Some (now + 10 * 60 * 1000)\<rparr>) db)"
    by (rule unique_save [OF assms Some]) simp_all
  then show ?thesis using Some assms by (simp add: login_def Let_def)
qed

lemma unique_forgotPassword:
  assumes "unique_users db"
  shows "unique_users (store_of (forgotPassword e db b_email now rb send_ok))"
proof (cases "findOne (\<lambda>u. email u = b_email) db")
  case None
  then show ?thesis using assms by (simp add: forgotPassword_def)
next
  case (Some user0)
  have a: "unique_users (save (user0\<lparr>resetPasswordToken := Some (sha256_hex e (toString_hex rb)),
                           resetPasswordExpire := Some (now + 30 * 60 * 1000)\<rparr>) db)"
    by (rule unique_save [OF assms Some]) simp_all
  have b: "unique_users (save (user0\<lparr>resetPasswordToken := None, resetPasswordExpire := None\<rparr>) db)"
    by (rule unique_save [OF assms Some]) simp_all
  show ?thesis
    using a b by (cases send_ok) (simp_all add: forgotPassword_sent [OF Some] forgotPassword_fail [OF Some])
qed

lemma unique_resetPassword:
  assumes "unique_users db"
  shows "unique_users (store_of (resetPassword e db resettoken b_password now))"
proof (cases "findOne (reset_filter (sha256_hex e resettoken) now) db")
  case None
  then show ?thesis using assms by (simp add: resetPassword_def)
next
  case (Some user0)
  have "unique_users (save (user0\<lparr>resetPasswordToken := None, resetPasswordExpire := None,
                               password := map_option (hashPassword e) b_password\<rparr>) db)"
    by (rule unique_save [OF assms Some]) simp_all
  then show ?thesis using assms by (simp add: resetPassword_found [OF Some])
qed

lemma unique_googleAuth:
  assumes "unique_users db"
  shows "unique_users (store_of (googleAuth e db b_email b_name b_googleId rb))"
proof (cases "findOne (\<lambda>u. email u = b_email) db")
  case (Some user0)
  have "unique_users (save (user0\<lparr>googleId := b_googleId\<rparr>) db)"
    by (rule unique_save [OF assms Some]) simp_all
  then show ?thesis using Some assms by (simp add: googleAuth_def Let_def)
next
  case None
  show ?thesis
  proof (cases "create e b_name b_email (Some (toString_hex rb)) b_googleId True db")
    case None
    with \<open>findOne (\<lambda>u. email u = b_email) db = None\<close> show ?thesis
      using assms by (simp add: googleAuth_def)
  next
    case (Some p)
    obtain db0 user0 where p: "p = (db0, user0)" by (cases p)
    with Some have c: "create e b_name b_email (Some (toString_hex rb)) b_googleId True db =
        Some (db0, user0)" by simp
    have "unique_users (db @ [user0])" by (rule unique_created [OF assms None c]) simp_all
    moreover have "db0 = db @ [user0]" using create_Some [OF c] by simp
    ultimately show ?thesis using None c assms by (simp add: googleAuth_def Let_def)
  qed
qed

lemma unique_verifyEmail:
  assumes "unique_users db"
  shows "unique_users (store_of (verifyEmail e db b_email b_otp now))"
proof (cases "findOne (otp_filter b_email b_otp now) db")
  case None
  then show ?thesis using assms by (simp add: verifyEmail_def)
next
  case (Some user0)
  have "unique_users (save (user0\<lparr>isEmailVerified := True, emailVerificationOTP := None,
                                emailVerificationExpire := None\<rparr>) db)"
    by (rule unique_save [OF assms Some]) simp_all
  then show ?thesis using Some assms by (simp add: verifyEmail_def Let_def)
qed

lemma unique_sendVerificationOTP:
  assumes "unique_users db"
  shows "unique_users (store_of (sendVerificationOTP e db b_email now rnd send_ok))"
proof (cases "findOne (\<lambda>u. email u = b_email) db")
  case None
  then show ?thesis using assms by (simp add: sendVerificationOTP_def)
next
  case (Some user0)
  have a: "unique_users (save (user0\<lparr>emailVerificationOTP := Some (gen_otp rnd),
                            emailVerificationExpire := Some (now + 10 * 60 * 1000)\<rparr>) db)"
    by (rule unique_save [OF assms Some]) simp_all
  have b: "unique_users (save (user0\<lparr>emailVerificationOTP := None,
                                  emailVerificationExpire := None\<rparr>) db)"
    by (rule unique_save [OF assms Some]) simp_all
  show ?thesis
  proof (cases "falsy b_email")
    case True
    then show ?thesis using assms by (simp add: sendVerificationOTP_def)
  next
    case False
    show ?thesis
      using a b
      by (cases send_ok)
         (simp_all add: sendVerificationOTP_sent [OF Some False] sendVerificationOTP_fail [OF Some False])
  qed
qed

lemma reachable_unique: "reachable e db \<Longrightarrow> unique_users db"
proof (induction rule: reachable.induct)
  case initial
  show ?case by (simp add: unique_users_def)
next
  case (by_register db b_name b_email b_password now rnd send_ok)
  then show ?case by (intro unique_register)
next
  case (by_login db b_email b_password now rnd send_ok)
  then show ?case by (intro unique_login)
next
  case (by_forgotPassword db b_email now rb send_ok)
  then show ?case by (intro unique_forgotPassword)
next
  case (by_resetPassword db resettoken b_password now)
  then show ?case by (intro unique_resetPassword)
next
  case (by_googleAuth db b_email b_name b_googleId rb)
  then show ?case by (intro unique_googleAuth)
next
  case (by_verifyEmail db b_email b_otp now)
  then show ?case by (intro unique_verifyEmail)
next
  case (by_sendVerificationOTP db b_email now rnd send_ok)
  then show ?case by (intro unique_sendVerificationOTP)
qed

lemma reachable_email_unique:
  assumes "reachable e db" and "v \<in> set db" and "u \<in> set db" and "email v = email u"
  shows "v = u"
proof -
  from reachable_unique [OF assms(1)] have "inj_on email (set db)"
    by (simp add: unique_users_def distinct_map)
  with assms(2-4) show ?thesis by (auto dest: inj_onD)
qed

section \<open>Verifying a one-time password after it was issued\<close>

lemma verify_after_save:
  assumes mem: "user0 \<in> set db" and em: "email user0 = b_email"
    and uniq: "\<forall>v\<in>set db. email v = b_email \<longrightarrow> v = user0"
    and t: "\<not> falsy b_email" and o: "\<not> falsy (Some otp)"
  shows "if now' < expiry
         then \<exists>b. outcome (verifyEmail e
                      (save (user0\<lparr>emailVerificationOTP := Some otp,
                                   emailVerificationExpire := Some expiry\<rparr>) db)
                      b_email (Some otp) now') = Respond 200 b \<and> success b
         else outcome (verifyEmail e
                      (save (user0\<lparr>emailVerificationOTP := Some otp,
                                   emailVerificationExpire := Some expiry\<rparr>) db)
                      b_email (Some otp) now') = Respond 400 (ErrorBody ''Invalid or expired OTP'')"
proof -
  let ?u1 = "user0\<lparr>emailVerificationOTP := Some otp, emailVerificationExpire := Some expiry\<rparr>"
  let ?db1 = "save ?u1 db"
  have in1: "?u1 \<in> set ?db1" using mem by (intro save_mem [of user0]) simp_all
  have others: "v = ?u1" if "v \<in> set ?db1" "email v = b_email" for v
  proof (cases "uid v = uid ?u1")
    case True
    with that(1) show ?thesis by (rule save_all_uid)
  next
    case False
    with that(1) have "v \<in> set db" by (auto simp: save_def split: if_splits)
    with uniq that(2) have "v = user0" by simp
    with False show ?thesis by simp
  qed
  have ex: "(\<exists>u\<in>set ?db1. email u = b_email \<and> emailVerificationOTP u = Some otp \<and>
               (\<exists>t. emailVerificationExpire u = Some t \<and> now' < t)) \<longleftrightarrow> now' < expiry"
  proof
    assume "\<exists>u\<in>set ?db1. email u = b_email \<and> emailVerificationOTP u = Some otp \<and>
               (\<exists>t. emailVerificationExpire u = Some t \<and> now' < t)"
    then obtain u t' where u: "u \<in> set ?db1" "email u = b_email"
      and t': "emailVerificationExpire u = Some t'" "now' < t'" by blast
    from others [OF u] t' show "now' < expiry" by simp
  next
    assume "now' < expiry"
    with in1 em show "\<exists>u\<in>set ?db1. email u = b_email \<and> emailVerificationOTP u = Some otp \<and>
               (\<exists>t. emailVerificationExpire u = Some t \<and> now' < t)"
      by (intro bexI [of _ ?u1]) simp_all
  qed
  from verifyEmail_decides [OF t o, of ?db1 now' e] show ?thesis
    by (simp only: ex)
qed

lemma verify_after_register:
  assumes f: "findOne (\<lambda>u. email u = b_email) db = None"
    and c: "create e b_name b_email b_password None False db = Some (db0, user0)"
    and t: "\<not> falsy b_email"
  shows "if now' < now + 10 * 60 * 1000
         then \<exists>b. outcome (verifyEmail e
                      (store_of (register e db b_name b_email b_password now rnd True))
                      b_email (Some (gen_otp rnd)) now') = Respond 200 b \<and> success b
         else outcome (verifyEmail e
                      (store_of (register e db b_name b_email b_password now rnd True))
                      b_email (Some (gen_otp rnd)) now') =
                Respond 400 (ErrorBody ''Invalid or expired OTP'')"
proof -
  note cs = create_Some [OF c]
  have fresh: "\<forall>v\<in>set db. uid v \<noteq> uid user0" using cs new_id_fresh by simp
  have st: "store_of (register e db b_name b_email b_password now rnd True) =
      save (user0\<lparr>emailVerificationOTP := Some (gen_otp rnd),
                  emailVerificationExpire := Some (now + 10 * 60 * 1000)\<rparr>) (db @ [user0])"
    using fresh by (simp add: register_sent [OF f c] save_append_new)
  have uniq: "\<forall>v\<in>set (db @ [user0]). email v = b_email \<longrightarrow> v = user0"
    using f by (auto simp: findOne_None_iff)
  have em: "email user0 = b_email" using cs by simp
  show ?thesis
    unfolding st
    by (rule verify_after_save [OF _ em uniq t gen_otp_truthy]) simp
qed

lemma verify_after_found:
  assumes r: "reachable e db" and f: "findOne (\<lambda>u. email u = b_email) db = Some user0"
    and t: "\<not> falsy b_email"
  shows "if now' < now + 10 * 60 * 1000
         then \<exists>b. outcome (verifyEmail e
                      (save (user0\<lparr>emailVerificationOTP := Some (gen_otp rnd),
                                   emailVerificationExpire := Some (now + 10 * 60 * 1000)\<rparr>) db)
                      b_email (Some (gen_otp rnd)) now') = Respond 200 b \<and> success b
         else outcome (verifyEmail e
                      (save (user0\<lparr>emailVerificationOTP := Some (gen_otp rnd),
                                   emailVerificationExpire := Some (now + 10 * 60 * 1000)\<rparr>) db)
                      b_email (Some (gen_otp rnd)) now') =
                Respond 400 (ErrorBody ''Invalid or expired OTP'')"
proof -
  from findOne_Some_D [OF f] have mem: "user0 \<in> set db" and em: "email user0 = b_email"
    by simp_all
  have uniq: "\<forall>v\<in>set db. email v = b_email \<longrightarrow> v = user0"
    using reachable_email_unique [OF r _ mem] em by simp
  show ?thesis by (rule verify_after_save [OF mem em uniq t gen_otp_truthy])
qed

section \<open>The handlers on the sample store\<close>

lemma toString_100000: "toString 100000 = ''100000''"
  by (simp add: toString.simps digit_char_def)

lemma round53_eval:
  assumes "- 1074 \<le> e" and "bit_length N = L" and "round_half_even N (L - 53) = M"
  shows "round53 N e = Double M (e + int (L - 53))"
  using assms by (simp add: round53_shift)

lemma otp_number_0: "Math_floor (fadd (Double 100000 0) (fmul (Double 0 (- 53)) (Double 900000 0))) = 100000"
proof -
  have p: "fmul (Double 0 (- 53)) (Double 900000 0) = Double 0 (- 53)"
    by (simp add: fmul_nat_right round53_shift bit_length.simps [of 0] round_half_even_def)
  have bl: "bit_length 900719925474099200000 = 70" by (simp add: bit_length.simps)
  have r: "round_half_even 900719925474099200000 (70 - 53) = 6871947673600000"
    by (simp add: round_half_even_def Let_def)
  have "fadd (Double 100000 0) (Double 0 (- 53)) = round53 900719925474099200000 (- 53)"
    by (simp add: fadd_nat_left)
  also have "\<dots> = Double 6871947673600000 (- 53 + int (70 - 53))"
    by (rule round53_eval [OF _ bl r]) simp
  finally have q: "fadd (Double 100000 0) (Double 0 (- 53)) = Double 6871947673600000 (- 36)"
    by simp
  show ?thesis by (simp add: p q Math_floor_def)
qed

lemma otp_number_half: "Math_floor (fadd (Double 100000 0) (fmul (Double 4503599627370496 (- 53)) (Double 900000 0))) = 550000"
proof -
  have bl: "bit_length 4053239664633446400000 = 72" by (simp add: bit_length.simps)
  have r: "round_half_even 4053239664633446400000 (72 - 53) = 7730941132800000"
    by (simp add: round_half_even_def Let_def)
  have "fmul (Double 4503599627370496 (- 53)) (Double 900000 0) =
      round53 4053239664633446400000 (- 53)"
    by (simp add: fmul_nat_right)
  also have "\<dots> = Double 7730941132800000 (- 53 + int (72 - 53))"
    by (rule round53_eval [OF _ bl r]) simp
  finally have p: "fmul (Double 4503599627370496 (- 53)) (Double 900000 0) =
      Double 7730941132800000 (- 34)" by simp
  have bl2: "bit_length 9448928051200000 = 54" by (simp add: bit_length.simps)
  have r2: "round_half_even 9448928051200000 (54 - 53) = 4724464025600000"
    by (simp add: round_half_even_def Let_def)
  have "fadd (Double 100000 0) (Double 7730941132800000 (- 34)) = round53 9448928051200000 (- 34)"
    by (simp add: fadd_nat_left)
  also have "\<dots> = Double 4724464025600000 (- 34 + int (54 - 53))"
    by (rule round53_eval [OF _ bl2 r2]) simp
  finally have q: "fadd (Double 100000 0) (Double 7730941132800000 (- 34)) =
      Double 4724464025600000 (- 33)" by simp
  show ?thesis by (simp add: p q Math_floor_def)
qed

lemma otp_number_seven_tenths: "Math_floor (fadd (Double 100000 0) (fmul (Double 6305039478318694 (- 53)) (Double 900000 0))) = 730000"
proof -
  have bl: "bit_length 5674535530486824600000 = 73" by (simp add: bit_length.simps)
  have r: "round_half_even 5674535530486824600000 (73 - 53) = 5411658792960000"
    by (simp add: round_half_even_def Let_def)
  have "fmul (Double 6305039478318694 (- 53)) (Double 900000 0) =
      round53 5674535530486824600000 (- 53)"
    by (simp add: fmul_nat_right)
  also have "\<dots> = Double 5411658792960000 (- 53 + int (73 - 53))"
    by (rule round53_eval [OF _ bl r]) simp
  finally have p: "fmul (Double 6305039478318694 (- 53)) (Double 900000 0) =
      Double 5411658792960000 (- 33)" by simp
  have bl2: "bit_length 6270652252160000 = 53" by (simp add: bit_length.simps)
  have r2: "round_half_even 6270652252160000 (53 - 53) = 6270652252160000"
    by (simp add: round_half_even_def Let_def)
  have "fadd (Double 100000 0) (Double 5411658792960000 (- 33)) = round53 6270652252160000 (- 33)"
    by (simp add: fadd_nat_left)
  also have "\<dots> = Double 6270652252160000 (- 33 + int (53 - 53))"
    by (rule round53_eval [OF _ bl2 r2]) simp
  finally have q: "fadd (Double 100000 0) (Double 5411658792960000 (- 33)) =
      Double 6270652252160000 (- 33)" by simp
  show ?thesis by (simp add: p q Math_floor_def)
qed

lemma gen_otp_0: "gen_otp zero_draw = ''100000''"
  by (simp add: gen_otp_def zero_draw_def otp_number_0 toString_100000)

lemma gen_otp_half: "gen_otp half_draw = ''550000''"
  by (simp add: gen_otp_def half_draw_def otp_number_half toString.simps digit_char_def)

lemma gen_otp_seven_tenths: "gen_otp (Double 6305039478318694 (- 53)) = ''730000''"
  by (simp add: gen_otp_def otp_number_seven_tenths toString.simps digit_char_def)

lemma random_range_draws: "Math_random_range zero_draw" "Math_random_range half_draw"
  by (simp_all add: Math_random_range_def zero_draw_def half_draw_def)

lemma findOne_alice: "findOne (\<lambda>u. email u = Some ''a@x.io'') [alice] = Some alice"
  by (simp add: findOne_def alice_def)

lemma create_alice:
  "create sample_env (Some ''Alice'') (Some ''a@x.io'') (Some ''pw'') None False [] = Some ([alice], alice)"
  by (simp add: create_def sample_env_def alice_def new_id_def falsy_def Let_def)

lemma match_alice: "matchPassword sample_env alice ''pw''"
  by (simp add: sample_env_def alice_def)

lemma token_alice: "getSignedJwtToken sample_env (alice\<lparr>emailVerificationOTP := x, emailVerificationExpire := y\<rparr>) = ''jwt.1''"
  by (simp add: sample_env_def alice_def toString.simps digit_char_def)

lemma findById_alice: "findById [alice] (Some 1) = Some alice"
  by (simp add: findById_def alice_def)

lemma reachable_alice: "reachable sample_env [alice]"
proof -
  have "findOne (\<lambda>u. email u = Some ''a@x.io'') [] = None" by (simp add: findOne_def)
  from register_fail [OF this create_alice, of 1000 zero_draw]
  have "store_of (register sample_env [] (Some ''Alice'') (Some ''a@x.io'') (Some ''pw'') 1000 zero_draw False) = [alice]"
    by simp
  with reachable.by_register [OF reachable.initial,
      of sample_env "Some ''Alice''" "Some ''a@x.io''" "Some ''pw''" 1000 zero_draw False]
  show ?thesis by simp
qed

lemma login_alice_half:
  "login sample_env [alice] (Some ''a@x.io'') (Some ''pw'') 5000 half_draw send_ok =
     \<lparr>store_of = [alice\<lparr>emailVerificationOTP := Some ''550000'',
                        emailVerificationExpire := Some 605000\<rparr>],
      trace = [Saved (alice\<lparr>emailVerificationOTP := Some ''550000'',
                            emailVerificationExpire := Some 605000\<rparr>),
               Mailed (VerificationOTP (Some ''a@x.io'') ''550000'' (Some ''Alice'')) send_ok],
      outcome = Respond 200 (TokenBody ''jwt.1'' (UserView 1 (Some ''Alice'') (Some ''a@x.io'')) True)\<rparr>"
proof -
  have "login sample_env [alice] (Some ''a@x.io'') (Some ''pw'') 5000 half_draw send_ok =
     \<lparr>store_of = save (alice\<lparr>emailVerificationOTP := Some (gen_otp half_draw),
                           emailVerificationExpire := Some (5000 + 10 * 60 * 1000)\<rparr>) [alice],
      trace = [Saved (alice\<lparr>emailVerificationOTP := Some (gen_otp half_draw),
                           emailVerificationExpire := Some (5000 + 10 * 60 * 1000)\<rparr>),
               Mailed (VerificationOTP (email alice) (gen_otp half_draw) (name alice)) send_ok],
      outcome = sendTokenResponse sample_env (alice\<lparr>emailVerificationOTP := Some (gen_otp half_draw),
                           emailVerificationExpire := Some (5000 + 10 * 60 * 1000)\<rparr>) 200 True\<rparr>"
    by (rule login_unverified [OF findOne_alice _ refl _ match_alice])
       (simp_all add: falsy_def alice_def)
  then show ?thesis
    by (simp add: gen_otp_half sendTokenResponse_def token_alice save_def) (simp add: alice_def)
qed

lemma reachable_alice_pending:
  "reachable sample_env [alice\<lparr>emailVerificationOTP := Some ''550000'',
                               emailVerificationExpire := Some 605000\<rparr>]"
  using reachable.by_login [OF reachable_alice,
      of "Some ''a@x.io''" "Some ''pw''" 5000 half_draw False]
  by (simp add: login_alice_half)

lemma toString_hex_abcd: "toString_hex [171, 205] = ''abcd''"
  by (simp add: toString_hex_def hex_char_def)

lemma sha_sample: "sha256_hex sample_env s = ''sha:'' @ s"
  by (simp add: sample_env_def)

section \<open>The claims\<close>

text \<open>
  Claim C1, as the code has it. When the outbound email fails, \<open>register\<close>,
  \<open>forgotPassword\<close> and \<open>sendVerificationOTP\<close> first save the document with its pending
  fields cleared and then respond 500 with \<open>success: false\<close>. \<open>login\<close> of an unverified
  user catches the failure too, but continues: it responds 200 with the token and
  \<open>verificationNeeded: true\<close>, and the one-time password and its expiry stay stored.
\<close>

theorem send_failure_handling:
  "(findOne (\<lambda>u. email u = b_email) db = None \<and>
    create e b_name b_email b_password None False db = Some (db0, user0) \<longrightarrow>
      outcome (register e db b_name b_email b_password now rnd False) =
        Respond 500 (ErrorBody
          ''Registration initiated but verification email could not be sent. Please try again or contact support.'') \<and>
      trace (register e db b_name b_email b_password now rnd False) =
        [Created user0,
         Saved (user0\<lparr>emailVerificationOTP := Some (gen_otp rnd),
                      emailVerificationExpire := Some (now + 600000)\<rparr>),
         Mailed (VerificationOTP b_email (gen_otp rnd) b_name) False,
         Saved user0] \<and>
      store_of (register e db b_name b_email b_password now rnd False) = db @ [user0] \<and>
      emailVerificationOTP user0 = None \<and> emailVerificationExpire user0 = None)
   \<and>
   (findOne (\<lambda>u. email u = b_email) db = Some user1 \<longrightarrow>
      outcome (forgotPassword e db b_email now rb False) =
        Respond 500 (ErrorBody ''Email could not be sent'') \<and>
      trace (forgotPassword e db b_email now rb False) =
        [Saved (user1\<lparr>resetPasswordToken := Some (sha256_hex e (toString_hex rb)),
                      resetPasswordExpire := Some (now + 30 * 60 * 1000)\<rparr>),
         Mailed (PasswordReset (email user1)
                   (frontendUrl e @ ''/reset-password/'' @ toString_hex rb) (name user1)) False,
         Saved (user1\<lparr>resetPasswordToken := None, resetPasswordExpire := None\<rparr>)] \<and>
      (\<forall>v\<in>set (store_of (forgotPassword e db b_email now rb False)).
         uid v = uid user1 \<longrightarrow> resetPasswordToken v = None \<and> resetPasswordExpire v = None))
   \<and>
   (findOne (\<lambda>u. email u = b_email) db = Some user1 \<and> \<not> falsy b_email \<longrightarrow>
      outcome (sendVerificationOTP e db b_email now rnd False) =
        Respond 500 (ErrorBody ''Email could not be sent. Please check server logs.'') \<and>
      trace (sendVerificationOTP e db b_email now rnd False) =
        [Saved (user1\<lparr>emailVerificationOTP := Some (gen_otp rnd),
                      emailVerificationExpire := Some (now + 10 * 60 * 1000)\<rparr>),
         Mailed (VerificationOTP (email user1) (gen_otp rnd) (name user1)) False,
         Saved (user1\<lparr>emailVerificationOTP := None, emailVerificationExpire := None\<rparr>)] \<and>
      (\<forall>v\<in>set (store_of (sendVerificationOTP e db b_email now rnd False)).
         uid v = uid user1 \<longrightarrow> emailVerificationOTP v = None \<and> emailVerificationExpire v = None))
   \<and>
   (findOne (\<lambda>u. email u = b_email) db = Some user1 \<and> \<not> falsy b_email \<and>
    b_password = Some pw \<and> pw \<noteq> [] \<and> matchPassword e user1 pw \<and> \<not> isEmailVerified user1 \<longrightarrow>
      outcome (login e db b_email b_password now rnd False) =
        Respond 200
          (TokenBody
             (getSignedJwtToken e (user1\<lparr>emailVerificationOTP := Some (gen_otp rnd),
                                         emailVerificationExpire := Some (now + 10 * 60 * 1000)\<rparr>))
             (UserView (uid user1) (name user1) (email user1)) True) \<and>
      trace (login e db b_email b_password now rnd False) =
        [Saved (user1\<lparr>emailVerificationOTP := Some (gen_otp rnd),
                      emailVerificationExpire := Some (now + 10 * 60 * 1000)\<rparr>),
         Mailed (VerificationOTP (email user1) (gen_otp rnd) (name user1)) False] \<and>
      (\<forall>v\<in>set (store_of (login e db b_email b_password now rnd False)).
         uid v = uid user1 \<longrightarrow>
           emailVerificationOTP v = Some (gen_otp rnd) \<and>
           emailVerificationExpire v = Some (now + 10 * 60 * 1000)))"
proof (intro conjI impI)
  assume h: "findOne (\<lambda>u. email u = b_email) db = None \<and>
    create e b_name b_email b_password None False db = Some (db0, user0)"
  then have f: "findOne (\<lambda>u. email u = b_email) db = None"
    and c: "create e b_name b_email b_password None False db = Some (db0, user0)" by simp_all
  note r = register_fail [OF f c, of now rnd]
  show "outcome (register e db b_name b_email b_password now rnd False) =
        Respond 500 (ErrorBody
          ''Registration initiated but verification email could not be sent. Please try again or contact support.'')"
    using r by blast
  show "trace (register e db b_name b_email b_password now rnd False) =
        [Created user0,
         Saved (user0\<lparr>emailVerificationOTP := Some (gen_otp rnd),
                      emailVerificationExpire := Some (now + 600000)\<rparr>),
         Mailed (VerificationOTP b_email (gen_otp rnd) b_name) False,
         Saved user0]"
    using r by blast
  show "store_of (register e db b_name b_email b_password now rnd False) = db @ [user0]"
    using r by blast
  show "emailVerificationOTP user0 = None" using create_Some [OF c] by simp
  show "emailVerificationExpire user0 = None" using create_Some [OF c] by simp
next
  assume f: "findOne (\<lambda>u. email u = b_email) db = Some user1"
  note r = forgotPassword_fail [OF f, of e now rb]
  show "outcome (forgotPassword e db b_email now rb False) =
        Respond 500 (ErrorBody ''Email could not be sent'')"
    by (simp add: r)
  show "trace (forgotPassword e db b_email now rb False) =
        [Saved (user1\<lparr>resetPasswordToken := Some (sha256_hex e (toString_hex rb)),
                      resetPasswordExpire := Some (now + 30 * 60 * 1000)\<rparr>),
         Mailed (PasswordReset (email user1)
                   (frontendUrl e @ ''/reset-password/'' @ toString_hex rb) (name user1)) False,
         Saved (user1\<lparr>resetPasswordToken := None, resetPasswordExpire := None\<rparr>)]"
    by (simp add: r)
  show "\<forall>v\<in>set (store_of (forgotPassword e db b_email now rb False)).
         uid v = uid user1 \<longrightarrow> resetPasswordToken v = None \<and> resetPasswordExpire v = None"
  proof (intro ballI impI)
    fix v assume "v \<in> set (store_of (forgotPassword e db b_email now rb False))" "uid v = uid user1"
    then have "v = user1\<lparr>resetPasswordToken := None, resetPasswordExpire := None\<rparr>"
      using save_all_uid [of v "user1\<lparr>resetPasswordToken := None, resetPasswordExpire := None\<rparr>" db]
      by (simp add: r)
    then show "resetPasswordToken v = None \<and> resetPasswordExpire v = None" by simp
  qed
next
  assume h: "findOne (\<lambda>u. email u = b_email) db = Some user1 \<and> \<not> falsy b_email"
  then have f: "findOne (\<lambda>u. email u = b_email) db = Some user1" and t: "\<not> falsy b_email"
    by simp_all
  note r = sendVerificationOTP_fail [OF f t, of e now rnd]
  show "outcome (sendVerificationOTP e db b_email now rnd False) =
        Respond 500 (ErrorBody ''Email could not be sent. Please check server logs.'')"
    by (simp add: r)
  show "trace (sendVerificationOTP e db b_email now rnd False) =
        [Saved (user1\<lparr>emailVerificationOTP := Some (gen_otp rnd),
                      emailVerificationExpire := Some (now + 10 * 60 * 1000)\<rparr>),
         Mailed (VerificationOTP (email user1) (gen_otp rnd) (name user1)) False,
         Saved (user1\<lparr>emailVerificationOTP := None, emailVerificationExpire := None\<rparr>)]"
    by (simp add: r)
  show "\<forall>v\<in>set (store_of (sendVerificationOTP e db b_email now rnd False)).
         uid v = uid user1 \<longrightarrow> emailVerificationOTP v = None \<and> emailVerificationExpire v = None"
  proof (intro ballI impI)
    fix v assume "v \<in> set (store_of (sendVerificationOTP e db b_email now rnd False))"
      "uid v = uid user1"
    then have "v = user1\<lparr>emailVerificationOTP := None, emailVerificationExpire := None\<rparr>"
      using save_all_uid [of v "user1\<lparr>emailVerificationOTP := None, emailVerificationExpire := None\<rparr>" db]
      by (simp add: r)
    then show "emailVerificationOTP v = None \<and> emailVerificationExpire v = None" by simp
  qed
next
  assume h: "findOne (\<lambda>u. email u = b_email) db = Some user1 \<and> \<not> falsy b_email \<and>
    b_password = Some pw \<and> pw \<noteq> [] \<and> matchPassword e user1 pw \<and> \<not> isEmailVerified user1"
  then have r: "login e db b_email b_password now rnd False =
     \<lparr>store_of = save (user1\<lparr>emailVerificationOTP := Some (gen_otp rnd),
                           emailVerificationExpire := Some (now + 10 * 60 * 1000)\<rparr>) db,
      trace = [Saved (user1\<lparr>emailVerificationOTP := Some (gen_otp rnd),
                           emailVerificationExpire := Some (now + 10 * 60 * 1000)\<rparr>),
               Mailed (VerificationOTP (email user1) (gen_otp rnd) (name user1)) False],
      outcome = sendTokenResponse e (user1\<lparr>emailVerificationOTP := Some (gen_otp rnd),
                           emailVerificationExpire := Some (now + 10 * 60 * 1000)\<rparr>) 200 True\<rparr>"
    by (intro login_unverified [where pw = pw]) simp_all
  show "outcome (login e db b_email b_password now rnd False) =
        Respond 200
          (TokenBody
             (getSignedJwtToken e (user1\<lparr>emailVerificationOTP := Some (gen_otp rnd),
                                         emailVerificationExpire := Some (now + 10 * 60 * 1000)\<rparr>))
             (UserView (uid user1) (name user1) (email user1)) True)"
    by (simp add: r sendTokenResponse_def)
  show "trace (login e db b_email b_password now rnd False) =
        [Saved (user1\<lparr>emailVerificationOTP := Some (gen_otp rnd),
                      emailVerificationExpire := Some (now + 10 * 60 * 1000)\<rparr>),
         Mailed (VerificationOTP (email user1) (gen_otp rnd) (name user1)) False]"
    by (simp add: r)
  show "\<forall>v\<in>set (store_of (login e db b_email b_password now rnd False)).
         uid v = uid user1 \<longrightarrow>
           emailVerificationOTP v = Some (gen_otp rnd) \<and>
           emailVerificationExpire v = Some (now + 10 * 60 * 1000)"
  proof (intro ballI impI)
    fix v assume "v \<in> set (store_of (login e db b_email b_password now rnd False))"
      "uid v = uid user1"
    then have "v = user1\<lparr>emailVerificationOTP := Some (gen_otp rnd),
                           emailVerificationExpire := Some (now + 10 * 60 * 1000)\<rparr>"
      using save_all_uid [of v "user1\<lparr>emailVerificationOTP := Some (gen_otp rnd),
                           emailVerificationExpire := Some (now + 10 * 60 * 1000)\<rparr>" db]
      by (simp add: r)
    then show "emailVerificationOTP v = Some (gen_otp rnd) \<and>
           emailVerificationExpire v = Some (now + 10 * 60 * 1000)" by simp
  qed
qed

text \<open>The four handlers of claim C1 on the sample store, with a failing email.\<close>

theorem send_failure_handling_witness:
  "outcome (register sample_env [] (Some ''Alice'') (Some ''a@x.io'') (Some ''pw'') 1000 zero_draw False) =
     Respond 500 (ErrorBody
       ''Registration initiated but verification email could not be sent. Please try again or contact support.'') \<and>
   store_of (register sample_env [] (Some ''Alice'') (Some ''a@x.io'') (Some ''pw'') 1000 zero_draw False) = [alice] \<and>
   outcome (forgotPassword sample_env [alice] (Some ''a@x.io'') 1000 [171, 205] False) =
     Respond 500 (ErrorBody ''Email could not be sent'') \<and>
   outcome (sendVerificationOTP sample_env [alice] (Some ''a@x.io'') 1000 zero_draw False) =
     Respond 500 (ErrorBody ''Email could not be sent. Please check server logs.'') \<and>
   outcome (login sample_env [alice] (Some ''a@x.io'') (Some ''pw'') 1000 zero_draw False) =
     Respond 200 (TokenBody ''jwt.1'' (UserView 1 (Some ''Alice'') (Some ''a@x.io'')) True)"
proof -
  have h1: "findOne (\<lambda>u. email u = Some ''a@x.io'') [] = None \<and>
      create sample_env (Some ''Alice'') (Some ''a@x.io'') (Some ''pw'') None False [] = Some ([alice], alice)"
    by (simp add: findOne_def create_alice)
  have h3: "findOne (\<lambda>u. email u = Some ''a@x.io'') [alice] = Some alice \<and> \<not> falsy (Some ''a@x.io'')"
    by (simp add: findOne_alice falsy_def)
  have h4: "findOne (\<lambda>u. email u = Some ''a@x.io'') [alice] = Some alice \<and> \<not> falsy (Some ''a@x.io'') \<and>
      Some ''pw'' = Some ''pw'' \<and> ''pw'' \<noteq> [] \<and> matchPassword sample_env alice ''pw'' \<and>
      \<not> isEmailVerified alice"
    by (simp add: findOne_alice falsy_def match_alice) (simp add: alice_def)
  note a = send_failure_handling [where db = "[]" and b_email = "Some ''a@x.io''" and e = sample_env
      and b_name = "Some ''Alice''" and b_password = "Some ''pw''" and ?db0.0 = "[alice]"
      and ?user0.0 = alice and now = 1000 and rnd = zero_draw, THEN conjunct1, THEN mp, OF h1]
  note b = send_failure_handling [where db = "[alice]" and b_email = "Some ''a@x.io''"
      and e = sample_env and b_password = "Some ''pw''" and ?user1.0 = alice and now = 1000
      and rnd = zero_draw and rb = "[171, 205]" and pw = "''pw''", THEN conjunct2]
  note b2 = b [THEN conjunct1, THEN mp, OF findOne_alice]
  note b3 = b [THEN conjunct2, THEN conjunct1, THEN mp, OF h3]
  note b4 = b [THEN conjunct2, THEN conjunct2, THEN mp, OF h4]
  show ?thesis
    using a b2 b3 b4 by (simp add: token_alice) (simp add: alice_def)
qed

text \<open>
  Claim C1 as stated fails at \<open>login\<close>: with a correct password, an unverified address and
  a failing email, the response is 200, not 500.
\<close>

theorem login_send_failure_counterexample:
  "outcome (login sample_env [alice] (Some ''a@x.io'') (Some ''pw'') 1000 zero_draw False) =
     Respond 200 (TokenBody ''jwt.1'' (UserView 1 (Some ''Alice'') (Some ''a@x.io'')) True) \<and>
   trace (login sample_env [alice] (Some ''a@x.io'') (Some ''pw'') 1000 zero_draw False) =
     [Saved (alice\<lparr>emailVerificationOTP := Some ''100000'',
                   emailVerificationExpire := Some 601000\<rparr>),
      Mailed (VerificationOTP (Some ''a@x.io'') ''100000'' (Some ''Alice'')) False]"
proof -
  have "login sample_env [alice] (Some ''a@x.io'') (Some ''pw'') 1000 zero_draw False =
     \<lparr>store_of = save (alice\<lparr>emailVerificationOTP := Some (gen_otp zero_draw),
                           emailVerificationExpire := Some (1000 + 10 * 60 * 1000)\<rparr>) [alice],
      trace = [Saved (alice\<lparr>emailVerificationOTP := Some (gen_otp zero_draw),
                           emailVerificationExpire := Some (1000 + 10 * 60 * 1000)\<rparr>),
               Mailed (VerificationOTP (email alice) (gen_otp zero_draw) (name alice)) False],
      outcome = sendTokenResponse sample_env (alice\<lparr>emailVerificationOTP := Some (gen_otp zero_draw),
                           emailVerificationExpire := Some (1000 + 10 * 60 * 1000)\<rparr>) 200 True\<rparr>"
    by (rule login_unverified [OF findOne_alice _ refl _ match_alice])
       (simp_all add: falsy_def alice_def)
  then show ?thesis
    by (simp add: gen_otp_0 sendTokenResponse_def token_alice) (simp add: alice_def)
qed

text \<open>
  Claim C2 at a user who registered with a password and never verified the address: the
  Google endpoint answers 200 with a token and only links the \<open>googleId\<close>; the stored
  document still has \<open>isEmailVerified\<close> false.
\<close>

theorem googleAuth_existing_unverified:
  "googleAuth sample_env [alice] (Some ''a@x.io'') (Some ''Alice'') (Some ''g-1'') (replicate 16 0) =
     \<lparr>store_of = [alice\<lparr>googleId := Some ''g-1''\<rparr>],
      trace = [Saved (alice\<lparr>googleId := Some ''g-1''\<rparr>)],
      outcome = Respond 200 (TokenBody ''jwt.1'' (UserView 1 (Some ''Alice'') (Some ''a@x.io'')) False)\<rparr>
   \<and> \<not> isEmailVerified (alice\<lparr>googleId := Some ''g-1''\<rparr>)"
  by (simp add: googleAuth_def findOne_alice falsy_def Let_def sendTokenResponse_def save_def)
     (simp add: alice_def sample_env_def toString.simps digit_char_def)

text \<open>
  Claim C3. A login with the email and the password of a user whose address is not verified
  draws a fresh one-time password, saves it with an expiry ten minutes from now, attempts
  the email (whether or not it goes through), and responds 200 with \<open>success: true\<close>, a
  signed token and \<open>verificationNeeded: true\<close>. \<open>rnd\<close> is the double that \<open>Math.random()\<close>
  returned. The one-time password is the decimal rendering of a number \<open>n\<close> from 100000 to
  999999, so it has six digits; and with \<open>v\<close> the value of the draw (its significand times
  2 to its exponent), \<open>n\<close> lies between \<open>100000 + 900000 * v - 1\<close> and
  \<open>100000 + 900000 * v + 2 ^ - 33\<close>: it is the integer part of \<open>100000 + 900000 * v\<close> up to
  the rounding of the two double operations. The two bounds are stated multiplied by
  \<open>2 ^ - exponent\<close>, in natural numbers.
\<close>

theorem login_unverified_resends_otp:
  assumes "findOne (\<lambda>u. email u = Some em) db = Some user0"
    and "em \<noteq> []" and "pw \<noteq> []"
    and "matchPassword e user0 pw"
    and "\<not> isEmailVerified user0"
    and "Math_random_range rnd"
  shows "gen_otp rnd =
       toString (Math_floor (fadd (Double 100000 0) (fmul rnd (Double 900000 0)))) \<and>
     decimal_value (gen_otp rnd) * 2 ^ nat (- exponent rnd)
       \<le> 100000 * 2 ^ nat (- exponent rnd) + 900000 * significand rnd +
          2 ^ nat (- exponent rnd - 33) \<and>
     100000 * 2 ^ nat (- exponent rnd) + 900000 * significand rnd
       \<le> (decimal_value (gen_otp rnd) + 1) * 2 ^ nat (- exponent rnd) \<and>
     100000 \<le> decimal_value (gen_otp rnd) \<and> decimal_value (gen_otp rnd) \<le> 999999 \<and>
     length (gen_otp rnd) = 6 \<and> (\<forall>c\<in>set (gen_otp rnd). c \<in> set ''0123456789'') \<and>
     store_of (login e db (Some em) (Some pw) now rnd send_ok) =
       save (user0\<lparr>emailVerificationOTP := Some (gen_otp rnd),
                   emailVerificationExpire := Some (now + 10 * 60 * 1000)\<rparr>) db \<and>
     user0\<lparr>emailVerificationOTP := Some (gen_otp rnd),
           emailVerificationExpire := Some (now + 10 * 60 * 1000)\<rparr>
       \<in> set (store_of (login e db (Some em) (Some pw) now rnd send_ok)) \<and>
     trace (login e db (Some em) (Some pw) now rnd send_ok) =
       [Saved (user0\<lparr>emailVerificationOTP := Some (gen_otp rnd),
                     emailVerificationExpire := Some (now + 10 * 60 * 1000)\<rparr>),
        Mailed (VerificationOTP (Some em) (gen_otp rnd) (name user0)) send_ok] \<and>
     outcome (login e db (Some em) (Some pw) now rnd send_ok) =
       Respond 200
         (TokenBody
            (getSignedJwtToken e (user0\<lparr>emailVerificationOTP := Some (gen_otp rnd),
                                        emailVerificationExpire := Some (now + 10 * 60 * 1000)\<rparr>))
            (UserView (uid user0) (name user0) (Some em)) True) \<and>
     success (TokenBody
            (getSignedJwtToken e (user0\<lparr>emailVerificationOTP := Some (gen_otp rnd),
                                        emailVerificationExpire := Some (now + 10 * 60 * 1000)\<rparr>))
            (UserView (uid user0) (name user0) (Some em)) True)"
proof -
  let ?u1 = "user0\<lparr>emailVerificationOTP := Some (gen_otp rnd),
                   emailVerificationExpire := Some (now + 10 * 60 * 1000)\<rparr>"
  from assms(1) have mem: "user0 \<in> set db" and em: "email user0 = Some em"
    using findOne_Some_D [of "\<lambda>u. email u = Some em" db user0] by simp_all
  note num = gen_otp_number [OF assms(6)]
  have six: "length (gen_otp rnd) = 6 \<and> (\<forall>c\<in>set (gen_otp rnd). c \<in> set ''0123456789'')"
    using assms(6) by (rule gen_otp_six_digits)
  have run: "login e db (Some em) (Some pw) now rnd send_ok =
       \<lparr>store_of = save ?u1 db,
        trace = [Saved ?u1, Mailed (VerificationOTP (email user0) (gen_otp rnd) (name user0)) send_ok],
        outcome = sendTokenResponse e ?u1 200 True\<rparr>"
    using assms(1-5) by (intro login_unverified [where pw = pw]) (simp_all add: falsy_def)
  have stored: "?u1 \<in> set (save ?u1 db)"
    using mem by (intro save_mem [of user0]) simp_all
  have rest: "store_of (login e db (Some em) (Some pw) now rnd send_ok) = save ?u1 db \<and>
     ?u1 \<in> set (store_of (login e db (Some em) (Some pw) now rnd send_ok)) \<and>
     trace (login e db (Some em) (Some pw) now rnd send_ok) =
       [Saved ?u1, Mailed (VerificationOTP (Some em) (gen_otp rnd) (name user0)) send_ok] \<and>
     outcome (login e db (Some em) (Some pw) now rnd send_ok) =
       Respond 200 (TokenBody (getSignedJwtToken e ?u1)
            (UserView (uid user0) (name user0) (Some em)) True) \<and>
     success (TokenBody (getSignedJwtToken e ?u1)
            (UserView (uid user0) (name user0) (Some em)) True)"
    unfolding run using stored em by (simp add: sendTokenResponse_def)
  have f: "gen_otp rnd =
       toString (Math_floor (fadd (Double 100000 0) (fmul rnd (Double 900000 0))))"
    by (simp add: gen_otp_def)
  from f num(2) num(3) num(4) num(5) six rest show ?thesis by (intro conjI) blast+
qed

text \<open>Claim C3 on the sample store.\<close>

theorem login_unverified_resends_otp_witness:
  "gen_otp half_draw = ''550000'' \<and>
   store_of (login sample_env [alice] (Some ''a@x.io'') (Some ''pw'') 5000 half_draw True) =
     [alice\<lparr>emailVerificationOTP := Some ''550000'', emailVerificationExpire := Some 605000\<rparr>] \<and>
   outcome (login sample_env [alice] (Some ''a@x.io'') (Some ''pw'') 5000 half_draw True) =
     Respond 200 (TokenBody ''jwt.1'' (UserView 1 (Some ''Alice'') (Some ''a@x.io'')) True)"
proof -
  have h2: "''a@x.io'' \<noteq> []" and h3: "''pw'' \<noteq> []" by simp_all
  have h5: "\<not> isEmailVerified alice" by (simp add: alice_def)
  note t = login_unverified_resends_otp [OF findOne_alice h2 h3 match_alice h5
      random_range_draws(2), of 5000 True]
  note t0 = t [THEN conjunct2, THEN conjunct2, THEN conjunct2, THEN conjunct2, THEN conjunct2,
      THEN conjunct2, THEN conjunct2]
  note t_store = t0 [THEN conjunct1]
  note t_out = t0 [THEN conjunct2, THEN conjunct2, THEN conjunct2, THEN conjunct1]
  have s: "save (alice\<lparr>emailVerificationOTP := x, emailVerificationExpire := y\<rparr>) [alice] =
       [alice\<lparr>emailVerificationOTP := x, emailVerificationExpire := y\<rparr>]" for x y
    by (simp add: save_def)
  from t_store have a: "store_of (login sample_env [alice] (Some ''a@x.io'') (Some ''pw'') 5000 half_draw True) =
     [alice\<lparr>emailVerificationOTP := Some ''550000'', emailVerificationExpire := Some 605000\<rparr>]"
    by (simp add: gen_otp_half s)
  from t_out have b: "outcome (login sample_env [alice] (Some ''a@x.io'') (Some ''pw'') 5000 half_draw True) =
     Respond 200 (TokenBody ''jwt.1'' (UserView 1 (Some ''Alice'') (Some ''a@x.io'')) True)"
    by (simp add: gen_otp_half token_alice) (simp add: alice_def)
  from gen_otp_half a b show ?thesis by (intro conjI)
qed

text \<open>
  Claim C4, as the code has it. In every store the controller can reach, each document has
  its one-time password set exactly when the expiry of the one-time password is set, and its
  reset token set exactly when the expiry of the reset token is set. A successful
  \<open>verifyEmail\<close> saves the document with the one-time password and its expiry cleared, a
  successful \<open>resetPassword\<close> saves it with the reset token and its expiry cleared, and a
  failed email in \<open>register\<close>, \<open>sendVerificationOTP\<close> and \<open>forgotPassword\<close> ends with a
  save that clears the pair the handler had set. A failed email in \<open>login\<close> is followed by
  no further save: the one-time password and its expiry both stay set.
\<close>

theorem pending_fields_transient:
  assumes "reachable e db"
  shows "(\<forall>u\<in>set db. paired u) \<and>
    (\<forall>b. outcome (verifyEmail e db b_email b_otp now) = Respond 200 b \<longrightarrow>
       (\<exists>u. trace (verifyEmail e db b_email b_otp now) = [Saved u] \<and>
            u \<in> set (store_of (verifyEmail e db b_email b_otp now)) \<and> isEmailVerified u \<and>
            emailVerificationOTP u = None \<and> emailVerificationExpire u = None)) \<and>
    (\<forall>b. outcome (resetPassword e db resettoken b_password now) = Respond 200 b \<longrightarrow>
       (\<exists>u. trace (resetPassword e db resettoken b_password now) = [Saved u] \<and>
            u \<in> set (store_of (resetPassword e db resettoken b_password now)) \<and>
            resetPasswordToken u = None \<and> resetPasswordExpire u = None)) \<and>
    (\<forall>m. Mailed m False \<in> set (trace (register e db b_name b_email b_password now rnd send_ok)) \<longrightarrow>
       (\<exists>u. last (trace (register e db b_name b_email b_password now rnd send_ok)) = Saved u \<and>
            u \<in> set (store_of (register e db b_name b_email b_password now rnd send_ok)) \<and>
            emailVerificationOTP u = None \<and> emailVerificationExpire u = None)) \<and>
    (\<forall>m. Mailed m False \<in> set (trace (sendVerificationOTP e db b_email now rnd send_ok)) \<longrightarrow>
       (\<exists>u. last (trace (sendVerificationOTP e db b_email now rnd send_ok)) = Saved u \<and>
            u \<in> set (store_of (sendVerificationOTP e db b_email now rnd send_ok)) \<and>
            emailVerificationOTP u = None \<and> emailVerificationExpire u = None)) \<and>
    (\<forall>m. Mailed m False \<in> set (trace (forgotPassword e db b_email now rb send_ok)) \<longrightarrow>
       (\<exists>u. last (trace (forgotPassword e db b_email now rb send_ok)) = Saved u \<and>
            u \<in> set (store_of (forgotPassword e db b_email now rb send_ok)) \<and>
            resetPasswordToken u = None \<and> resetPasswordExpire u = None)) \<and>
    (\<forall>m. Mailed m False \<in> set (trace (login e db b_email b_password now rnd send_ok)) \<longrightarrow>
       (\<exists>u. trace (login e db b_email b_password now rnd send_ok) = [Saved u, Mailed m False] \<and>
            u \<in> set (store_of (login e db b_email b_password now rnd send_ok)) \<and>
            emailVerificationOTP u = Some (gen_otp rnd) \<and>
            emailVerificationExpire u = Some (now + 10 * 60 * 1000)))"
proof (intro conjI allI impI)
  show "\<forall>u\<in>set db. paired u" using assms by (rule reachable_paired)
next
  fix b assume "outcome (verifyEmail e db b_email b_otp now) = Respond 200 b"
  then show "\<exists>u. trace (verifyEmail e db b_email b_otp now) = [Saved u] \<and>
            u \<in> set (store_of (verifyEmail e db b_email b_otp now)) \<and> isEmailVerified u \<and>
            emailVerificationOTP u = None \<and> emailVerificationExpire u = None"
    by (rule verifyEmail_success_clears)
next
  fix b assume "outcome (resetPassword e db resettoken b_password now) = Respond 200 b"
  then show "\<exists>u. trace (resetPassword e db resettoken b_password now) = [Saved u] \<and>
            u \<in> set (store_of (resetPassword e db resettoken b_password now)) \<and>
            resetPasswordToken u = None \<and> resetPasswordExpire u = None"
    by (rule resetPassword_success_clears)
next
  fix m assume "Mailed m False \<in> set (trace (register e db b_name b_email b_password now rnd send_ok))"
  then show "\<exists>u. last (trace (register e db b_name b_email b_password now rnd send_ok)) = Saved u \<and>
            u \<in> set (store_of (register e db b_name b_email b_password now rnd send_ok)) \<and>
            emailVerificationOTP u = None \<and> emailVerificationExpire u = None"
    by (rule register_failed_send_clears)
next
  fix m assume "Mailed m False \<in> set (trace (sendVerificationOTP e db b_email now rnd send_ok))"
  then show "\<exists>u. last (trace (sendVerificationOTP e db b_email now rnd send_ok)) = Saved u \<and>
            u \<in> set (store_of (sendVerificationOTP e db b_email now rnd send_ok)) \<and>
            emailVerificationOTP u = None \<and> emailVerificationExpire u = None"
    by (rule sendVerificationOTP_failed_send_clears)
next
  fix m assume "Mailed m False \<in> set (trace (forgotPassword e db b_email now rb send_ok))"
  then show "\<exists>u. last (trace (forgotPassword e db b_email now rb send_ok)) = Saved u \<and>
            u \<in> set (store_of (forgotPassword e db b_email now rb send_ok)) \<and>
            resetPasswordToken u = None \<and> resetPasswordExpire u = None"
    by (rule forgotPassword_failed_send_clears)
next
  fix m assume "Mailed m False \<in> set (trace (login e db b_email b_password now rnd send_ok))"
  then show "\<exists>u. trace (login e db b_email b_password now rnd send_ok) = [Saved u, Mailed m False] \<and>
            u \<in> set (store_of (login e db b_email b_password now rnd send_ok)) \<and>
            emailVerificationOTP u = Some (gen_otp rnd) \<and>
            emailVerificationExpire u = Some (now + 10 * 60 * 1000)"
    by (rule login_failed_send_keeps)
qed

text \<open>
  Claim C4 on a store reached by a registration and a login: the pending pair is set, and a
  verification clears it.
\<close>

theorem pending_fields_transient_witness:
  "reachable sample_env [alice\<lparr>emailVerificationOTP := Some ''550000'',
                               emailVerificationExpire := Some 605000\<rparr>] \<and>
   paired (alice\<lparr>emailVerificationOTP := Some ''550000'', emailVerificationExpire := Some 605000\<rparr>) \<and>
   (\<exists>u. trace (verifyEmail sample_env
                 [alice\<lparr>emailVerificationOTP := Some ''550000'',
                        emailVerificationExpire := Some 605000\<rparr>]
                 (Some ''a@x.io'') (Some ''550000'') 6000) = [Saved u] \<and>
        u \<in> set (store_of (verifyEmail sample_env
                 [alice\<lparr>emailVerificationOTP := Some ''550000'',
                        emailVerificationExpire := Some 605000\<rparr>]
                 (Some ''a@x.io'') (Some ''550000'') 6000)) \<and>
        isEmailVerified u \<and> emailVerificationOTP u = None \<and> emailVerificationExpire u = None)"
proof -
  let ?p = "alice\<lparr>emailVerificationOTP := Some ''550000'', emailVerificationExpire := Some 605000\<rparr>"
  have f: "findOne (otp_filter (Some ''a@x.io'') (Some ''550000'') 6000) [?p] = Some ?p"
    by (simp add: findOne_def otp_filter_def alice_def)
  have hv: "outcome (verifyEmail sample_env [?p] (Some ''a@x.io'') (Some ''550000'') 6000) =
      Respond 200 (MessageBody ''Account created successfully! Email verified.''
           (getSignedJwtToken sample_env (?p\<lparr>isEmailVerified := True, emailVerificationOTP := None,
                                       emailVerificationExpire := None\<rparr>))
           (UserView (uid ?p) (name ?p) (email ?p)))"
    by (simp add: verifyEmail_found [OF f] falsy_def)
  note t = pending_fields_transient [OF reachable_alice_pending,
      where b_email = "Some ''a@x.io''" and b_otp = "Some ''550000''" and now = 6000]
  note c1 = t [THEN conjunct1]
  note c2 = t [THEN conjunct2, THEN conjunct1, THEN spec, THEN mp, OF hv]
  from c1 have "paired ?p" by simp
  with c2 reachable_alice_pending show ?thesis by simp
qed

text \<open>
  Claim C4 as stated fails after a failed email in \<open>login\<close>: in a reachable store, the
  one-time password and its expiry are still stored after the send has failed.
\<close>

theorem login_failed_send_keeps_otp_counterexample:
  "reachable sample_env [alice] \<and>
   trace (login sample_env [alice] (Some ''a@x.io'') (Some ''pw'') 5000 half_draw False) =
     [Saved (alice\<lparr>emailVerificationOTP := Some ''550000'',
                   emailVerificationExpire := Some 605000\<rparr>),
      Mailed (VerificationOTP (Some ''a@x.io'') ''550000'' (Some ''Alice'')) False] \<and>
   store_of (login sample_env [alice] (Some ''a@x.io'') (Some ''pw'') 5000 half_draw False) =
     [alice\<lparr>emailVerificationOTP := Some ''550000'', emailVerificationExpire := Some 605000\<rparr>]"
  by (simp add: reachable_alice login_alice_half)

text \<open>
  Claim C5. \<open>forgotPassword\<close> saves the document with \<open>resetPasswordExpire\<close> thirty minutes
  after the current time; when the email goes through, that is what the store holds
  afterwards. \<open>resetPassword\<close> answers 400 \<open>Invalid token\<close> exactly when no stored document
  has both the SHA-256 digest of the presented token and an expiry strictly greater than the
  current time. So the token that \<open>forgotPassword\<close> mailed is accepted before the thirty
  minutes are over and rejected from then on; for the rejection the digest is taken to be
  new to the store when the token is issued.
\<close>

theorem reset_token_expiry:
  "(findOne (\<lambda>u. email u = b_email) db = Some user0 \<longrightarrow>
      (\<exists>rest. trace (forgotPassword e db b_email now rb send_ok) =
         Saved (user0\<lparr>resetPasswordToken := Some (sha256_hex e (toString_hex rb)),
                      resetPasswordExpire := Some (now + 30 * 60 * 1000)\<rparr>) # rest) \<and>
      store_of (forgotPassword e db b_email now rb True) =
        save (user0\<lparr>resetPasswordToken := Some (sha256_hex e (toString_hex rb)),
                    resetPasswordExpire := Some (now + 30 * 60 * 1000)\<rparr>) db \<and>
      user0\<lparr>resetPasswordToken := Some (sha256_hex e (toString_hex rb)),
            resetPasswordExpire := Some (now + 30 * 60 * 1000)\<rparr>
        \<in> set (store_of (forgotPassword e db b_email now rb True)) \<and>
      (\<forall>v\<in>set (store_of (forgotPassword e db b_email now rb True)).
         uid v = uid user0 \<longrightarrow>
           resetPasswordToken v = Some (sha256_hex e (toString_hex rb)) \<and>
           resetPasswordExpire v = Some (now + 30 * 60 * 1000)))
   \<and>
   (outcome (resetPassword e db resettoken b_password now') = Respond 400 (ErrorBody ''Invalid token'')
      \<longleftrightarrow> \<not> (\<exists>u\<in>set db. resetPasswordToken u = Some (sha256_hex e resettoken) \<and>
               (\<exists>t. resetPasswordExpire u = Some t \<and> now' < t)))
   \<and>
   (findOne (\<lambda>u. email u = b_email) db = Some user0 \<and> now' < now + 30 * 60 * 1000 \<longrightarrow>
      outcome (resetPassword e (store_of (forgotPassword e db b_email now rb True))
                 (toString_hex rb) b_password now') \<noteq> Respond 400 (ErrorBody ''Invalid token''))
   \<and>
   (findOne (\<lambda>u. email u = b_email) db = Some user0 \<and>
    (\<forall>v\<in>set db. resetPasswordToken v \<noteq> Some (sha256_hex e (toString_hex rb))) \<and>
    now + 30 * 60 * 1000 \<le> now' \<longrightarrow>
      outcome (resetPassword e (store_of (forgotPassword e db b_email now rb True))
                 (toString_hex rb) b_password now') = Respond 400 (ErrorBody ''Invalid token''))"
proof (intro conjI impI)
  assume f: "findOne (\<lambda>u. email u = b_email) db = Some user0"
  let ?u1 = "user0\<lparr>resetPasswordToken := Some (sha256_hex e (toString_hex rb)),
                   resetPasswordExpire := Some (now + 30 * 60 * 1000)\<rparr>"
  have mem: "user0 \<in> set db" using findOne_Some_D [OF f] by simp
  show "\<exists>rest. trace (forgotPassword e db b_email now rb send_ok) = Saved ?u1 # rest"
    by (cases send_ok) (simp_all add: forgotPassword_sent [OF f] forgotPassword_fail [OF f])
  show st: "store_of (forgotPassword e db b_email now rb True) = save ?u1 db"
    by (simp add: forgotPassword_sent [OF f])
  have "?u1 \<in> set (save ?u1 db)" using mem by (intro save_mem [of user0]) simp_all
  then show "?u1 \<in> set (store_of (forgotPassword e db b_email now rb True))"
    by (simp only: st)
  show "\<forall>v\<in>set (store_of (forgotPassword e db b_email now rb True)).
         uid v = uid user0 \<longrightarrow>
           resetPasswordToken v = Some (sha256_hex e (toString_hex rb)) \<and>
           resetPasswordExpire v = Some (now + 30 * 60 * 1000)"
  proof (intro ballI impI)
    fix v assume "v \<in> set (store_of (forgotPassword e db b_email now rb True))" "uid v = uid user0"
    then have "v = ?u1" using save_all_uid [of v ?u1 db] by (simp add: st)
    then show "resetPasswordToken v = Some (sha256_hex e (toString_hex rb)) \<and>
           resetPasswordExpire v = Some (now + 30 * 60 * 1000)" by simp
  qed
next
  show "outcome (resetPassword e db resettoken b_password now') = Respond 400 (ErrorBody ''Invalid token'')
      \<longleftrightarrow> \<not> (\<exists>u\<in>set db. resetPasswordToken u = Some (sha256_hex e resettoken) \<and>
               (\<exists>t. resetPasswordExpire u = Some t \<and> now' < t))"
    by (rule resetPassword_rejects_iff)
next
  assume "findOne (\<lambda>u. email u = b_email) db = Some user0 \<and> now' < now + 30 * 60 * 1000"
  then show "outcome (resetPassword e (store_of (forgotPassword e db b_email now rb True))
                 (toString_hex rb) b_password now') \<noteq> Respond 400 (ErrorBody ''Invalid token'')"
    using forgot_then_in_time [of b_email db user0 now' now e rb b_password] by blast
next
  assume "findOne (\<lambda>u. email u = b_email) db = Some user0 \<and>
    (\<forall>v\<in>set db. resetPasswordToken v \<noteq> Some (sha256_hex e (toString_hex rb))) \<and>
    now + 30 * 60 * 1000 \<le> now'"
  then show "outcome (resetPassword e (store_of (forgotPassword e db b_email now rb True))
                 (toString_hex rb) b_password now') = Respond 400 (ErrorBody ''Invalid token'')"
    using forgot_then_late [of b_email db user0 e rb now now' b_password] by blast
qed

text \<open>
  Claim C5 on the sample store: a token issued at 1000 is stored with the expiry 1801000,
  accepted at 1800999 and rejected at 1801000.
\<close>

theorem reset_token_expiry_witness:
  "store_of (forgotPassword sample_env [alice] (Some ''a@x.io'') 1000 [171, 205] True) =
     [alice\<lparr>resetPasswordToken := Some ''sha:abcd'', resetPasswordExpire := Some 1801000\<rparr>] \<and>
   outcome (resetPassword sample_env
              (store_of (forgotPassword sample_env [alice] (Some ''a@x.io'') 1000 [171, 205] True))
              ''abcd'' (Some ''newpw'') 1800999) \<noteq> Respond 400 (ErrorBody ''Invalid token'') \<and>
   outcome (resetPassword sample_env
              (store_of (forgotPassword sample_env [alice] (Some ''a@x.io'') 1000 [171, 205] True))
              ''abcd'' (Some ''newpw'') 1801000) = Respond 400 (ErrorBody ''Invalid token'')"
proof -
  have h3: "findOne (\<lambda>u. email u = Some ''a@x.io'') [alice] = Some alice \<and>
      (1800999::int) < 1000 + 30 * 60 * 1000"
    by (simp add: findOne_alice)
  have h4: "findOne (\<lambda>u. email u = Some ''a@x.io'') [alice] = Some alice \<and>
      (\<forall>v\<in>set [alice]. resetPasswordToken v \<noteq> Some (sha256_hex sample_env (toString_hex [171, 205]))) \<and>
      (1000::int) + 30 * 60 * 1000 \<le> 1801000"
    by (simp add: findOne_alice) (simp add: alice_def)
  note t1 = reset_token_expiry [where e = sample_env and db = "[alice]"
      and b_email = "Some ''a@x.io''" and ?user0.0 = alice and now = 1000 and rb = "[171, 205]"
      and send_ok = True and now' = 1800999 and b_password = "Some ''newpw''"]
  note t2 = reset_token_expiry [where e = sample_env and db = "[alice]"
      and b_email = "Some ''a@x.io''" and ?user0.0 = alice and now = 1000 and rb = "[171, 205]"
      and send_ok = True and now' = 1801000 and b_password = "Some ''newpw''"]
  note c1 = t1 [THEN conjunct1, THEN mp, OF findOne_alice, THEN conjunct2, THEN conjunct1]
  note c3 = t1 [THEN conjunct2, THEN conjunct2, THEN conjunct1, THEN mp, OF h3]
  note c4 = t2 [THEN conjunct2, THEN conjunct2, THEN conjunct2, THEN mp, OF h4]
  have s: "save (alice\<lparr>resetPasswordToken := x, resetPasswordExpire := y\<rparr>) [alice] =
       [alice\<lparr>resetPasswordToken := x, resetPasswordExpire := y\<rparr>]" for x y
    by (simp add: save_def)
  have tk: "toString_hex [171, 205] = ''abcd''" by (rule toString_hex_abcd)
  from c1 have c1': "store_of (forgotPassword sample_env [alice] (Some ''a@x.io'') 1000 [171, 205] True) =
     [alice\<lparr>resetPasswordToken := Some ''sha:abcd'', resetPasswordExpire := Some 1801000\<rparr>]"
    by (simp add: s tk sha_sample)
  from c3 c4 have "outcome (resetPassword sample_env
              (store_of (forgotPassword sample_env [alice] (Some ''a@x.io'') 1000 [171, 205] True))
              ''abcd'' (Some ''newpw'') 1800999) \<noteq> Respond 400 (ErrorBody ''Invalid token'') \<and>
   outcome (resetPassword sample_env
              (store_of (forgotPassword sample_env [alice] (Some ''a@x.io'') 1000 [171, 205] True))
              ''abcd'' (Some ''newpw'') 1801000) = Respond 400 (ErrorBody ''Invalid token'')"
    by (simp only: tk) simp
  with c1' show ?thesis by (intro conjI) simp_all
qed

text \<open>
  Claim C6. \<open>register\<close>, \<open>login\<close> of an unverified user and \<open>sendVerificationOTP\<close> each
  save the one-time password together with an expiry ten minutes after the current time,
  before the email is attempted; that is what the store holds afterwards (for \<open>register\<close>
  and \<open>sendVerificationOTP\<close> when the email goes through, for \<open>login\<close> in any case).
  \<open>verifyEmail\<close>, given an email and a one-time password, answers 200 when some stored
  document has that email, that one-time password and an expiry strictly greater than the
  current time, and 400 \<open>Invalid or expired OTP\<close> otherwise. So on the store that an issuer
  leaves, the one-time password it issued is accepted before the ten minutes are over and
  refused from then on (for \<open>login\<close> and \<open>sendVerificationOTP\<close> in a store the controller
  can reach, where an email belongs to one document only).
\<close>

theorem otp_expiry:
  "(findOne (\<lambda>u. email u = b_email) db = None \<and>
    create e b_name b_email b_password None False db = Some (db0, user0) \<longrightarrow>
      (\<exists>rest. trace (register e db b_name b_email b_password now rnd send_ok) =
         Created user0 #
         Saved (user0\<lparr>emailVerificationOTP := Some (gen_otp rnd),
                      emailVerificationExpire := Some (now + 10 * 60 * 1000)\<rparr>) # rest) \<and>
      store_of (register e db b_name b_email b_password now rnd True) =
        db @ [user0\<lparr>emailVerificationOTP := Some (gen_otp rnd),
                    emailVerificationExpire := Some (now + 10 * 60 * 1000)\<rparr>] \<and>
      (\<not> falsy b_email \<longrightarrow>
         (if now' < now + 10 * 60 * 1000
          then \<exists>b. outcome (verifyEmail e
                       (store_of (register e db b_name b_email b_password now rnd True))
                       b_email (Some (gen_otp rnd)) now') = Respond 200 b \<and> success b
          else outcome (verifyEmail e
                       (store_of (register e db b_name b_email b_password now rnd True))
                       b_email (Some (gen_otp rnd)) now') =
                 Respond 400 (ErrorBody ''Invalid or expired OTP''))))
   \<and>
   (findOne (\<lambda>u. email u = b_email) db = Some user1 \<and> \<not> falsy b_email \<and>
    b_password = Some pw \<and> pw \<noteq> [] \<and> matchPassword e user1 pw \<and> \<not> isEmailVerified user1 \<longrightarrow>
      (\<exists>rest. trace (login e db b_email b_password now rnd send_ok) =
         Saved (user1\<lparr>emailVerificationOTP := Some (gen_otp rnd),
                      emailVerificationExpire := Some (now + 10 * 60 * 1000)\<rparr>) # rest) \<and>
      store_of (login e db b_email b_password now rnd send_ok) =
        save (user1\<lparr>emailVerificationOTP := Some (gen_otp rnd),
                    emailVerificationExpire := Some (now + 10 * 60 * 1000)\<rparr>) db \<and>
      user1\<lparr>emailVerificationOTP := Some (gen_otp rnd),
            emailVerificationExpire := Some (now + 10 * 60 * 1000)\<rparr>
        \<in> set (store_of (login e db b_email b_password now rnd send_ok)) \<and>
      (reachable e db \<longrightarrow>
         (if now' < now + 10 * 60 * 1000
          then \<exists>b. outcome (verifyEmail e
                       (store_of (login e db b_email b_password now rnd send_ok))
                       b_email (Some (gen_otp rnd)) now') = Respond 200 b \<and> success b
          else outcome (verifyEmail e
                       (store_of (login e db b_email b_password now rnd send_ok))
                       b_email (Some (gen_otp rnd)) now') =
                 Respond 400 (ErrorBody ''Invalid or expired OTP''))))
   \<and>
   (findOne (\<lambda>u. email u = b_email) db = Some user1 \<and> \<not> falsy b_email \<longrightarrow>
      (\<exists>rest. trace (sendVerificationOTP e db b_email now rnd send_ok) =
         Saved (user1\<lparr>emailVerificationOTP := Some (gen_otp rnd),
                      emailVerificationExpire := Some (now + 10 * 60 * 1000)\<rparr>) # rest) \<and>
      store_of (sendVerificationOTP e db b_email now rnd True) =
        save (user1\<lparr>emailVerificationOTP := Some (gen_otp rnd),
                    emailVerificationExpire := Some (now + 10 * 60 * 1000)\<rparr>) db \<and>
      user1\<lparr>emailVerificationOTP := Some (gen_otp rnd),
            emailVerificationExpire := Some (now + 10 * 60 * 1000)\<rparr>
        \<in> set (store_of (sendVerificationOTP e db b_email now rnd True)) \<and>
      (reachable e db \<longrightarrow>
         (if now' < now + 10 * 60 * 1000
          then \<exists>b. outcome (verifyEmail e
                       (store_of (sendVerificationOTP e db b_email now rnd True))
                       b_email (Some (gen_otp rnd)) now') = Respond 200 b \<and> success b
          else outcome (verifyEmail e
                       (store_of (sendVerificationOTP e db b_email now rnd True))
                       b_email (Some (gen_otp rnd)) now') =
                 Respond 400 (ErrorBody ''Invalid or expired OTP''))))
   \<and>
   (\<not> falsy b_email \<and> \<not> falsy b_otp \<longrightarrow>
      (if \<exists>u\<in>set db. email u = b_email \<and> emailVerificationOTP u = b_otp \<and>
              (\<exists>t. emailVerificationExpire u = Some t \<and> now' < t)
       then \<exists>b. outcome (verifyEmail e db b_email b_otp now') = Respond 200 b \<and> success b
       else outcome (verifyEmail e db b_email b_otp now') =
              Respond 400 (ErrorBody ''Invalid or expired OTP'')))"
proof (intro conjI impI)
  assume "findOne (\<lambda>u. email u = b_email) db = None \<and>
    create e b_name b_email b_password None False db = Some (db0, user0)"
  then have f: "findOne (\<lambda>u. email u = b_email) db = None"
    and c: "create e b_name b_email b_password None False db = Some (db0, user0)" by simp_all
  show "\<exists>rest. trace (register e db b_name b_email b_password now rnd send_ok) =
         Created user0 #
         Saved (user0\<lparr>emailVerificationOTP := Some (gen_otp rnd),
                      emailVerificationExpire := Some (now + 10 * 60 * 1000)\<rparr>) # rest"
    using register_sent [OF f c, of now rnd] register_fail [OF f c, of now rnd]
    by (cases send_ok) simp_all
  show "store_of (register e db b_name b_email b_password now rnd True) =
        db @ [user0\<lparr>emailVerificationOTP := Some (gen_otp rnd),
                    emailVerificationExpire := Some (now + 10 * 60 * 1000)\<rparr>]"
    by (simp add: register_sent [OF f c])
  assume t: "\<not> falsy b_email"
  show "if now' < now + 10 * 60 * 1000
          then \<exists>b. outcome (verifyEmail e
                       (store_of (register e db b_name b_email b_password now rnd True))
                       b_email (Some (gen_otp rnd)) now') = Respond 200 b \<and> success b
          else outcome (verifyEmail e
                       (store_of (register e db b_name b_email b_password now rnd True))
                       b_email (Some (gen_otp rnd)) now') =
                 Respond 400 (ErrorBody ''Invalid or expired OTP'')"
    by (rule verify_after_register [OF f c t])
next
  assume h: "findOne (\<lambda>u. email u = b_email) db = Some user1 \<and> \<not> falsy b_email \<and>
    b_password = Some pw \<and> pw \<noteq> [] \<and> matchPassword e user1 pw \<and> \<not> isEmailVerified user1"
  then have f: "findOne (\<lambda>u. email u = b_email) db = Some user1" and t: "\<not> falsy b_email"
    by simp_all
  let ?u1 = "user1\<lparr>emailVerificationOTP := Some (gen_otp rnd),
                   emailVerificationExpire := Some (now + 10 * 60 * 1000)\<rparr>"
  have run: "login e db b_email b_password now rnd send_ok =
     \<lparr>store_of = save ?u1 db,
      trace = [Saved ?u1, Mailed (VerificationOTP (email user1) (gen_otp rnd) (name user1)) send_ok],
      outcome = sendTokenResponse e ?u1 200 True\<rparr>"
    using h by (intro login_unverified [where pw = pw]) simp_all
  have mem: "user1 \<in> set db" using findOne_Some_D [OF f] by simp
  show "\<exists>rest. trace (login e db b_email b_password now rnd send_ok) = Saved ?u1 # rest"
    by (simp add: run)
  show st: "store_of (login e db b_email b_password now rnd send_ok) = save ?u1 db"
    by (simp add: run)
  have "?u1 \<in> set (save ?u1 db)" using mem by (intro save_mem [of user1]) simp_all
  then show "?u1 \<in> set (store_of (login e db b_email b_password now rnd send_ok))"
    by (simp only: st)
  assume r: "reachable e db"
  show "if now' < now + 10 * 60 * 1000
          then \<exists>b. outcome (verifyEmail e
                       (store_of (login e db b_email b_password now rnd send_ok))
                       b_email (Some (gen_otp rnd)) now') = Respond 200 b \<and> success b
          else outcome (verifyEmail e
                       (store_of (login e db b_email b_password now rnd send_ok))
                       b_email (Some (gen_otp rnd)) now') =
                 Respond 400 (ErrorBody ''Invalid or expired OTP'')"
    unfolding st by (rule verify_after_found [OF r f t])
next
  assume "findOne (\<lambda>u. email u = b_email) db = Some user1 \<and> \<not> falsy b_email"
  then have f: "findOne (\<lambda>u. email u = b_email) db = Some user1" and t: "\<not> falsy b_email"
    by simp_all
  let ?u1 = "user1\<lparr>emailVerificationOTP := Some (gen_otp rnd),
                   emailVerificationExpire := Some (now + 10 * 60 * 1000)\<rparr>"
  have mem: "user1 \<in> set db" using findOne_Some_D [OF f] by simp
  show "\<exists>rest. trace (sendVerificationOTP e db b_email now rnd send_ok) = Saved ?u1 # rest"
    by (cases send_ok)
       (simp_all add: sendVerificationOTP_sent [OF f t] sendVerificationOTP_fail [OF f t])
  show st: "store_of (sendVerificationOTP e db b_email now rnd True) = save ?u1 db"
    by (simp add: sendVerificationOTP_sent [OF f t])
  have "?u1 \<in> set (save ?u1 db)" using mem by (intro save_mem [of user1]) simp_all
  then show "?u1 \<in> set (store_of (sendVerificationOTP e db b_email now rnd True))"
    by (simp only: st)
  assume r: "reachable e db"
  show "if now' < now + 10 * 60 * 1000
          then \<exists>b. outcome (verifyEmail e
                       (store_of (sendVerificationOTP e db b_email now rnd True))
                       b_email (Some (gen_otp rnd)) now') = Respond 200 b \<and> success b
          else outcome (verifyEmail e
                       (store_of (sendVerificationOTP e db b_email now rnd True))
                       b_email (Some (gen_otp rnd)) now') =
                 Respond 400 (ErrorBody ''Invalid or expired OTP'')"
    unfolding st by (rule verify_after_found [OF r f t])
next
  assume "\<not> falsy b_email \<and> \<not> falsy b_otp"
  then show "if \<exists>u\<in>set db. email u = b_email \<and> emailVerificationOTP u = b_otp \<and>
              (\<exists>t. emailVerificationExpire u = Some t \<and> now' < t)
       then \<exists>b. outcome (verifyEmail e db b_email b_otp now') = Respond 200 b \<and> success b
       else outcome (verifyEmail e db b_email b_otp now') =
              Respond 400 (ErrorBody ''Invalid or expired OTP'')"
    using verifyEmail_decides [of b_email b_otp db now' e] by simp
qed

text \<open>
  Claim C6 on the sample store: a one-time password issued at 5000 by each of the three
  handlers is stored with the expiry 605000, accepted at 604999 and refused at 605000.
\<close>

theorem otp_expiry_witness:
  "store_of (register sample_env [] (Some ''Alice'') (Some ''a@x.io'') (Some ''pw'') 5000 half_draw True) =
     [alice\<lparr>emailVerificationOTP := Some ''550000'', emailVerificationExpire := Some 605000\<rparr>] \<and>
   (\<exists>b. outcome (verifyEmail sample_env
           (store_of (register sample_env [] (Some ''Alice'') (Some ''a@x.io'') (Some ''pw'') 5000 half_draw True))
           (Some ''a@x.io'') (Some ''550000'') 604999) = Respond 200 b \<and> success b) \<and>
   outcome (verifyEmail sample_env
           (store_of (register sample_env [] (Some ''Alice'') (Some ''a@x.io'') (Some ''pw'') 5000 half_draw True))
           (Some ''a@x.io'') (Some ''550000'') 605000) =
     Respond 400 (ErrorBody ''Invalid or expired OTP'') \<and>
   store_of (login sample_env [alice] (Some ''a@x.io'') (Some ''pw'') 5000 half_draw False) =
     [alice\<lparr>emailVerificationOTP := Some ''550000'', emailVerificationExpire := Some 605000\<rparr>] \<and>
   (\<exists>b. outcome (verifyEmail sample_env
           (store_of (login sample_env [alice] (Some ''a@x.io'') (Some ''pw'') 5000 half_draw False))
           (Some ''a@x.io'') (Some ''550000'') 604999) = Respond 200 b \<and> success b) \<and>
   outcome (verifyEmail sample_env
           (store_of (login sample_env [alice] (Some ''a@x.io'') (Some ''pw'') 5000 half_draw False))
           (Some ''a@x.io'') (Some ''550000'') 605000) =
     Respond 400 (ErrorBody ''Invalid or expired OTP'') \<and>
   store_of (sendVerificationOTP sample_env [alice] (Some ''a@x.io'') 5000 half_draw True) =
     [alice\<lparr>emailVerificationOTP := Some ''550000'', emailVerificationExpire := Some 605000\<rparr>] \<and>
   (\<exists>b. outcome (verifyEmail sample_env
           (store_of (sendVerificationOTP sample_env [alice] (Some ''a@x.io'') 5000 half_draw True))
           (Some ''a@x.io'') (Some ''550000'') 604999) = Respond 200 b \<and> success b) \<and>
   outcome (verifyEmail sample_env
           (store_of (sendVerificationOTP sample_env [alice] (Some ''a@x.io'') 5000 half_draw True))
           (Some ''a@x.io'') (Some ''550000'') 605000) =
     Respond 400 (ErrorBody ''Invalid or expired OTP'') \<and>
   outcome (verifyEmail sample_env [alice] (Some ''a@x.io'') (Some ''550000'') 6000) =
     Respond 400 (ErrorBody ''Invalid or expired OTP'')"
proof -
  have h1: "findOne (\<lambda>u. email u = Some ''a@x.io'') [] = None \<and>
      create sample_env (Some ''Alice'') (Some ''a@x.io'') (Some ''pw'') None False [] = Some ([alice], alice)"
    by (simp add: findOne_def create_alice)
  have h2: "findOne (\<lambda>u. email u = Some ''a@x.io'') [alice] = Some alice \<and> \<not> falsy (Some ''a@x.io'') \<and>
      Some ''pw'' = Some ''pw'' \<and> ''pw'' \<noteq> [] \<and> matchPassword sample_env alice ''pw'' \<and>
      \<not> isEmailVerified alice"
    by (simp add: findOne_alice falsy_def match_alice) (simp add: alice_def)
  have h3: "findOne (\<lambda>u. email u = Some ''a@x.io'') [alice] = Some alice \<and> \<not> falsy (Some ''a@x.io'')"
    by (simp add: findOne_alice falsy_def)
  have h4: "\<not> falsy (Some ''a@x.io'') \<and> \<not> falsy (Some ''550000'')" by (simp add: falsy_def)
  have ht: "\<not> falsy (Some ''a@x.io'')" by (simp add: falsy_def)
  have s: "save (alice\<lparr>emailVerificationOTP := x, emailVerificationExpire := y\<rparr>) [alice] =
       [alice\<lparr>emailVerificationOTP := x, emailVerificationExpire := y\<rparr>]" for x y
    by (simp add: save_def)
  note a5 = otp_expiry [where e = sample_env and db = "[]" and b_email = "Some ''a@x.io''"
      and b_name = "Some ''Alice''" and b_password = "Some ''pw''" and ?db0.0 = "[alice]"
      and ?user0.0 = alice and now = 5000 and rnd = half_draw and send_ok = True and now' = 604999,
      THEN conjunct1, THEN mp, OF h1]
  note a6 = otp_expiry [where e = sample_env and db = "[]" and b_email = "Some ''a@x.io''"
      and b_name = "Some ''Alice''" and b_password = "Some ''pw''" and ?db0.0 = "[alice]"
      and ?user0.0 = alice and now = 5000 and rnd = half_draw and send_ok = True and now' = 605000,
      THEN conjunct1, THEN mp, OF h1]
  note a_store = a5 [THEN conjunct2, THEN conjunct1]
  note a_in = a5 [THEN conjunct2, THEN conjunct2, THEN mp, OF ht]
  note a_out = a6 [THEN conjunct2, THEN conjunct2, THEN mp, OF ht]
  note b5 = otp_expiry [where e = sample_env and db = "[alice]" and b_email = "Some ''a@x.io''"
      and b_password = "Some ''pw''" and pw = "''pw''" and ?user1.0 = alice and now = 5000
      and rnd = half_draw and send_ok = False and now' = 604999,
      THEN conjunct2, THEN conjunct1, THEN mp, OF h2]
  note b6 = otp_expiry [where e = sample_env and db = "[alice]" and b_email = "Some ''a@x.io''"
      and b_password = "Some ''pw''" and pw = "''pw''" and ?user1.0 = alice and now = 5000
      and rnd = half_draw and send_ok = False and now' = 605000,
      THEN conjunct2, THEN conjunct1, THEN mp, OF h2]
  note b_store = b5 [THEN conjunct2, THEN conjunct1]
  note b_in = b5 [THEN conjunct2, THEN conjunct2, THEN conjunct2, THEN mp,
      OF reachable_alice]
  note b_out = b6 [THEN conjunct2, THEN conjunct2, THEN conjunct2, THEN mp,
      OF reachable_alice]
  note c5 = otp_expiry [where e = sample_env and db = "[alice]" and b_email = "Some ''a@x.io''"
      and ?user1.0 = alice and now = 5000 and rnd = half_draw and send_ok = True and now' = 604999,
      THEN conjunct2, THEN conjunct2, THEN conjunct1, THEN mp, OF h3]
  note c6 = otp_expiry [where e = sample_env and db = "[alice]" and b_email = "Some ''a@x.io''"
      and ?user1.0 = alice and now = 5000 and rnd = half_draw and send_ok = True and now' = 605000,
      THEN conjunct2, THEN conjunct2, THEN conjunct1, THEN mp, OF h3]
  note c_store = c5 [THEN conjunct2, THEN conjunct1]
  note c_in = c5 [THEN conjunct2, THEN conjunct2, THEN conjunct2, THEN mp,
      OF reachable_alice]
  note c_out = c6 [THEN conjunct2, THEN conjunct2, THEN conjunct2, THEN mp,
      OF reachable_alice]
  note d = otp_expiry [where e = sample_env and db = "[alice]" and b_email = "Some ''a@x.io''"
      and b_otp = "Some ''550000''" and now' = 6000,
      THEN conjunct2, THEN conjunct2, THEN conjunct2, THEN mp, OF h4]
  have nex: "\<not> (\<exists>u\<in>set [alice]. email u = Some ''a@x.io'' \<and> emailVerificationOTP u = Some ''550000'' \<and>
              (\<exists>t. emailVerificationExpire u = Some t \<and> 6000 < t))"
    by (simp add: alice_def)
  from d nex have d': "outcome (verifyEmail sample_env [alice] (Some ''a@x.io'') (Some ''550000'') 6000) =
     Respond 400 (ErrorBody ''Invalid or expired OTP'')"
    by (simp only: if_False)
  from a_store have a1: "store_of (register sample_env [] (Some ''Alice'') (Some ''a@x.io'') (Some ''pw'') 5000 half_draw True) =
     [alice\<lparr>emailVerificationOTP := Some ''550000'', emailVerificationExpire := Some 605000\<rparr>]"
    by (simp add: gen_otp_half)
  from b_store have b1: "store_of (login sample_env [alice] (Some ''a@x.io'') (Some ''pw'') 5000 half_draw False) =
     [alice\<lparr>emailVerificationOTP := Some ''550000'', emailVerificationExpire := Some 605000\<rparr>]"
    by (simp add: gen_otp_half s)
  from c_store have c1: "store_of (sendVerificationOTP sample_env [alice] (Some ''a@x.io'') 5000 half_draw True) =
     [alice\<lparr>emailVerificationOTP := Some ''550000'', emailVerificationExpire := Some 605000\<rparr>]"
    by (simp add: gen_otp_half s)
  have t1: "(604999::int) < 5000 + 10 * 60 * 1000" and t2: "\<not> (605000::int) < 5000 + 10 * 60 * 1000"
    by simp_all
  note a2 = a_in [unfolded if_P [OF t1] gen_otp_half]
  note a3 = a_out [unfolded if_not_P [OF t2] gen_otp_half]
  note b2 = b_in [unfolded if_P [OF t1] gen_otp_half]
  note b3 = b_out [unfolded if_not_P [OF t2] gen_otp_half]
  note c2 = c_in [unfolded if_P [OF t1] gen_otp_half]
  note c3 = c_out [unfolded if_not_P [OF t2] gen_otp_half]
  from a1 a2 a3 b1 b2 b3 c1 c2 c3 d' show ?thesis by (intro conjI)
qed

text \<open>
  Claim C7. \<open>protect\<close> calls \<open>next\<close> exactly when the \<open>Authorization\<close> header starts with
  \<open>Bearer\<close>, its second word is a token that \<open>jwt.verify\<close> accepts, and the decoded \<open>id\<close>
  is that of a stored user, who then is \<open>req.user\<close>. In every other case, in particular
  without the header, with a header that does not start with \<open>Bearer\<close>, with a token that
  fails verification and with an \<open>id\<close> that matches no user, it responds 401 with
  \<open>success: false\<close>.
\<close>

theorem protect_guard:
  "(protect e db req = Next req' \<longleftrightarrow>
      (\<exists>a t i u. authorization req = Some a \<and> startsWith a ''Bearer'' \<and>
         second (split_on CHR '' '' a) = Some t \<and> t \<noteq> [] \<and>
         jwt_verify e t = Some (Some i) \<and> findById db (Some i) = Some u \<and>
         req' = req\<lparr>req_user := Found u\<rparr>))
   \<and> ((\<forall>r. protect e db req \<noteq> Next r) \<longrightarrow>
        (\<exists>msg. protect e db req = MwRespond 401 (ErrorBody msg) \<and> \<not> success (ErrorBody msg)))
   \<and> (authorization req = None \<or>
        (\<exists>a. authorization req = Some a \<and> \<not> startsWith a ''Bearer'') \<or>
        (\<exists>t. header_token req = Some t \<and> jwt_verify e t = None) \<or>
        (\<exists>t i. header_token req = Some t \<and> jwt_verify e t = Some i \<and> findById db i = None) \<longrightarrow>
        (\<exists>msg. protect e db req = MwRespond 401 (ErrorBody msg)))"
proof (intro conjI)
  show "protect e db req = Next req' \<longleftrightarrow>
      (\<exists>a t i u. authorization req = Some a \<and> startsWith a ''Bearer'' \<and>
         second (split_on CHR '' '' a) = Some t \<and> t \<noteq> [] \<and>
         jwt_verify e t = Some (Some i) \<and> findById db (Some i) = Some u \<and>
         req' = req\<lparr>req_user := Found u\<rparr>)"
    by (auto simp: protect_def bearer_def header_token_def verify_def falsy_def lookup_user_def
          findById_def Let_def startsWith_def
        split: option.splits if_splits req_user.splits)
  show "(\<forall>r. protect e db req \<noteq> Next r) \<longrightarrow>
        (\<exists>msg. protect e db req = MwRespond 401 (ErrorBody msg) \<and> \<not> success (ErrorBody msg))"
    by (auto simp: protect_def Let_def split: option.splits if_splits req_user.splits)
  show "authorization req = None \<or>
        (\<exists>a. authorization req = Some a \<and> \<not> startsWith a ''Bearer'') \<or>
        (\<exists>t. header_token req = Some t \<and> jwt_verify e t = None) \<or>
        (\<exists>t i. header_token req = Some t \<and> jwt_verify e t = Some i \<and> findById db i = None) \<longrightarrow>
        (\<exists>msg. protect e db req = MwRespond 401 (ErrorBody msg))"
    by (auto simp: protect_def bearer_def verify_def falsy_def lookup_user_def Let_def
        split: option.splits if_splits req_user.splits)
qed

text \<open>Claim C7 on the sample store: a valid token, an unknown user, no header.\<close>

theorem protect_guard_witness:
  "protect sample_env [alice] \<lparr>authorization = Some ''Bearer jwt.1'', req_user = Unset\<rparr> =
     Next \<lparr>authorization = Some ''Bearer jwt.1'', req_user = Found alice\<rparr> \<and>
   (\<exists>msg. protect sample_env [alice] \<lparr>authorization = Some ''Bearer jwt.7'', req_user = Unset\<rparr> =
           MwRespond 401 (ErrorBody msg)) \<and>
   (\<exists>msg. protect sample_env [alice] \<lparr>authorization = None, req_user = Unset\<rparr> =
           MwRespond 401 (ErrorBody msg))"
proof -
  have ok: "\<exists>a t i u. authorization \<lparr>authorization = Some ''Bearer jwt.1'', req_user = Unset\<rparr> = Some a \<and>
         startsWith a ''Bearer'' \<and> second (split_on CHR '' '' a) = Some t \<and> t \<noteq> [] \<and>
         jwt_verify sample_env t = Some (Some i) \<and> findById [alice] (Some i) = Some u \<and>
         \<lparr>authorization = Some ''Bearer jwt.1'', req_user = Found alice\<rparr> =
           \<lparr>authorization = Some ''Bearer jwt.1'', req_user = Unset\<rparr>\<lparr>req_user := Found u\<rparr>"
    apply (rule exI [of _ "''Bearer jwt.1''"])
    apply (rule exI [of _ "''jwt.1''"])
    apply (rule exI [of _ 1])
    apply (rule exI [of _ alice])
    apply (simp add: second_def findById_def alice_def startsWith_def sample_env_def)
    done
  have h7: "authorization \<lparr>authorization = Some ''Bearer jwt.7'', req_user = Unset\<rparr> = None \<or>
        (\<exists>a. authorization \<lparr>authorization = Some ''Bearer jwt.7'', req_user = Unset\<rparr> = Some a \<and>
             \<not> startsWith a ''Bearer'') \<or>
        (\<exists>t. header_token \<lparr>authorization = Some ''Bearer jwt.7'', req_user = Unset\<rparr> = Some t \<and>
             jwt_verify sample_env t = None) \<or>
        (\<exists>t i. header_token \<lparr>authorization = Some ''Bearer jwt.7'', req_user = Unset\<rparr> = Some t \<and>
             jwt_verify sample_env t = Some i \<and> findById [alice] i = None)"
    apply (intro disjI2)
    apply (rule exI [of _ "''jwt.7''"])
    apply (rule exI [of _ "Some 7"])
    apply (simp add: header_token_def second_def sample_env_def findById_def alice_def)
    done
  have h0: "authorization \<lparr>authorization = None, req_user = Unset\<rparr> = None \<or>
        (\<exists>a. authorization \<lparr>authorization = None, req_user = Unset\<rparr> = Some a \<and>
             \<not> startsWith a ''Bearer'') \<or>
        (\<exists>t. header_token \<lparr>authorization = None, req_user = Unset\<rparr> = Some t \<and>
             jwt_verify sample_env t = None) \<or>
        (\<exists>t i. header_token \<lparr>authorization = None, req_user = Unset\<rparr> = Some t \<and>
             jwt_verify sample_env t = Some i \<and> findById [alice] i = None)"
    by simp
  note g1 = protect_guard [of sample_env "[alice]"
      "\<lparr>authorization = Some ''Bearer jwt.1'', req_user = Unset\<rparr>"
      "\<lparr>authorization = Some ''Bearer jwt.1'', req_user = Found alice\<rparr>",
      THEN conjunct1, THEN iffD2, OF ok]
  note g7 = protect_guard [of sample_env "[alice]"
      "\<lparr>authorization = Some ''Bearer jwt.7'', req_user = Unset\<rparr>" undefined,
      THEN conjunct2, THEN conjunct2, THEN mp, OF h7]
  note g0 = protect_guard [of sample_env "[alice]"
      "\<lparr>authorization = None, req_user = Unset\<rparr>" undefined,
      THEN conjunct2, THEN conjunct2, THEN mp, OF h0]
  from g1 g7 g0 show ?thesis by (intro conjI)
qed

text \<open>
  Claim C8. A \<open>register\<close> request whose email belongs to a stored document is answered 400
  with \<open>success: false\<close> and the error \<open>Email already registered\<close>; the store is unchanged
  (no document is created) and nothing is saved or mailed (no one-time password is issued).
\<close>

theorem register_duplicate_email:
  assumes "\<exists>u\<in>set db. email u = b_email"
  shows "register e db b_name b_email b_password now rnd send_ok =
           \<lparr>store_of = db, trace = [],
            outcome = Respond 400 (ErrorBody ''Email already registered'')\<rparr>
         \<and> \<not> success (ErrorBody ''Email already registered'')"
proof -
  from assms obtain y where "find (\<lambda>u. email u = b_email) db = Some y"
    using find_ex [of db "\<lambda>u. email u = b_email"] by blast
  then show ?thesis by (simp add: register_def findOne_def)
qed

text \<open>Claim C8 on the sample store.\<close>

theorem register_duplicate_email_witness:
  "(\<exists>u\<in>set [alice]. email u = Some ''a@x.io'') \<and>
   register sample_env [alice] (Some ''Mallory'') (Some ''a@x.io'') (Some ''secret'') 2000 half_draw True =
     \<lparr>store_of = [alice], trace = [],
      outcome = Respond 400 (ErrorBody ''Email already registered'')\<rparr>"
proof -
  have h: "\<exists>u\<in>set [alice]. email u = Some ''a@x.io''" by (simp add: alice_def)
  show ?thesis
    using h register_duplicate_email [OF h, of sample_env "Some ''Mallory''" "Some ''secret''" 2000 half_draw True]
    by simp
qed

text \<open>
  Claim C9. \<open>forgotPassword\<close> saves the SHA-256 digest of the token it drew and mails the
  token itself in the reset URL. \<open>resetPassword\<close>, given that token within thirty minutes,
  hashes it again and finds the very document \<open>forgotPassword\<close> saved; it then answers
  200 with a token for that user (or passes the validation error of the new password on).
  The digest is taken to be new to the store when the token is issued.
\<close>

theorem reset_token_round_trip:
  assumes f: "findOne (\<lambda>u. email u = b_email) db = Some user0"
    and fresh: "\<forall>v\<in>set db. resetPasswordToken v \<noteq> Some (sha256_hex e (toString_hex rb))"
    and intime: "now' < now + 30 * 60 * 1000"
  shows "store_of (forgotPassword e db b_email now rb True) =
           save (user0\<lparr>resetPasswordToken := Some (sha256_hex e (toString_hex rb)),
                       resetPasswordExpire := Some (now + 30 * 60 * 1000)\<rparr>) db \<and>
         trace (forgotPassword e db b_email now rb True) =
           [Saved (user0\<lparr>resetPasswordToken := Some (sha256_hex e (toString_hex rb)),
                         resetPasswordExpire := Some (now + 30 * 60 * 1000)\<rparr>),
            Mailed (PasswordReset (email user0)
                      (frontendUrl e @ ''/reset-password/'' @ toString_hex rb) (name user0)) True] \<and>
         findOne (reset_filter (sha256_hex e (toString_hex rb)) now')
                 (store_of (forgotPassword e db b_email now rb True)) =
           Some (user0\<lparr>resetPasswordToken := Some (sha256_hex e (toString_hex rb)),
                       resetPasswordExpire := Some (now + 30 * 60 * 1000)\<rparr>) \<and>
         outcome (resetPassword e (store_of (forgotPassword e db b_email now rb True))
                    (toString_hex rb) b_password now') =
           (if validate e (user0\<lparr>password := b_password, resetPasswordToken := None,
                                resetPasswordExpire := None\<rparr>)
            then Respond 200
                   (TokenBody
                      (getSignedJwtToken e
                         (user0\<lparr>resetPasswordToken := None, resetPasswordExpire := None,
                               password := map_option (hashPassword e) b_password\<rparr>))
                      (UserView (uid user0) (name user0) (email user0)) False)
            else NextErr)"
proof -
  let ?u1 = "user0\<lparr>resetPasswordToken := Some (sha256_hex e (toString_hex rb)),
                   resetPasswordExpire := Some (now + 30 * 60 * 1000)\<rparr>"
  let ?db1 = "store_of (forgotPassword e db b_email now rb True)"
  have mem: "user0 \<in> set db" using findOne_Some_D [OF f] by simp
  have st: "?db1 = save ?u1 db" by (simp add: forgotPassword_sent [OF f])
  have q: "reset_filter (sha256_hex e (toString_hex rb)) now' ?u1"
    using intime by (simp add: reset_filter_def)
  have nq: "\<forall>v\<in>set db. \<not> reset_filter (sha256_hex e (toString_hex rb)) now' v"
    using fresh by (simp add: reset_filter_def)
  have found: "findOne (reset_filter (sha256_hex e (toString_hex rb)) now') ?db1 = Some ?u1"
    unfolding st findOne_def using mem q nq by (intro find_save [of user0]) simp_all
  have out: "outcome (resetPassword e ?db1 (toString_hex rb) b_password now') =
           (if validate e (user0\<lparr>password := b_password, resetPasswordToken := None,
                                resetPasswordExpire := None\<rparr>)
            then Respond 200
                   (TokenBody
                      (getSignedJwtToken e
                         (user0\<lparr>resetPasswordToken := None, resetPasswordExpire := None,
                               password := map_option (hashPassword e) b_password\<rparr>))
                      (UserView (uid user0) (name user0) (email user0)) False)
            else NextErr)"
    by (simp add: resetPassword_found [OF found] sendTokenResponse_def)
  show ?thesis
    using st found out by (simp add: forgotPassword_sent [OF f])
qed

text \<open>Claim C9 on the sample store: a token issued at 1000 and redeemed at 1800999.\<close>

theorem reset_token_round_trip_witness:
  "trace (forgotPassword sample_env [alice] (Some ''a@x.io'') 1000 [171, 205] True) =
     [Saved (alice\<lparr>resetPasswordToken := Some ''sha:abcd'', resetPasswordExpire := Some 1801000\<rparr>),
      Mailed (PasswordReset (Some ''a@x.io'') ''http://localhost:5173/reset-password/abcd''
                (Some ''Alice'')) True] \<and>
   findOne (reset_filter ''sha:abcd'' 1800999)
     (store_of (forgotPassword sample_env [alice] (Some ''a@x.io'') 1000 [171, 205] True)) =
     Some (alice\<lparr>resetPasswordToken := Some ''sha:abcd'', resetPasswordExpire := Some 1801000\<rparr>) \<and>
   outcome (resetPassword sample_env
              (store_of (forgotPassword sample_env [alice] (Some ''a@x.io'') 1000 [171, 205] True))
              ''abcd'' (Some ''newpw'') 1800999) =
     Respond 200 (TokenBody ''jwt.1'' (UserView 1 (Some ''Alice'') (Some ''a@x.io'')) False)"
proof -
  have fresh: "\<forall>v\<in>set [alice]. resetPasswordToken v \<noteq> Some (sha256_hex sample_env (toString_hex [171, 205]))"
    by (simp add: alice_def)
  have intime: "(1800999::int) < 1000 + 30 * 60 * 1000" by simp
  note t = reset_token_round_trip [OF findOne_alice fresh intime, of "Some ''newpw''"]
  have v: "validate sample_env (alice\<lparr>password := Some ''newpw'', resetPasswordToken := None,
                                resetPasswordExpire := None\<rparr>)"
    by (simp add: sample_env_def alice_def falsy_def)
  have tok: "getSignedJwtToken sample_env (alice\<lparr>resetPasswordToken := None, resetPasswordExpire := None,
                               password := x\<rparr>) = ''jwt.1''" for x
    by (simp add: sample_env_def alice_def toString.simps digit_char_def)
  have fu: "frontendUrl sample_env = ''http://localhost:5173''"
    by (simp add: frontendUrl_def sample_env_def falsy_def)
  have al: "email alice = Some ''a@x.io''" "name alice = Some ''Alice''" "uid alice = 1"
    by (simp_all add: alice_def)
  note t2 = t [THEN conjunct2, THEN conjunct1]
  note t3 = t [THEN conjunct2, THEN conjunct2, THEN conjunct1]
  note t4 = t [THEN conjunct2, THEN conjunct2, THEN conjunct2]
  from t2 t3 t4 v show ?thesis
    by (simp add: toString_hex_abcd sha_sample tok fu al)
qed

text \<open>
  Claim C10, as the code has it. \<open>optionalAuth\<close> always calls \<open>next\<close> and never responds.
  When the header starts with \<open>Bearer\<close> and its token verifies, \<open>req.user\<close> is assigned the
  result of \<open>findById\<close>: the user, or \<open>null\<close> when no user has the decoded identifier. In
  every other case the request is passed on unchanged. So \<open>req.user\<close> holds a user after
  the middleware only when it held that user before or the token verified and resolved to
  that user.
\<close>

theorem optionalAuth_always_next:
  "(\<exists>req'. optionalAuth e db req = Next req') \<and>
   (\<forall>a t i. authorization req = Some a \<and> startsWith a ''Bearer'' \<and>
        second (split_on CHR '' '' a) = Some t \<and> t \<noteq> [] \<and> jwt_verify e t = Some i \<longrightarrow>
      optionalAuth e db req =
        Next (req\<lparr>req_user := (case findById db i of None \<Rightarrow> Null | Some u \<Rightarrow> Found u)\<rparr>)) \<and>
   (\<not> (\<exists>a t i. authorization req = Some a \<and> startsWith a ''Bearer'' \<and>
        second (split_on CHR '' '' a) = Some t \<and> t \<noteq> [] \<and> jwt_verify e t = Some i) \<longrightarrow>
      optionalAuth e db req = Next req) \<and>
   (\<forall>req' u. optionalAuth e db req = Next req' \<and> req_user req' = Found u \<longrightarrow>
      req_user req = Found u \<or>
      (\<exists>a t i. authorization req = Some a \<and> startsWith a ''Bearer'' \<and>
         second (split_on CHR '' '' a) = Some t \<and> t \<noteq> [] \<and>
         jwt_verify e t = Some (Some i) \<and> findById db (Some i) = Some u))"
proof (intro conjI)
  show "\<exists>req'. optionalAuth e db req = Next req'"
    by (auto simp: optionalAuth_def split: option.splits)
  show "\<forall>a t i. authorization req = Some a \<and> startsWith a ''Bearer'' \<and>
        second (split_on CHR '' '' a) = Some t \<and> t \<noteq> [] \<and> jwt_verify e t = Some i \<longrightarrow>
      optionalAuth e db req =
        Next (req\<lparr>req_user := (case findById db i of None \<Rightarrow> Null | Some u \<Rightarrow> Found u)\<rparr>)"
    by (auto simp: optionalAuth_def bearer_def header_token_def verify_def falsy_def
          lookup_user_def startsWith_def split: option.splits)
  show "\<not> (\<exists>a t i. authorization req = Some a \<and> startsWith a ''Bearer'' \<and>
        second (split_on CHR '' '' a) = Some t \<and> t \<noteq> [] \<and> jwt_verify e t = Some i) \<longrightarrow>
      optionalAuth e db req = Next req"
    by (auto simp: optionalAuth_def bearer_def header_token_def verify_def falsy_def
          split: option.splits if_splits)
  show "\<forall>req' u. optionalAuth e db req = Next req' \<and> req_user req' = Found u \<longrightarrow>
      req_user req = Found u \<or>
      (\<exists>a t i. authorization req = Some a \<and> startsWith a ''Bearer'' \<and>
         second (split_on CHR '' '' a) = Some t \<and> t \<noteq> [] \<and>
         jwt_verify e t = Some (Some i) \<and> findById db (Some i) = Some u)"
    by (auto simp: optionalAuth_def bearer_def header_token_def verify_def falsy_def
          lookup_user_def findById_def startsWith_def split: option.splits if_splits)
qed

text \<open>
  Claim C10 on the sample store: a valid token, a token for an unknown user, a header that
  does not start with \<open>Bearer\<close>.
\<close>

theorem optionalAuth_always_next_witness:
  "optionalAuth sample_env [alice] \<lparr>authorization = Some ''Bearer jwt.1'', req_user = Unset\<rparr> =
     Next \<lparr>authorization = Some ''Bearer jwt.1'', req_user = Found alice\<rparr> \<and>
   optionalAuth sample_env [alice] \<lparr>authorization = Some ''Bearer jwt.7'', req_user = Unset\<rparr> =
     Next \<lparr>authorization = Some ''Bearer jwt.7'', req_user = Null\<rparr> \<and>
   optionalAuth sample_env [alice] \<lparr>authorization = Some ''Basic abc'', req_user = Unset\<rparr> =
     Next \<lparr>authorization = Some ''Basic abc'', req_user = Unset\<rparr>"
proof -
  have h1: "authorization \<lparr>authorization = Some ''Bearer jwt.1'', req_user = Unset\<rparr> = Some ''Bearer jwt.1'' \<and>
      startsWith ''Bearer jwt.1'' ''Bearer'' \<and>
      second (split_on CHR '' '' ''Bearer jwt.1'') = Some ''jwt.1'' \<and> ''jwt.1'' \<noteq> [] \<and>
      jwt_verify sample_env ''jwt.1'' = Some (Some 1)"
    by (simp add: second_def startsWith_def sample_env_def)
  have h7: "authorization \<lparr>authorization = Some ''Bearer jwt.7'', req_user = Unset\<rparr> = Some ''Bearer jwt.7'' \<and>
      startsWith ''Bearer jwt.7'' ''Bearer'' \<and>
      second (split_on CHR '' '' ''Bearer jwt.7'') = Some ''jwt.7'' \<and> ''jwt.7'' \<noteq> [] \<and>
      jwt_verify sample_env ''jwt.7'' = Some (Some 7)"
    by (simp add: second_def startsWith_def sample_env_def)
  have hb: "\<not> (\<exists>a t i. authorization \<lparr>authorization = Some ''Basic abc'', req_user = Unset\<rparr> = Some a \<and>
      startsWith a ''Bearer'' \<and> second (split_on CHR '' '' a) = Some t \<and> t \<noteq> [] \<and>
      jwt_verify sample_env t = Some i)"
    by (simp add: startsWith_def)
  note g1 = optionalAuth_always_next [of sample_env "[alice]"
      "\<lparr>authorization = Some ''Bearer jwt.1'', req_user = Unset\<rparr>",
      THEN conjunct2, THEN conjunct1, THEN spec, THEN spec, THEN spec, THEN mp, OF h1]
  note g7 = optionalAuth_always_next [of sample_env "[alice]"
      "\<lparr>authorization = Some ''Bearer jwt.7'', req_user = Unset\<rparr>",
      THEN conjunct2, THEN conjunct1, THEN spec, THEN spec, THEN spec, THEN mp, OF h7]
  note gb = optionalAuth_always_next [of sample_env "[alice]"
      "\<lparr>authorization = Some ''Basic abc'', req_user = Unset\<rparr>",
      THEN conjunct2, THEN conjunct2, THEN conjunct1, THEN mp, OF hb]
  show ?thesis
    using g1 g7 gb by (simp add: findById_alice) (simp add: findById_def alice_def)
qed

text \<open>
  Claim C10 as stated fails where the token verifies and no user has its identifier:
  \<open>req.user\<close> is not left unset, it is assigned \<open>null\<close>.
\<close>

theorem optionalAuth_assigns_null_counterexample:
  "optionalAuth sample_env [alice] \<lparr>authorization = Some ''Bearer jwt.7'', req_user = Unset\<rparr> =
     Next \<lparr>authorization = Some ''Bearer jwt.7'', req_user = Null\<rparr> \<and>
   jwt_verify sample_env ''jwt.7'' = Some (Some 7) \<and>
   findById [alice] (Some 7) = None"
  by (simp add: optionalAuth_def bearer_def header_token_def second_def startsWith_def verify_def
        falsy_def lookup_user_def findById_def sample_env_def alice_def)

end
